theory Spec2Isabelle
  imports Complex_Main "HOL-Library.Sublist"
begin

section \<open>JavaScript strings\<close>

text \<open>
  A JavaScript string is a sequence of UTF-16 code units. Every Georgian letter used by the
  extension lies in the Basic Multilingual Plane (U+10D0 .. U+10FF), so it is one code unit.
  Code units are natural numbers; ASCII text is written with \<open>ascii\<close>.
\<close>

type_synonym jsstring = "nat list"

definition ascii :: "string \<Rightarrow> jsstring" where
  "ascii s = map of_char s"

text \<open>\<open>String.prototype.includes\<close>: the pattern occurs as a contiguous substring.\<close>

fun includesStr :: "jsstring \<Rightarrow> jsstring \<Rightarrow> bool" where
  "includesStr [] p = (p = [])"
| "includesStr (c # cs) p = (prefix p (c # cs) \<or> includesStr cs p)"

text \<open>
  White space as \<open>String.prototype.trim\<close> and the regular expression class \<open>\\s\<close> see it:
  the WhiteSpace and LineTerminator code points of ECMAScript.
\<close>

definition isLineTerminator :: "nat \<Rightarrow> bool" where
  "isLineTerminator c = (c = 0x0A \<or> c = 0x0D \<or> c = 0x2028 \<or> c = 0x2029)"

definition isSpace :: "nat \<Rightarrow> bool" where
  "isSpace c = (c = 0x09 \<or> c = 0x0B \<or> c = 0x0C \<or> c = 0x20 \<or> c = 0xA0 \<or> c = 0x1680
     \<or> (0x2000 \<le> c \<and> c \<le> 0x200A) \<or> c = 0x202F \<or> c = 0x205F \<or> c = 0x3000
     \<or> c = 0xFEFF \<or> isLineTerminator c)"

definition isDigit :: "nat \<Rightarrow> bool" where
  "isDigit c = (0x30 \<le> c \<and> c \<le> 0x39)"

definition trimStart :: "jsstring \<Rightarrow> jsstring" where
  "trimStart s = dropWhile isSpace s"

definition trim :: "jsstring \<Rightarrow> jsstring" where
  "trim s = rev (dropWhile isSpace (rev (dropWhile isSpace s)))"

section \<open>The Georgian vocabulary of the two sites\<close>

text \<open>kiravdeba dghiurad (for rent, daily): U+10E5 10D8 10E0 10D0 10D5 10D3 10D4 10D1 10D0, space, U+10D3 10E6 10D8 10E3 10E0 10D0 10D3.\<close>
definition kiravdebaDghiurad :: jsstring where
  "kiravdebaDghiurad = [0x10E5, 0x10D8, 0x10E0, 0x10D0, 0x10D5, 0x10D3, 0x10D4, 0x10D1, 0x10D0, 32,
     0x10D3, 0x10E6, 0x10D8, 0x10E3, 0x10E0, 0x10D0, 0x10D3]"

text \<open>kiravdeba (for rent).\<close>
definition kiravdeba :: jsstring where
  "kiravdeba = [0x10E5, 0x10D8, 0x10E0, 0x10D0, 0x10D5, 0x10D3, 0x10D4, 0x10D1, 0x10D0]"

text \<open>giravdeba (for pledge).\<close>
definition giravdeba :: jsstring where
  "giravdeba = [0x10D2, 0x10D8, 0x10E0, 0x10D0, 0x10D5, 0x10D3, 0x10D4, 0x10D1, 0x10D0]"

text \<open>iyideba (for sale).\<close>
definition iyideba :: jsstring where
  "iyideba = [0x10D8, 0x10E7, 0x10D8, 0x10D3, 0x10D4, 0x10D1, 0x10D0]"

section \<open>The page the extractor runs in\<close>

text \<open>
  Nodes are identified by numbers. The page gives what the script reads from the browser:
  \<open>document.body\<close> (null when the document has no body element), \<open>textContent\<close> and
  \<open>innerText\<close> of a node, \<open>location.href\<close>, the time of the call as \<open>toISOString\<close> prints
  it, which selectors the browser accepts, the elements \<open>querySelectorAll\<close> lists for a
  selector on the document (\<open>None\<close>) or below an element, \<open>closest\<close>, \<open>parentElement\<close>,
  \<open>nextElementSibling\<close>, \<open>getAttribute\<close> (null for a missing attribute), \<open>currentSrc\<close> and
  \<open>src\<close> of an image, and the address \<open>new URL(value, location.href)\<close> makes of a
  reference (\<open>None\<close> when it throws).
\<close>

type_synonym node = nat

datatype jserror = TypeError | SyntaxError | ErrorMsg jsstring

record page =
  body :: "node option"
  textContent :: "node \<Rightarrow> jsstring"
  innerText :: "node \<Rightarrow> jsstring"
  href :: jsstring
  now :: jsstring
  selectorValid :: "jsstring \<Rightarrow> bool"
  selectAll :: "node option \<Rightarrow> jsstring \<Rightarrow> node list"
  closest :: "node \<Rightarrow> jsstring \<Rightarrow> node option"
  parentElement :: "node \<Rightarrow> node option"
  nextElementSibling :: "node \<Rightarrow> node option"
  getAttribute :: "node \<Rightarrow> jsstring \<Rightarrow> jsstring option"
  currentSrc :: "node \<Rightarrow> jsstring"
  src :: "node \<Rightarrow> jsstring"
  resolveUrl :: "jsstring \<Rightarrow> jsstring option"

text \<open>\<open>a || b\<close> on strings: the empty string is falsy.\<close>

definition orElse :: "jsstring \<Rightarrow> jsstring \<Rightarrow> jsstring" where
  "orElse a b = (if a \<noteq> [] then a else b)"

subsection \<open>detectDealType (extractor)\<close>

definition dealTypes :: "jsstring list" where
  "dealTypes = [kiravdebaDghiurad, kiravdeba, giravdeba, iyideba]"

text \<open>The \<open>for (const dealType of dealTypes)\<close> loop: the first phrase found in the text.\<close>

fun firstIncluded :: "jsstring \<Rightarrow> jsstring list \<Rightarrow> jsstring option" where
  "firstIncluded pageText [] = None"
| "firstIncluded pageText (d # ds) =
     (if includesStr pageText d then Some d else firstIncluded pageText ds)"

text \<open>\<open>document.body.textContent || document.body.innerText || ''\<close>, for the body node \<open>b\<close>.\<close>

definition pageText :: "page \<Rightarrow> node \<Rightarrow> jsstring" where
  "pageText pg b = orElse (textContent pg b) (orElse (innerText pg b) [])"

text \<open>Reading a property of \<open>document.body\<close> throws a TypeError when the body is null.\<close>

definition detectDealType :: "page \<Rightarrow> jserror + jsstring option" where
  "detectDealType pg =
     (case body pg of
        None \<Rightarrow> Inl TypeError
      | Some b \<Rightarrow> Inr (firstIncluded (pageText pg b) dealTypes))"

section \<open>The form driver's retrying gates\<close>

text \<open>
  The fill steps reschedule themselves with \<open>setTimeout\<close>. A run is the list of what a step
  does, in order: clicking an element, rescheduling itself after a delay (ms), scheduling the
  next step of the pipeline after a delay (ms), logging, throwing.

  A locator is a query on the DOM of the moment, and the DOM may change between two timer
  ticks: a locator takes the number of the tick it is asked at. Within one invocation of a
  step nothing else runs, so two queries of one invocation see the same tick.
\<close>

datatype effect =
    Click node
  | RetryIn nat
  | ContinueIn nat
  | WarnAlternative jsstring
  | CallFillBathroomField
  | ErrorBathroomNotFound
  | DispatchEvent node jsstring
  | SetValue node jsstring
  | WarnNoOption jsstring
  | Throw jserror

subsection \<open>autofillListingForm: the category gate (trySelectCategory)\<close>

text \<open>udzravi koneba (real estate), the category's label.\<close>
definition udzraviKoneba :: jsstring where
  "udzraviKoneba = [0x10E3, 0x10EB, 0x10E0, 0x10D0, 0x10D5, 0x10D8, 32, 0x10E5, 0x10DD, 0x10DC,
     0x10D4, 0x10D1, 0x10D0]"

definition categoryNotFound :: jsstring where
  "categoryNotFound = ascii ''Could not find category element \"'' @ udzraviKoneba
     @ ascii ''\". Please ensure you are on the correct form page and it has fully loaded.''"

definition maxRetriesCategory :: nat where
  "maxRetriesCategory = 3"

function trySelectCategory :: "(nat \<Rightarrow> node option) \<Rightarrow> nat \<Rightarrow> effect list" where
  "trySelectCategory findCategoryElement retryCount =
     (case findCategoryElement retryCount of
        Some categoryElement \<Rightarrow> [Click categoryElement, ContinueIn 500]
      | None \<Rightarrow>
          if retryCount < maxRetriesCategory
          then RetryIn 500 # trySelectCategory findCategoryElement (Suc retryCount)
          else [Throw (ErrorMsg categoryNotFound)])"
  by pat_completeness auto
termination
  by (relation "measure (\<lambda>(f, retryCount). maxRetriesCategory - retryCount)") auto

text \<open>
  \<open>autofillListingForm\<close> throws on a missing listing, queries the category once (the result
  is overwritten by the first attempt), and starts the attempts with \<open>retryCount = 0\<close>.
\<close>

definition autofillListingForm :: "'listing option \<Rightarrow> (nat \<Rightarrow> node option) \<Rightarrow> effect list" where
  "autofillListingForm listingData findCategoryElement =
     (case listingData of
        None \<Rightarrow> [Throw (ErrorMsg (ascii ''No listing data provided''))]
      | Some _ \<Rightarrow> trySelectCategory findCategoryElement 0)"

subsection \<open>fillBathroomFieldWithRetry\<close>

definition maxRetriesBathroom :: nat where
  "maxRetriesBathroom = 5"

definition retryDelay :: nat where
  "retryDelay = 500"

text \<open>
  \<open>containerAt t\<close>: at tick \<open>t\<close> a span with the bathroom label has an ancestor that is the
  field's container. When the budget is used up the field is filled all the same, and the
  failure is logged.
\<close>

function tryFillBathroom :: "(nat \<Rightarrow> bool) \<Rightarrow> nat \<Rightarrow> effect list" where
  "tryFillBathroom containerAt retryCount =
     (let container = containerAt retryCount in
      if container \<or> retryCount \<ge> maxRetriesBathroom
      then CallFillBathroomField #
           (if \<not> container \<and> retryCount \<ge> maxRetriesBathroom then [ErrorBathroomNotFound] else [])
      else RetryIn retryDelay # tryFillBathroom containerAt (Suc retryCount))"
  by pat_completeness auto
termination
  by (relation "measure (\<lambda>(f, retryCount). maxRetriesBathroom - retryCount)") auto

definition fillBathroomFieldWithRetry :: "(nat \<Rightarrow> bool) \<Rightarrow> effect list" where
  "fillBathroomFieldWithRetry containerAt = tryFillBathroom containerAt 0"

subsection \<open>selectDealType\<close>

text \<open>
  The scraped deal type is a string or null; \<open>scrapedDealType || default\<close> takes the default
  for null and for the empty string.
\<close>

definition normalizeDealType :: "jsstring option \<Rightarrow> jsstring" where
  "normalizeDealType scrapedDealType =
     (let dealType = (case scrapedDealType of None \<Rightarrow> iyideba | Some s \<Rightarrow> orElse s iyideba) in
      if includesStr dealType kiravdeba then kiravdeba
      else if includesStr dealType iyideba then iyideba
      else if includesStr dealType giravdeba then giravdeba
      else dealType)"

definition dealTypeNotFound :: "jsstring \<Rightarrow> jsstring" where
  "dealTypeNotFound dealType = ascii ''Could not find deal type element \"'' @ dealType
     @ ascii ''\". Please ensure the form has fully loaded.''"

definition maxRetriesDealType :: nat where
  "maxRetriesDealType = 3"

definition alternativesOf :: "jsstring \<Rightarrow> jsstring list" where
  "alternativesOf dealType = (if dealType = iyideba then [kiravdeba] else [iyideba])"

text \<open>The \<open>for (const alt of alternatives)\<close> loop: the first alternative that is located.\<close>

fun tryAlternatives :: "(jsstring \<Rightarrow> node option) \<Rightarrow> jsstring list \<Rightarrow> (jsstring \<times> node) option" where
  "tryAlternatives findNow [] = None"
| "tryAlternatives findNow (alt # alts) =
     (case findNow alt of
        Some altElement \<Rightarrow> Some (alt, altElement)
      | None \<Rightarrow> tryAlternatives findNow alts)"

function trySelectDealType :: "(nat \<Rightarrow> jsstring \<Rightarrow> node option) \<Rightarrow> jsstring \<Rightarrow> nat \<Rightarrow> effect list" where
  "trySelectDealType findDealTypeElement dealType retryCount =
     (case findDealTypeElement retryCount dealType of
        Some dealTypeElement \<Rightarrow> [Click dealTypeElement, ContinueIn 1000]
      | None \<Rightarrow>
          if retryCount < maxRetriesDealType
          then RetryIn 500 # trySelectDealType findDealTypeElement dealType (Suc retryCount)
          else (case tryAlternatives (findDealTypeElement retryCount) (alternativesOf dealType) of
                  Some (alt, altElement) \<Rightarrow> [WarnAlternative alt, Click altElement, ContinueIn 1000]
                | None \<Rightarrow> [Throw (ErrorMsg (dealTypeNotFound dealType))]))"
  by pat_completeness auto
termination
  by (relation "measure (\<lambda>(f, d, retryCount). maxRetriesDealType - retryCount)") auto

definition selectDealType :: "jsstring option \<Rightarrow> (nat \<Rightarrow> jsstring \<Rightarrow> node option) \<Rightarrow> effect list" where
  "selectDealType scrapedDealType findDealTypeElement =
     trySelectDealType findDealTypeElement (normalizeDealType scrapedDealType) 0"

subsection \<open>Example inputs\<close>

text \<open>a mikroraioni (microdistrict A) and its sibling III a mikroraioni.\<close>

definition aMikroraioni :: jsstring where
  "aMikroraioni = [0x10D0, 32, 0x10DB, 0x10D8, 0x10D9, 0x10E0, 0x10DD, 0x10E0, 0x10D0, 0x10D8,
     0x10DD, 0x10DC, 0x10D8]"

definition iiiAMikroraioni :: jsstring where
  "iiiAMikroraioni = [73, 73, 73, 32] @ aMikroraioni"

text \<open>A page with two options: node 1 reads III a mikroraioni, node 2 reads a mikroraioni.\<close>

definition siblingOptionsPage :: page where
  "siblingOptionsPage = \<lparr> body = Some 0,
     textContent = (\<lambda>n. if n = 1 then iiiAMikroraioni else if n = 2 then aMikroraioni else []),
     innerText = (\<lambda>n. []),
     href = [], now = [], selectorValid = (\<lambda>s. True), selectAll = (\<lambda>scope s. []),
     closest = (\<lambda>n s. None), parentElement = (\<lambda>n. None), nextElementSibling = (\<lambda>n. None),
     getAttribute = (\<lambda>n a. None), currentSrc = (\<lambda>n. []), src = (\<lambda>n. []),
     resolveUrl = (\<lambda>s. None) \<rparr>"

text \<open>A page whose body text holds a daily-rent phrase between other words.\<close>

definition dailyRentPage :: page where
  "dailyRentPage = \<lparr> body = Some 0,
     textContent = (\<lambda>n. ascii ''Flat '' @ kiravdebaDghiurad @ ascii '' 120''),
     innerText = (\<lambda>n. []),
     href = [], now = [], selectorValid = (\<lambda>s. True), selectAll = (\<lambda>scope s. []),
     closest = (\<lambda>n s. None), parentElement = (\<lambda>n. None), nextElementSibling = (\<lambda>n. None),
     getAttribute = (\<lambda>n a. None), currentSrc = (\<lambda>n. []), src = (\<lambda>n. []),
     resolveUrl = (\<lambda>s. None) \<rparr>"

text \<open>A form in which only the for-sale option can be located.\<close>

definition onlySaleForm :: "nat \<Rightarrow> jsstring \<Rightarrow> node option" where
  "onlySaleForm t dealType = (if dealType = iyideba then Some 7 else None)"

section \<open>JavaScript numbers and values\<close>

text \<open>
  A Number is NaN, an infinity or a finite value. A finite value is a rational: the model
  keeps the exact value that a decimal string denotes, and leaves out the rounding to
  binary64 and the sign of zero. None of the comparisons below depends on either.
\<close>

datatype jsnum = NaN | PosInf | NegInf | Fin rat

datatype jsval = JNum jsnum | JStr jsstring

definition truthy :: "jsval \<Rightarrow> bool" where
  "truthy v = (case v of JNum n \<Rightarrow> n \<noteq> NaN \<and> n \<noteq> Fin 0 | JStr s \<Rightarrow> s \<noteq> [])"

text \<open>\<open>x > k\<close> for a Number \<open>x\<close> and a finite constant \<open>k\<close>.\<close>

definition numGreater :: "jsnum \<Rightarrow> rat \<Rightarrow> bool" where
  "numGreater x k = (case x of NaN \<Rightarrow> False | PosInf \<Rightarrow> True | NegInf \<Rightarrow> False | Fin r \<Rightarrow> r > k)"

definition negNum :: "jsnum \<Rightarrow> jsnum" where
  "negNum x = (case x of NaN \<Rightarrow> NaN | PosInf \<Rightarrow> NegInf | NegInf \<Rightarrow> PosInf | Fin r \<Rightarrow> Fin (- r))"

subsection \<open>parseFloat\<close>

text \<open>
  \<open>parseFloat\<close> skips leading white space and reads the longest prefix that is a
  StrDecimalLiteral: an optional sign, then \<open>Infinity\<close> or digits with an optional
  fraction and an optional exponent. It gives NaN when no prefix is one.
\<close>

definition digitsVal :: "jsstring \<Rightarrow> nat" where
  "digitsVal ds = foldl (\<lambda>a c. 10 * a + (c - 48)) 0 ds"

definition scale10 :: "rat \<Rightarrow> int \<Rightarrow> rat" where
  "scale10 x e = (if e < 0 then x / 10 ^ nat (- e) else x * 10 ^ nat e)"

text \<open>The value of an ExponentPart at the head of the string; 0 when there is none.\<close>

definition exponentPart :: "jsstring \<Rightarrow> int" where
  "exponentPart r =
     (case r of
        [] \<Rightarrow> 0
      | e # r1 \<Rightarrow>
          if e = 0x65 \<or> e = 0x45
          then (case r1 of
                  [] \<Rightarrow> 0
                | sg # r2 \<Rightarrow>
                    if sg = 0x2D then - int (digitsVal (takeWhile isDigit r2))
                    else if sg = 0x2B then int (digitsVal (takeWhile isDigit r2))
                    else int (digitsVal (takeWhile isDigit r1)))
          else 0)"

definition parseUnsigned :: "jsstring \<Rightarrow> jsnum" where
  "parseUnsigned t =
     (if prefix (ascii ''Infinity'') t then PosInf
      else
        let ip = takeWhile isDigit t;
            r1 = dropWhile isDigit t;
            hasPoint = (r1 \<noteq> [] \<and> hd r1 = 0x2E);
            fp = (if hasPoint then takeWhile isDigit (tl r1) else []);
            r2 = (if hasPoint then dropWhile isDigit (tl r1) else r1)
        in if ip = [] \<and> fp = [] then NaN
           else Fin (scale10 (of_nat (digitsVal ip) + of_nat (digitsVal fp) / 10 ^ length fp)
                       (exponentPart r2)))"

definition parseFloat :: "jsstring \<Rightarrow> jsnum" where
  "parseFloat s =
     (case trimStart s of
        [] \<Rightarrow> NaN
      | c # r \<Rightarrow>
          if c = 0x2D then negNum (parseUnsigned r)
          else if c = 0x2B then parseUnsigned r
          else parseUnsigned (c # r))"

subsection \<open>Number to string, lower case\<close>

function natToDigits :: "nat \<Rightarrow> jsstring" where
  "natToDigits n = (if n < 10 then [48 + n] else natToDigits (n div 10) @ [48 + n mod 10])"
  by pat_completeness auto
termination
  by (relation "measure id") auto

declare natToDigits.simps [simp del]

fun fracDigits :: "nat \<Rightarrow> rat \<Rightarrow> jsstring" where
  "fracDigits 0 f = []"
| "fracDigits (Suc n) f =
     (if f = 0 then []
      else (48 + nat \<lfloor>10 * f\<rfloor>) # fracDigits n (10 * f - of_int \<lfloor>10 * f\<rfloor>))"

text \<open>
  \<open>Number.prototype.toString\<close> of a positive value prints the decimal digits of the
  value, in positional notation from 1e-6 up to (but not including) 1e21 and in exponent
  notation outside this range.

  Positional notation: the integer part, and the digits of the fraction when there is one
  (at most 20 of them; a binary64 value has fewer significant digits).
\<close>

definition posToString :: "rat \<Rightarrow> jsstring" where
  "posToString r =
     natToDigits (nat \<lfloor>r\<rfloor>) @
     (if r = of_int \<lfloor>r\<rfloor> then [] else 0x2E # fracDigits 20 (r - of_int \<lfloor>r\<rfloor>))"

text \<open>
  The zeros between the point and the first digit of a fraction \<open>r\<close> with \<open>0 < r < 1\<close>. The
  rounds are bounded by the denominator of \<open>r\<close>, which is more than the number of zeros.
\<close>

primrec leadingZeros :: "nat \<Rightarrow> rat \<Rightarrow> nat" where
  "leadingZeros 0 r = 0"
| "leadingZeros (Suc rounds) r =
     (if 10 * r < 1 then Suc (leadingZeros rounds (10 * r)) else 0)"

text \<open>The exponent \<open>e\<close> of a positive value \<open>r\<close>: \<open>10 ^ e \<le> r < 10 ^ (e + 1)\<close>.\<close>

definition decimalExponent :: "rat \<Rightarrow> int" where
  "decimalExponent r =
     (if 1 \<le> r then int (length (natToDigits (nat \<lfloor>r\<rfloor>))) - 1
      else - 1 - int (leadingZeros (nat (snd (quotient_of r))) r))"

text \<open>
  Exponent notation: the digits with the point after the first one, \<open>e\<close>, the sign of the
  exponent and its digits, as in \<open>1e-7\<close> and \<open>1.5e+21\<close>.
\<close>

definition expToString :: "rat \<Rightarrow> jsstring" where
  "expToString r =
     (let e = decimalExponent r in
      posToString (scale10 r (- e)) @ [0x65] @ (if e < 0 then 0x2D else 0x2B) # natToDigits (nat \<bar>e\<bar>))"

definition absToString :: "rat \<Rightarrow> jsstring" where
  "absToString r =
     (if r = 0 \<or> (1 / 10 ^ 6 \<le> r \<and> r < 10 ^ 21) then posToString r else expToString r)"

definition numToString :: "jsnum \<Rightarrow> jsstring" where
  "numToString x =
     (case x of
        NaN \<Rightarrow> ascii ''NaN''
      | PosInf \<Rightarrow> ascii ''Infinity''
      | NegInf \<Rightarrow> ascii ''-Infinity''
      | Fin r \<Rightarrow> if r < 0 then 0x2D # absToString (- r) else absToString r)"

definition toStringVal :: "jsval \<Rightarrow> jsstring" where
  "toStringVal v = (case v of JNum n \<Rightarrow> numToString n | JStr s \<Rightarrow> s)"

text \<open>
  \<open>parseFloat\<close> of a value converts it to a string first. For a Number the string that
  \<open>Number.prototype.toString\<close> prints reads back as the same Number, so the composite is
  the identity on Numbers.
\<close>

definition parseFloatVal :: "jsval \<Rightarrow> jsnum" where
  "parseFloatVal v = (case v of JNum n \<Rightarrow> n | JStr s \<Rightarrow> parseFloat s)"

text \<open>
  \<open>String.prototype.toLowerCase\<close> on the Latin capitals and on the Georgian Mtavruli
  capitals (U+1C90 .. U+1CBA, U+1CBD .. U+1CBF, which lower-case to U+10D0 onwards). Other
  code units are left as they are: none of them lower-cases to a Georgian letter or to a
  space, which is all the tests below look for.
\<close>

definition lowerUnit :: "nat \<Rightarrow> nat" where
  "lowerUnit c =
     (if 0x41 \<le> c \<and> c \<le> 0x5A then c + 0x20
      else if (0x1C90 \<le> c \<and> c \<le> 0x1CBA) \<or> (0x1CBD \<le> c \<and> c \<le> 0x1CBF) then c - 0xBC0
      else c)"

definition toLowerCase :: "jsstring \<Rightarrow> jsstring" where
  "toLowerCase s = map lowerUnit s"

subsection \<open>Objects\<close>

text \<open>
  An object with string keys is the list of its properties in the order \<open>Object.keys\<close>
  gives them; a missing property reads as undefined (\<open>None\<close>).
\<close>

type_synonym jsobject = "(jsstring \<times> jsval) list"

definition getProp :: "jsobject \<Rightarrow> jsstring \<Rightarrow> jsval option" where
  "getProp obj k = map_of obj k"

text \<open>\<open>a || b\<close> on possibly undefined values.\<close>

definition orVal :: "jsval option \<Rightarrow> jsval option \<Rightarrow> jsval option" where
  "orVal a b = (case a of Some v \<Rightarrow> if truthy v then Some v else b | None \<Rightarrow> b)"

section \<open>Field locator: option matching\<close>

text \<open>
  The option lists of the rooms field and of the bathroom field are matched the same way:
  the first option whose trimmed text equals the text searched for; if there is none, the
  first option whose trimmed text contains it or is contained in it.
\<close>

definition matchingOption :: "page \<Rightarrow> node list \<Rightarrow> jsstring \<Rightarrow> node option" where
  "matchingOption pg optionDivs searchText =
     (case find (\<lambda>d. trim (textContent pg d) = searchText) optionDivs of
        Some d \<Rightarrow> Some d
      | None \<Rightarrow>
          find (\<lambda>d. includesStr (trim (textContent pg d)) searchText
                    \<or> includesStr searchText (trim (textContent pg d))) optionDivs)"

text \<open>
  The street options of the location form (\<open>fillLocationForm\<close>): exact text, then an option
  that starts with the street value, then the shortest option that contains it.
  \<open>Array.prototype.sort\<close> is stable, as \<open>sort_key\<close> is.
\<close>

definition matchingStreetOption :: "page \<Rightarrow> node list \<Rightarrow> jsstring \<Rightarrow> node option" where
  "matchingStreetOption pg streetOptions streetValue =
     (case find (\<lambda>opt. trim (textContent pg opt) = streetValue) streetOptions of
        Some opt \<Rightarrow> Some opt
      | None \<Rightarrow>
          (case find (\<lambda>opt. prefix streetValue (trim (textContent pg opt))) streetOptions of
             Some opt \<Rightarrow> Some opt
           | None \<Rightarrow>
               (let containingOptions =
                      filter (\<lambda>opt. includesStr (trim (textContent pg opt)) streetValue) streetOptions
                in case sort_key (\<lambda>opt. length (trim (textContent pg opt))) containingOptions of
                     [] \<Rightarrow> None
                   | opt # _ \<Rightarrow> Some opt)))"

section \<open>Numeric-option fields of the form\<close>

text \<open>otakhi (room), the key of the room count.\<close>
definition otakhi :: jsstring where
  "otakhi = [0x10DD, 0x10D7, 0x10D0, 0x10EE, 0x10D8]"

text \<open>ar akvs (does not have) and ara (no).\<close>
definition arAkvs :: jsstring where
  "arAkvs = [0x10D0, 0x10E0, 32, 0x10D0, 0x10E5, 0x10D5, 0x10E1]"

definition ara :: jsstring where
  "ara = [0x10D0, 0x10E0, 0x10D0]"

subsection \<open>fillRoomsField\<close>

text \<open>The text searched for among the room options (\<open>roomText\<close>).\<close>

definition roomText :: "jsval \<Rightarrow> jsstring" where
  "roomText roomValue =
     (let roomNumber = parseFloatVal roomValue in
      if roomNumber \<noteq> NaN \<and> numGreater roomNumber 8 then ascii ''8+''
      else trim (toStringVal roomValue))"

text \<open>
  \<open>roomInputContainer\<close> is the element \<open>#room-input\<close> with its option divs, when the page
  has it; \<open>roomsField\<close> is the plain input the function falls back to.
\<close>

definition fillRoomsField ::
  "page \<Rightarrow> jsobject option \<Rightarrow> (node \<times> node list) option \<Rightarrow> node option \<Rightarrow> effect list" where
  "fillRoomsField pg propertyDetails roomInputContainer roomsField =
     (case propertyDetails of
        None \<Rightarrow> []
      | Some pd \<Rightarrow>
          (case getProp pd otakhi of
             None \<Rightarrow> []
           | Some roomValue \<Rightarrow>
               if \<not> truthy roomValue then []
               else (case roomInputContainer of
                       Some (container, optionDivs) \<Rightarrow>
                         (case matchingOption pg optionDivs (roomText roomValue) of
                            Some opt \<Rightarrow> [Click opt, DispatchEvent container (ascii ''change'')]
                          | None \<Rightarrow> [WarnNoOption (roomText roomValue)])
                     | None \<Rightarrow>
                         (case roomsField of
                            Some field \<Rightarrow>
                              [SetValue field (toStringVal roomValue),
                               DispatchEvent field (ascii ''input''),
                               DispatchEvent field (ascii ''change'')]
                          | None \<Rightarrow> []))))"

subsection \<open>fillBathroomField\<close>

text \<open>The keys under which the bathroom count may be stored, and the key fragments.\<close>

definition scTsertilebiDot :: jsstring where
  "scTsertilebiDot = [0x10E1, 0x10EA, 46, 0x10EC, 0x10D4, 0x10E0, 0x10E2, 0x10D8, 0x10DA, 0x10D4, 0x10D1, 0x10D8]"

definition scTsertilebi :: jsstring where
  "scTsertilebi = [0x10E1, 0x10EA, 32, 0x10EC, 0x10D4, 0x10E0, 0x10E2, 0x10D8, 0x10DA, 0x10D4, 0x10D1, 0x10D8]"

definition svTsertili :: jsstring where
  "svTsertili = [0x10E1, 0x10D5, 46, 0x10EC, 0x10D4, 0x10E0, 0x10E2, 0x10D8, 0x10DA, 0x10D8]"

definition sveliTsertili :: jsstring where
  "sveliTsertili = [0x10E1, 0x10D5, 0x10D4, 0x10DA, 0x10D8, 32, 0x10EC, 0x10D4, 0x10E0, 0x10E2, 0x10D8, 0x10DA, 0x10D8]"

definition tsertil :: jsstring where
  "tsertil = [0x10EC, 0x10D4, 0x10E0, 0x10E2, 0x10D8, 0x10DA]"

definition sveli :: jsstring where
  "sveli = [0x10E1, 0x10D5, 0x10D4, 0x10DA, 0x10D8]"

definition scFragment :: jsstring where
  "scFragment = [0x10E1, 0x10EA]"

definition bathroomKeyed :: "jsobject \<Rightarrow> jsval option" where
  "bathroomKeyed obj =
     orVal (getProp obj scTsertilebiDot)
       (orVal (getProp obj scTsertilebi)
          (orVal (getProp obj svTsertili) (getProp obj sveliTsertili)))"

definition isFalsy :: "jsval option \<Rightarrow> bool" where
  "isFalsy v = (case v of None \<Rightarrow> True | Some x \<Rightarrow> \<not> truthy x)"

text \<open>
  The value looked up by \<open>fillBathroomField\<close>: the exact keys of the additional
  parameters, then their first key with a bathroom fragment, then the exact keys of the
  property details. \<open>None\<close> is null or undefined, on which the function returns.
\<close>

definition bathroomValueOf :: "jsobject option \<Rightarrow> jsobject option \<Rightarrow> jsval option" where
  "bathroomValueOf propertyDetails additionalParameters =
     (let v1 = (case additionalParameters of
                  None \<Rightarrow> None
                | Some ap \<Rightarrow>
                    (let v = bathroomKeyed ap in
                     if isFalsy v
                     then (case filter (\<lambda>key. includesStr key tsertil \<or> includesStr key sveli
                                              \<or> includesStr key scFragment) (map fst ap) of
                             [] \<Rightarrow> v
                           | key # _ \<Rightarrow> getProp ap key)
                     else v))
      in if isFalsy v1
         then (case propertyDetails of None \<Rightarrow> v1 | Some pd \<Rightarrow> bathroomKeyed pd)
         else v1)"

text \<open>The text searched for among the bathroom options (\<open>bathroomText\<close>).\<close>

definition bathroomText :: "jsval \<Rightarrow> jsstring" where
  "bathroomText bathroomValue =
     (if bathroomValue = JNum (Fin 0) \<or> bathroomValue = JStr (ascii ''0'')
         \<or> includesStr (toLowerCase (toStringVal bathroomValue)) arAkvs
         \<or> includesStr (toLowerCase (toStringVal bathroomValue)) ara
      then arAkvs
      else (let bathroomNumber = parseFloatVal bathroomValue in
            if bathroomNumber \<noteq> NaN
            then (if numGreater bathroomNumber 5 then ascii ''5+'' else numToString bathroomNumber)
            else trim (toStringVal bathroomValue)))"

text \<open>
  \<open>bathroomContainer\<close> is the container the label strategies find, with its option divs.
\<close>

definition fillBathroomField ::
  "page \<Rightarrow> jsobject option \<Rightarrow> jsobject option \<Rightarrow> (node \<times> node list) option \<Rightarrow> effect list" where
  "fillBathroomField pg propertyDetails additionalParameters bathroomContainer =
     (case bathroomValueOf propertyDetails additionalParameters of
        None \<Rightarrow> []
      | Some bathroomValue \<Rightarrow>
          (case bathroomContainer of
             Some (container, optionDivs) \<Rightarrow>
               (case matchingOption pg optionDivs (bathroomText bathroomValue) of
                  Some opt \<Rightarrow> [Click opt, DispatchEvent container (ascii ''change'')]
                | None \<Rightarrow> [WarnNoOption (bathroomText bathroomValue)])
           | None \<Rightarrow> []))"

section \<open>Extractor: numeric attributes and the price\<close>

text \<open>sadzinebeli (bedroom) and parti (area); with otakhi, the numeric fields.\<close>

definition sadzinebeli :: jsstring where
  "sadzinebeli = [0x10E1, 0x10D0, 0x10EB, 0x10D8, 0x10DC, 0x10D4, 0x10D1, 0x10D4, 0x10DA, 0x10D8]"

definition parti :: jsstring where
  "parti = [0x10E4, 0x10D0, 0x10E0, 0x10D7, 0x10D8]"

definition numericFields :: "jsstring list" where
  "numericFields = [otakhi, sadzinebeli, parti]"

text \<open>\<open>str.replace(a, b)\<close> with one-character strings: the first occurrence only.\<close>

fun replaceFirstChar :: "nat \<Rightarrow> nat \<Rightarrow> jsstring \<Rightarrow> jsstring" where
  "replaceFirstChar a b [] = []"
| "replaceFirstChar a b (c # cs) = (if c = a then b # cs else c # replaceFirstChar a b cs)"

text \<open>The class \<open>[\\d.,]\<close>; \<open>replace(/[^\\d.,]/g, '')\<close> keeps exactly these code units.\<close>

definition isDigitOrSeparator :: "nat \<Rightarrow> bool" where
  "isDigitOrSeparator c = (isDigit c \<or> c = 0x2E \<or> c = 0x2C)"

subsection \<open>collectPropertyDetails: the value stored for a label\<close>

definition numericFieldValue :: "jsstring \<Rightarrow> jsval" where
  "numericFieldValue value =
     (let trimmed = trim value;
          cleanedValue =
            (if trimmed \<noteq> [] \<and> \<not> isDigit (last trimmed) then trim (butlast trimmed) else trimmed);
          numericValue = parseFloat (replaceFirstChar 0x2C 0x2E (filter isDigitOrSeparator cleanedValue))
      in if numericValue \<noteq> NaN then JNum numericValue else JStr value)"

definition propertyDetailValue :: "jsstring \<Rightarrow> jsstring \<Rightarrow> jsval" where
  "propertyDetailValue label value =
     (if label \<in> set numericFields then numericFieldValue value else JStr value)"

subsection \<open>parsePriceText\<close>

definition cleanPrice :: "jsstring \<Rightarrow> jsstring" where
  "cleanPrice text = filter isDigitOrSeparator (filter (\<lambda>c. \<not> (isSpace c \<or> c = 0xA0)) text)"

definition toNumber :: "jsstring \<Rightarrow> jsnum option" where
  "toNumber str = (let num = parseFloat str in if num = NaN then None else Some num)"

text \<open>\<open>lastIndexOf\<close> of a code unit: its last position, or -1.\<close>

fun lastIndexFrom :: "int \<Rightarrow> int \<Rightarrow> jsstring \<Rightarrow> nat \<Rightarrow> int" where
  "lastIndexFrom i found [] c = found"
| "lastIndexFrom i found (x # xs) c = lastIndexFrom (i + 1) (if x = c then i else found) xs c"

definition lastIndexOf :: "jsstring \<Rightarrow> nat \<Rightarrow> int" where
  "lastIndexOf s c = lastIndexFrom 0 (- 1) s c"

text \<open>\<open>split\<close> on a one-character separator.\<close>

fun splitOn :: "nat \<Rightarrow> jsstring \<Rightarrow> jsstring list" where
  "splitOn sep [] = [[]]"
| "splitOn sep (c # cs) =
     (if c = sep then [] # splitOn sep cs
      else (case splitOn sep cs of [] \<Rightarrow> [[c]] | p # ps \<Rightarrow> (c # p) # ps))"

text \<open>The result is a Number or null (\<open>None\<close>). A null or empty text gives null.\<close>

definition parsePriceText :: "jsstring \<Rightarrow> jsnum option" where
  "parsePriceText text =
     (if text = [] then None
      else
        let value = cleanPrice text in
        if value = [] then None
        else
          let hasComma = (0x2C \<in> set value); hasDot = (0x2E \<in> set value) in
          if hasComma \<and> hasDot then
            (if lastIndexOf value 0x2E > lastIndexOf value 0x2C
             then toNumber (filter (\<lambda>c. c \<noteq> 0x2C) value)
             else toNumber (replaceFirstChar 0x2C 0x2E (filter (\<lambda>c. c \<noteq> 0x2E) value)))
          else if hasComma then
            (let parts = splitOn 0x2C value; lastPart = last parts in
             if length lastPart = 3 \<and> length parts > 1 then toNumber (filter (\<lambda>c. c \<noteq> 0x2C) value)
             else if length lastPart \<le> 2 then toNumber (replaceFirstChar 0x2C 0x2E value)
             else toNumber (filter (\<lambda>c. c \<noteq> 0x2C) value))
          else if hasDot then
            (let parts = splitOn 0x2E value; lastPart = last parts in
             if length lastPart = 3 \<and> length parts > 1 then toNumber (filter (\<lambda>c. c \<noteq> 0x2E) value)
             else toNumber value)
          else toNumber value)"

text \<open>
  The exported variant of the scraper has no \<open>parsePriceText\<close>: it drops the last character
  of the trimmed price text, keeps digits and separators, turns the first comma into a dot
  and calls \<open>parseFloat\<close>.
\<close>

definition inlinePriceNumber :: "jsstring \<Rightarrow> jsnum option" where
  "inlinePriceNumber priceText =
     (let priceWithoutLastSymbol = butlast (trim priceText);
          cleanedPrice = replaceFirstChar 0x2C 0x2E (filter isDigitOrSeparator priceWithoutLastSymbol);
          priceNumber = parseFloat cleanedPrice
      in if priceNumber \<noteq> NaN then Some priceNumber else None)"

subsection \<open>The separator rule as the specification words it\<close>

text \<open>
  The reading of a cleaned price in which the right-most occurrence of \<open>mark\<close> is the decimal
  point and every other separator groups digits, and the reading in which every separator
  groups digits.
\<close>

definition decimalValue :: "jsstring \<Rightarrow> jsstring \<Rightarrow> jsnum" where
  "decimalValue ip fp = Fin (of_nat (digitsVal ip) + of_nat (digitsVal fp) / 10 ^ length fp)"

definition decimalReading :: "nat \<Rightarrow> jsstring \<Rightarrow> jsnum" where
  "decimalReading mark v =
     (let i = nat (lastIndexOf v mark)
      in decimalValue (filter isDigit (take i v)) (filter isDigit (drop (Suc i) v)))"

definition thousandsReading :: "jsstring \<Rightarrow> jsnum" where
  "thousandsReading v = Fin (of_nat (digitsVal (filter isDigit v)))"

text \<open>
  The rule of the specification: with both separators the right-most one is the decimal
  mark; with one kind of separator only, it is the decimal mark exactly when at most two
  digits follow its last occurrence and it occurs once, and a thousands separator
  otherwise.
\<close>

definition claimedPriceValue :: "jsstring \<Rightarrow> jsnum option" where
  "claimedPriceValue text =
     (let v = cleanPrice text;
          hasComma = (0x2C \<in> set v); hasDot = (0x2E \<in> set v);
          oneMarkDecimal = (\<lambda>mark. length (last (splitOn mark v)) \<le> 2 \<and> length (splitOn mark v) = 2)
      in if filter isDigit v = [] then None
         else if hasComma \<and> hasDot then
           Some (decimalReading (if lastIndexOf v 0x2E > lastIndexOf v 0x2C then 0x2E else 0x2C) v)
         else if hasComma then
           Some (if oneMarkDecimal 0x2C then decimalReading 0x2C v else thousandsReading v)
         else if hasDot then
           Some (if oneMarkDecimal 0x2E then decimalReading 0x2E v else thousandsReading v)
         else Some (thousandsReading v))"

section \<open>Regular expressions\<close>

text \<open>
  The regular expressions of the source are written as terms of \<open>re\<close> and run by a
  backtracking matcher that follows the ECMAScript semantics (without the \<open>u\<close>, \<open>m\<close>
  and \<open>s\<close> flags): alternatives are tried from left to right, a greedy quantifier
  tries one more iteration before it tries to stop and a lazy one the other way round, an
  iteration that consumes nothing is rejected, \<open>^\<close> and \<open>$\<close> hold at the two ends of the
  input only, and a lookahead keeps the captures of its first match.

  A matcher state is the code unit just before the position (none at the start of the
  input), the rest of the input, and the captures. \<open>matches r st\<close> lists the states in
  which a match of \<open>r\<close> from \<open>st\<close> can end, in the order in which backtracking tries them.
\<close>

datatype re =
    Cls "nat \<Rightarrow> bool"
  | Eps
  | Seq re re
  | Alt re re
  | Star bool re
  | Group nat re
  | Bol
  | Eol
  | WordB
  | Look re

type_synonym captures = "nat \<Rightarrow> jsstring option"

type_synonym mstate = "nat option \<times> jsstring \<times> captures"

definition prevOf :: "mstate \<Rightarrow> nat option" where
  "prevOf st = fst st"

definition restOf :: "mstate \<Rightarrow> jsstring" where
  "restOf st = fst (snd st)"

definition capsOf :: "mstate \<Rightarrow> captures" where
  "capsOf st = snd (snd st)"

text \<open>The class \<open>\\w\<close>, on which \<open>\\b\<close> rests: ASCII letters, digits and the underscore.\<close>

definition isWordChar :: "nat \<Rightarrow> bool" where
  "isWordChar c = ((0x30 \<le> c \<and> c \<le> 0x39) \<or> (0x41 \<le> c \<and> c \<le> 0x5A)
     \<or> (0x61 \<le> c \<and> c \<le> 0x7A) \<or> c = 0x5F)"

definition wordBefore :: "mstate \<Rightarrow> bool" where
  "wordBefore st = (case prevOf st of None \<Rightarrow> False | Some c \<Rightarrow> isWordChar c)"

definition wordAfter :: "mstate \<Rightarrow> bool" where
  "wordAfter st = (case restOf st of [] \<Rightarrow> False | c # _ \<Rightarrow> isWordChar c)"

text \<open>The text a group has consumed between the state it started in and the state it ends in.\<close>

definition setCapture :: "nat \<Rightarrow> mstate \<Rightarrow> mstate \<Rightarrow> mstate" where
  "setCapture i st st' =
     (prevOf st', restOf st',
      (capsOf st')(i := Some (take (length (restOf st) - length (restOf st')) (restOf st))))"

function star :: "bool \<Rightarrow> (mstate \<Rightarrow> mstate list) \<Rightarrow> mstate \<Rightarrow> mstate list" where
  "star greedy iter st =
     (let more = concat (map (\<lambda>st'. if length (restOf st') < length (restOf st)
                                      then star greedy iter st' else [])
                          (iter st))
      in if greedy then more @ [st] else st # more)"
  by pat_completeness auto
termination
  by (relation "measure (\<lambda>(g, iter, st). length (restOf st))") auto

declare star.simps [simp del]

primrec matches :: "re \<Rightarrow> mstate \<Rightarrow> mstate list" where
  "matches (Cls P) st =
     (case restOf st of
        [] \<Rightarrow> []
      | c # cs \<Rightarrow> if P c then [(Some c, cs, capsOf st)] else [])"
| "matches Eps st = [st]"
| "matches (Seq a b) st = concat (map (matches b) (matches a st))"
| "matches (Alt a b) st = matches a st @ matches b st"
| "matches (Star greedy a) st = star greedy (matches a) st"
| "matches (Group i a) st = map (setCapture i st) (matches a st)"
| "matches Bol st = (if prevOf st = None then [st] else [])"
| "matches Eol st = (if restOf st = [] then [st] else [])"
| "matches WordB st = (if wordBefore st \<noteq> wordAfter st then [st] else [])"
| "matches (Look a) st =
     (case matches a st of [] \<Rightarrow> [] | st' # _ \<Rightarrow> [(prevOf st, restOf st, capsOf st')])"

declare matches.simps [simp del]

text \<open>The code unit before the position, once \<open>u\<close> has been read from a state with \<open>p\<close>.\<close>

definition prevAfter :: "nat option \<Rightarrow> jsstring \<Rightarrow> nat option" where
  "prevAfter p u = (if u = [] then p else Some (last u))"

subsection \<open>Derived forms\<close>

definition Plus :: "bool \<Rightarrow> re \<Rightarrow> re" where
  "Plus greedy r = Seq r (Star greedy r)"

text \<open>\<open>r?\<close>, greedy.\<close>

definition Opt :: "re \<Rightarrow> re" where
  "Opt r = Alt r Eps"

definition seqs :: "re list \<Rightarrow> re" where
  "seqs rs = foldr Seq rs Eps"

definition alts :: "re \<Rightarrow> re list \<Rightarrow> re" where
  "alts r rs = foldl Alt r rs"

definition Chr :: "nat \<Rightarrow> re" where
  "Chr c = Cls (\<lambda>x. x = c)"

definition Lit :: "jsstring \<Rightarrow> re" where
  "Lit s = seqs (map Chr s)"

text \<open>
  With the \<open>i\<close> flag two code units match when their canonical forms are equal; the
  canonical form is the upper case, here on the Latin letters and on the Georgian Mkhedruli
  letters (whose capitals are the Mtavruli letters U+1C90 onwards). No other code unit has
  the canonical form of a code unit that occurs in the patterns below.
\<close>

definition canonicalize :: "nat \<Rightarrow> nat" where
  "canonicalize c =
     (if 0x61 \<le> c \<and> c \<le> 0x7A then c - 0x20
      else if (0x10D0 \<le> c \<and> c \<le> 0x10FA) \<or> (0x10FD \<le> c \<and> c \<le> 0x10FF) then c + 0xBC0
      else c)"

definition ChrI :: "nat \<Rightarrow> re" where
  "ChrI c = Cls (\<lambda>x. canonicalize x = canonicalize c)"

definition LitI :: "jsstring \<Rightarrow> re" where
  "LitI s = seqs (map ChrI s)"

text \<open>A class given by its members, with the \<open>i\<close> flag.\<close>

definition OneOfI :: "jsstring \<Rightarrow> re" where
  "OneOfI cs = Cls (\<lambda>x. canonicalize x \<in> canonicalize ` set cs)"

text \<open>The dot: any code unit but a line terminator.\<close>

definition anyChar :: re where
  "anyChar = Cls (\<lambda>x. \<not> isLineTerminator x)"

definition space :: re where
  "space = Cls isSpace"

subsection \<open>exec, match and replace\<close>

text \<open>
  The search for the left-most match: \<open>pre\<close> is the text before the position tried. The
  result is the text before the match, the state at its start and the state at its end.
\<close>

definition noCaptures :: captures where
  "noCaptures = (\<lambda>i. None)"

fun execFrom :: "re \<Rightarrow> nat option \<Rightarrow> jsstring \<Rightarrow> jsstring \<Rightarrow> (jsstring \<times> mstate) option" where
  "execFrom r prev pre [] =
     (case matches r (prev, [], noCaptures) of
        st # _ \<Rightarrow> Some (pre, st)
      | [] \<Rightarrow> None)"
| "execFrom r prev pre (c # cs) =
     (case matches r (prev, c # cs, noCaptures) of
        st # _ \<Rightarrow> Some (pre, st)
      | [] \<Rightarrow> execFrom r (Some c) (pre @ [c]) cs)"

definition regexExec :: "re \<Rightarrow> jsstring \<Rightarrow> (jsstring \<times> mstate) option" where
  "regexExec r s = execFrom r None [] s"

definition regexTest :: "re \<Rightarrow> jsstring \<Rightarrow> bool" where
  "regexTest r s = (regexExec r s \<noteq> None)"

text \<open>\<open>str.match(re)\<close> without the \<open>g\<close> flag: the captures of the left-most match, or null.\<close>

definition regexMatch :: "re \<Rightarrow> jsstring \<Rightarrow> captures option" where
  "regexMatch r s = map_option (\<lambda>(pre, st). capsOf st) (regexExec r s)"

text \<open>
  \<open>str.replace(re, f)\<close> without the \<open>g\<close> flag: the left-most match is replaced by what \<open>f\<close>
  makes of its captures.
\<close>

definition replaceRe :: "re \<Rightarrow> (captures \<Rightarrow> jsstring) \<Rightarrow> jsstring \<Rightarrow> jsstring" where
  "replaceRe r f s =
     (case regexExec r s of
        None \<Rightarrow> s
      | Some (pre, st) \<Rightarrow> pre @ f (capsOf st) @ restOf st)"

text \<open>
  With the \<open>g\<close> flag the search goes on after each match; after an empty match it moves on
  by one code unit, which is copied.
\<close>

function replaceAllFrom :: "re \<Rightarrow> (captures \<Rightarrow> jsstring) \<Rightarrow> nat option \<Rightarrow> jsstring \<Rightarrow> jsstring" where
  "replaceAllFrom r f prev rest =
     (case matches r (prev, rest, noCaptures) of
        [] \<Rightarrow> (case rest of [] \<Rightarrow> [] | c # cs \<Rightarrow> c # replaceAllFrom r f (Some c) cs)
      | st # _ \<Rightarrow>
          if length (restOf st) < length rest
          then f (capsOf st) @ replaceAllFrom r f (prevOf st) (restOf st)
          else (case rest of
                  [] \<Rightarrow> f (capsOf st)
                | c # cs \<Rightarrow> f (capsOf st) @ c # replaceAllFrom r f (Some c) cs))"
  by pat_completeness auto
termination
  by (relation "measure (\<lambda>(r, f, prev, rest). length rest)") auto

declare replaceAllFrom.simps [simp del]

definition replaceAllRe :: "re \<Rightarrow> (captures \<Rightarrow> jsstring) \<Rightarrow> jsstring \<Rightarrow> jsstring" where
  "replaceAllRe r f s = replaceAllFrom r f None s"

section \<open>Address transforms\<close>

subsection \<open>transformAddress (extractor)\<close>

text \<open>m/r, the abbreviation of mikroraioni (microdistrict).\<close>

definition mr :: jsstring where
  "mr = [0x10DB, 47, 0x10E0]"

definition mikroraioni :: jsstring where
  "mikroraioni = [0x10DB, 0x10D8, 0x10D9, 0x10E0, 0x10DD, 0x10E0, 0x10D0, 0x10D8, 0x10DD, 0x10DC, 0x10D8]"

text \<open>The pattern \<open>/^(.+?)\\s*-\\s*(.+?)\\s*m\\/r$/\<close>, with the Georgian m/r.\<close>

definition addressPattern :: re where
  "addressPattern =
     seqs [Bol, Group 1 (Plus False anyChar), Star True space, Chr 0x2D, Star True space,
           Group 2 (Plus False anyChar), Star True space, Lit mr, Eol]"

text \<open>
  Reading \<open>match[i]\<close> of a group that took no part in the match gives undefined, and
  \<open>undefined.trim()\<close> throws a TypeError.
\<close>

definition transformAddress :: "jsstring \<Rightarrow> jserror + jsstring" where
  "transformAddress address =
     (if address = [] then Inr address
      else (case regexMatch addressPattern address of
              None \<Rightarrow> Inr address
            | Some m \<Rightarrow>
                (case (m 1, m 2) of
                   (Some g1, Some g2) \<Rightarrow>
                     (let district = trim g1; microdistrict = trim g2
                      in Inr (microdistrict @ [32] @ mikroraioni @ ascii '' - '' @ district))
                 | _ \<Rightarrow> Inl TypeError)))"

subsection \<open>normalizeStreetForSs (form driver)\<close>

text \<open>The Georgian words of the street patterns, by their transliteration.\<close>

definition nutsubidzis :: jsstring where
  "nutsubidzis = [0x10DC, 0x10E3, 0x10EA, 0x10E3, 0x10D1, 0x10D8, 0x10EB, 0x10D8, 0x10E1]"

definition pl :: jsstring where
  "pl = [0x10DE, 0x10DA]"

definition plato :: jsstring where
  "plato = [0x10DE, 0x10DA, 0x10D0, 0x10E2, 0x10DD]"

definition kvart :: jsstring where
  "kvart = [0x10D9, 0x10D5, 0x10D0, 0x10E0, 0x10E2]"

definition kvartali :: jsstring where
  "kvartali = [0x10D9, 0x10D5, 0x10D0, 0x10E0, 0x10E2, 0x10D0, 0x10DA, 0x10D8]"

text \<open>The street-type words: k (street, abbreviated), kucha, gamz, chikhi, ch, shesakhvevi, shes.\<close>

definition kAbbr :: jsstring where
  "kAbbr = [0x10E5]"

definition kucha :: jsstring where
  "kucha = [0x10E5, 0x10E3, 0x10E9, 0x10D0]"

definition gamz :: jsstring where
  "gamz = [0x10D2, 0x10D0, 0x10DB, 0x10D6]"

definition chikhi :: jsstring where
  "chikhi = [0x10E9, 0x10D8, 0x10EE, 0x10D8]"

definition chAbbr :: jsstring where
  "chAbbr = [0x10E9]"

definition shesakhvevi :: jsstring where
  "shesakhvevi = [0x10E8, 0x10D4, 0x10E1, 0x10D0, 0x10EE, 0x10D5, 0x10D4, 0x10D5, 0x10D8]"

definition shes :: jsstring where
  "shes = [0x10E8, 0x10D4, 0x10E1]"

text \<open>The classes \<open>[IVX]\<close> and \<open>[IVX\\d]\<close> under the \<open>i\<close> flag.\<close>

definition roman :: re where
  "roman = OneOfI (ascii ''IVX'')"

definition romanOrDigit :: re where
  "romanOrDigit = Cls (\<lambda>x. canonicalize x \<in> canonicalize ` set (ascii ''IVX'') \<or> isDigit x)"

definition optDot :: re where
  "optDot = Opt (Chr 0x2E)"

text \<open>\<open>/^nutsubidzis\\s+pl\\.?\\s*([IVX]+)\\s*m\\/r\\.?\\s*[IVX\\d]+\\s*kvart\\.?$/i\<close>\<close>

definition nutsubidzePlatoRegex :: re where
  "nutsubidzePlatoRegex =
     seqs [Bol, LitI nutsubidzis, Plus True space, LitI pl, optDot, Star True space,
           Group 1 (Plus True roman), Star True space, LitI mr, optDot, Star True space,
           Plus True romanOrDigit, Star True space, LitI kvart, optDot, Eol]"

text \<open>\<open>/^(.+?)\\s*-\\s*([IVX]+)\\s*m\\/r\\s*([IVX\\d]+)\\s*kvart\\.?$/i\<close>\<close>

definition mkrKvRegex :: re where
  "mkrKvRegex =
     seqs [Bol, Group 1 (Plus False anyChar), Star True space, Chr 0x2D, Star True space,
           Group 2 (Plus True roman), Star True space, LitI mr, Star True space,
           Group 3 (Plus True romanOrDigit), Star True space, LitI kvart, optDot, Eol]"

text \<open>\<open>/\\bshes\\.\\b/gi\<close>\<close>

definition shesRegex :: re where
  "shesRegex = seqs [WordB, LitI shes, Chr 0x2E, WordB]"

text \<open>\<open>/\\s+[IVX]+\\s+(?=(k\\.?|kucha|chikhi|shesakhvevi|shes\\.?)\\b)/gi\<close>\<close>

definition branchNumberRegex :: re where
  "branchNumberRegex =
     seqs [Plus True space, Plus True roman, Plus True space,
           Look (Seq (Group 1 (alts (Seq (LitI kAbbr) optDot)
                                 [LitI kucha, LitI chikhi, LitI shesakhvevi, Seq (LitI shes) optDot]))
                     WordB)]"

text \<open>\<open>/\\s+(k\\.?|kucha|gamz\\.?|chikhi|ch\\.|shesakhvevi|shes\\.?)$/i\<close>\<close>

definition streetTypeRegex :: re where
  "streetTypeRegex =
     seqs [Plus True space,
           Group 1 (alts (Seq (LitI kAbbr) optDot)
                     [LitI kucha, Seq (LitI gamz) optDot, LitI chikhi, Seq (LitI chAbbr) (Chr 0x2E),
                      LitI shesakhvevi, Seq (LitI shes) optDot]),
           Eol]"

text \<open>\<open>/[,\\.\\s]+$/g\<close> and \<open>/\\s+/\<close>\<close>

definition trailingRegex :: re where
  "trailingRegex = seqs [Plus True (Cls (\<lambda>x. x = 0x2C \<or> x = 0x2E \<or> isSpace x)), Eol]"

definition spacesRegex :: re where
  "spacesRegex = Plus True space"

text \<open>A capture that a template reads; a group that took no part gives undefined.\<close>

definition constantly :: "jsstring \<Rightarrow> captures \<Rightarrow> jsstring" where
  "constantly t m = t"

definition normalizeStreetForSs :: "jsstring \<Rightarrow> jserror + jsstring" where
  "normalizeStreetForSs address =
     (if address = [] then Inr address
      else
        let normalized = trim address in
        case regexMatch nutsubidzePlatoRegex normalized of
          Some m0 \<Rightarrow>
            (case m0 1 of
               Some g1 \<Rightarrow> Inr (nutsubidzis @ [32] @ trim g1 @ [32] @ plato)
             | None \<Rightarrow> Inl TypeError)
        | None \<Rightarrow>
            (case regexMatch mkrKvRegex normalized of
               Some m1 \<Rightarrow>
                 (case (m1 1, m1 2, m1 3) of
                    (Some g1, Some g2, Some g3) \<Rightarrow>
                      (let rawDistrict = trim g1; mkrRoman = trim g2; kvartToken = trim g3;
                           district = replaceRe spacesRegex (constantly [32]) rawDistrict
                       in Inr (mkrRoman @ [32] @ mikroraioni @ ascii '', '' @ kvartToken @ [32]
                                 @ kvartali @ ascii '' - '' @ district))
                  | _ \<Rightarrow> Inl TypeError)
             | None \<Rightarrow>
                 (let s1 = replaceAllRe shesRegex (constantly ([32] @ shesakhvevi @ [32])) normalized;
                      s2 = replaceAllRe branchNumberRegex (constantly [32]) s1;
                      s3 = replaceRe streetTypeRegex (constantly []) s2;
                      s4 = replaceAllRe trailingRegex (constantly []) s3;
                      s5 = trim (replaceAllRe spacesRegex (constantly [32]) s4)
                  in if s5 \<noteq> [] then Inr s5 else Inr normalized)))"

text \<open>Example street names: the plateau address and aspindzis with street-type words.\<close>

definition plateauAddress :: jsstring where
  "plateauAddress = nutsubidzis @ [32] @ pl @ ascii ''. II '' @ mr @ ascii ''. I '' @ kvart @ [0x2E]"

definition aspindzis :: jsstring where
  "aspindzis = [0x10D0, 0x10E1, 0x10DE, 0x10D8, 0x10DC, 0x10EB, 0x10D8, 0x10E1]"

definition gldani :: jsstring where
  "gldani = [0x10D2, 0x10DA, 0x10D3, 0x10D0, 0x10DC, 0x10D8]"

text \<open>vazha-pshavela, a hyphenated place name.\<close>

definition vazhaPshavela :: jsstring where
  "vazhaPshavela = [0x10D5, 0x10D0, 0x10DF, 0x10D0, 45, 0x10E4, 0x10E8, 0x10D0, 0x10D5, 0x10D4, 0x10DA, 0x10D0]"

section \<open>The selector mapping (mappingLoader.js)\<close>

subsection \<open>parseCSVLine\<close>

text \<open>
  The loop over the line. Its state is the character before the position (\<open>prevChar\<close>,
  null at the start), the field being read, whether the position is inside quotes, the
  bracket depth and the fields read so far. A quote doubled inside quotes is read as one
  quote and the second one is skipped.
\<close>

definition openBrackets :: "nat set" where
  "openBrackets = {0x28, 0x5B, 0x7B}"

definition closeBrackets :: "nat set" where
  "closeBrackets = {0x29, 0x5D, 0x7D}"

fun parseCSVFrom ::
  "nat option \<Rightarrow> jsstring \<Rightarrow> jsstring \<Rightarrow> bool \<Rightarrow> nat \<Rightarrow> jsstring list \<Rightarrow> jsstring list" where
  "parseCSVFrom prevChar [] currentField insideQuotes bracketDepth fieldList =
     fieldList @ [trim currentField]"
| "parseCSVFrom prevChar (char # rest) currentField insideQuotes bracketDepth fieldList =
     (let isEscaped = (prevChar = Some 0x5C) in
      if char = 0x22 \<and> \<not> isEscaped then
        (if insideQuotes \<and> rest \<noteq> [] \<and> hd rest = 0x22
         then parseCSVFrom (Some 0x22) (tl rest) (currentField @ [0x22]) insideQuotes
                bracketDepth fieldList
         else parseCSVFrom (Some char) rest (currentField @ [char]) (\<not> insideQuotes)
                bracketDepth fieldList)
      else if char = 0x2C \<and> \<not> insideQuotes \<and> bracketDepth = 0 \<and> \<not> isEscaped then
        parseCSVFrom (Some char) rest [] insideQuotes bracketDepth (fieldList @ [trim currentField])
      else
        parseCSVFrom (Some char) rest (currentField @ [char]) insideQuotes
          (if \<not> insideQuotes \<and> \<not> isEscaped then
             (if char \<in> openBrackets then bracketDepth + 1
              else if char \<in> closeBrackets then bracketDepth - 1
              else bracketDepth)
           else bracketDepth)
          fieldList)"

definition parseCSVLine :: "jsstring \<Rightarrow> jsstring list" where
  "parseCSVLine line = parseCSVFrom None line [] False 0 []"

subsection \<open>loadMappings\<close>

text \<open>
  What \<open>fetch\<close> gives for the packaged \<open>mappings.csv\<close>: a rejection with an error, or a
  response with its \<open>ok\<close> flag, its status text and the text of its body.
\<close>

record response =
  ok :: bool
  statusText :: jsstring
  responseText :: jsstring

text \<open>\<open>csvText.trim().split('\\n').filter(line => line.trim())\<close>.\<close>

definition csvLines :: "jsstring \<Rightarrow> jsstring list" where
  "csvLines csvText = filter (\<lambda>line. trim line \<noteq> []) (splitOn 0x0A (trim csvText))"

text \<open>
  The mapping object, from attribute names to selectors. The \<open>forEach\<close> over the headers
  reads the selector at the same index, which is undefined past the end of the selectors.
\<close>

type_synonym mappings = "jsstring \<rightharpoonup> jsstring"

definition buildMappings :: "jsstring list \<Rightarrow> jsstring list \<Rightarrow> mappings" where
  "buildMappings headers selectors =
     fold (\<lambda>(header, selector) mappings.
             if header \<noteq> [] \<and> selector \<noteq> [] then mappings(header \<mapsto> selector) else mappings)
          (zip headers selectors) Map.empty"

text \<open>
  The body of \<open>loadMappings\<close> stands in a \<open>try\<close> whose \<open>catch\<close> logs the error and throws it
  again, so every error raised inside is the outcome of the call (\<open>Inl\<close>).
\<close>

definition loadMappings :: "jserror + response \<Rightarrow> jserror + mappings" where
  "loadMappings fetched =
     (case fetched of
        Inl error \<Rightarrow> Inl error
      | Inr response \<Rightarrow>
          if \<not> ok response
          then Inl (ErrorMsg (ascii ''Failed to load mappings.csv: '' @ statusText response))
          else
            let lines = csvLines (responseText response) in
            if length lines < 2
            then Inl (ErrorMsg (ascii ''mappings.csv must have at least 2 lines (header and data)''))
            else Inr (buildMappings (parseCSVLine (lines ! 0)) (parseCSVLine (lines ! 1))))"

text \<open>
  Both callers (\<open>executeScrapeOnActiveTab\<close> and \<open>scrapeListingsInParallel\<close>) start from
  \<open>let mappings = {}\<close> and assign the loaded mapping inside a \<open>try\<close> whose \<open>catch\<close> only
  warns; this is the mapping they hand to the extractor.
\<close>

definition mappingsForScrape :: "jserror + response \<Rightarrow> mappings" where
  "mappingsForScrape fetched =
     (case loadMappings fetched of
        Inl error \<Rightarrow> Map.empty
      | Inr mappings \<Rightarrow> mappings)"

section \<open>Extractor: scrapeListingFromDom\<close>

subsection \<open>Queries\<close>

text \<open>
  \<open>querySelector\<close> on the document (\<open>None\<close>) or below an element gives the first element
  that \<open>querySelectorAll\<close> lists. The selectors written in the script are valid CSS, so a
  query with one of them does not throw. A selector read from the mapping may be invalid,
  and the query then throws a SyntaxError; \<open>getFirstTextMatch\<close> is the only place where such
  a selector is used.
\<close>

definition querySelector :: "page \<Rightarrow> node option \<Rightarrow> jsstring \<Rightarrow> node option" where
  "querySelector pg scope selector =
     (case selectAll pg scope selector of [] \<Rightarrow> None | element # _ \<Rightarrow> Some element)"

definition querySelectorChecked :: "page \<Rightarrow> jsstring \<Rightarrow> jserror + node option" where
  "querySelectorChecked pg selector =
     (if selectorValid pg selector then Inr (querySelector pg None selector) else Inl SyntaxError)"

subsection \<open>normalizeSelector\<close>

text \<open>The patterns \<open>/\\\\\\[/\<close> and \<open>/\\\\\\]/\<close>: a backslash before a square bracket.\<close>

definition escapedOpenRegex :: re where
  "escapedOpenRegex = Lit [0x5C, 0x5B]"

definition escapedCloseRegex :: re where
  "escapedCloseRegex = Lit [0x5C, 0x5D]"

text \<open>The class \<open>[\\w-]\<close> and the pattern \<open>/\\.([\\w-]+)\\\\:([\\w-]+)/g\<close>.\<close>

definition isWordOrHyphen :: "nat \<Rightarrow> bool" where
  "isWordOrHyphen c = (isWordChar c \<or> c = 0x2D)"

definition tailwindRegex :: re where
  "tailwindRegex =
     seqs [Chr 0x2E, Group 1 (Plus True (Cls isWordOrHyphen)), Chr 0x5C, Chr 0x3A,
           Group 2 (Plus True (Cls isWordOrHyphen))]"

text \<open>A group in a template literal; an undefined one prints as \<open>undefined\<close>.\<close>

definition groupText :: "captures \<Rightarrow> nat \<Rightarrow> jsstring" where
  "groupText caps i = (case caps i of Some s \<Rightarrow> s | None \<Rightarrow> ascii ''undefined'')"

definition classContains :: "captures \<Rightarrow> jsstring" where
  \<open>classContains caps =
     ascii ''[class*="'' @ groupText caps 1 @ [0x3A] @ groupText caps 2 @ ascii ''"]''\<close>

text \<open>The result is a string or null (\<open>None\<close>); the empty selector is returned as it is.\<close>

definition normalizeSelector :: "jsstring \<Rightarrow> jsstring option" where
  "normalizeSelector selector =
     (if selector = [] then Some selector
      else if regexTest escapedOpenRegex selector \<or> regexTest escapedCloseRegex selector then None
      else Some (replaceAllRe tailwindRegex classContains selector))"

subsection \<open>getFirstTextMatch and scrapeMappedAttribute\<close>

text \<open>
  The loop over the selectors; a SyntaxError of the query is caught and the loop goes on.
  The result is the trimmed text of the first element found with a non-empty text, or null.
\<close>

fun getFirstTextMatch :: "page \<Rightarrow> jsstring list \<Rightarrow> jsstring option" where
  "getFirstTextMatch pg [] = None"
| "getFirstTextMatch pg (selector # selectors) =
     (if selector = [] then getFirstTextMatch pg selectors
      else
        (case normalizeSelector selector of
           None \<Rightarrow> getFirstTextMatch pg selectors
         | Some normalizedSelector \<Rightarrow>
             if normalizedSelector = [] then getFirstTextMatch pg selectors
             else
               (case querySelectorChecked pg normalizedSelector of
                  Inl error \<Rightarrow> getFirstTextMatch pg selectors
                | Inr None \<Rightarrow> getFirstTextMatch pg selectors
                | Inr (Some element) \<Rightarrow>
                    if textContent pg element \<noteq> [] then Some (trim (textContent pg element))
                    else getFirstTextMatch pg selectors)))"

definition FALLBACK_DESCRIPTION_SELECTORS :: "jsstring list" where
  \<open>FALLBACK_DESCRIPTION_SELECTORS =
    [ascii ''.description'',
      ascii ''.listing-description'',
      ascii ''[data-testid='' @ [39] @ ascii ''listing-description'' @ [39] @ ascii '']'']\<close>

definition FALLBACK_SHORT_DESCRIPTION_SELECTORS :: "jsstring list" where
  \<open>FALLBACK_SHORT_DESCRIPTION_SELECTORS =
    [ascii ''[data-testid='' @ [39] @ ascii ''short-description'' @ [39] @ ascii '']'',
      ascii ''.short-description'',
      ascii ''.listing-short-description'',
      ascii ''section [class*='' @ [39] @ ascii ''short'' @ [39] @ ascii ''][class*='' @ [39] @ ascii ''description'' @ [39] @ ascii '']'',
      ascii ''div.relative.w-full.p-5.pb-3.mt-4.bg-white.border.rounded-2xl.border-gray-20 .text-sm'',
      ascii ''div.relative.w-full.p-5.pb-3.mt-4.bg-white.border.rounded-2xl.border-gray-20'']\<close>

text \<open>The table of built-in selectors, by attribute name.\<close>

definition FALLBACK_SELECTORS :: "(jsstring \<times> jsstring list) list" where
  \<open>FALLBACK_SELECTORS =
    [(ascii ''title'', [ascii ''h1'', ascii ''h1[class*="font"]'', ascii ''.font-tbcx-bold'']),
     (ascii ''title_ge'', [ascii ''h1'', ascii ''h1[class*="font"]'', ascii ''.font-tbcx-bold'']),
     (ascii ''address'', [ascii ''[itemprop="address"]'', ascii ''.flex.flex-col.items-start .flex.items-center span:last-child'']),
     (ascii ''area'', [ascii ''.area'', ascii ''.property-area'', ascii ''[data-area]'']),
     (ascii ''rooms'', [ascii ''.rooms'', ascii ''[data-rooms]'']),
     (ascii ''bedroom'', [ascii ''.bedroom'', ascii ''[data-bedroom]'']),
     (ascii ''floor'', [ascii ''.floor'', ascii ''[data-floor]'']),
     (ascii ''description'', FALLBACK_DESCRIPTION_SELECTORS),
     (ascii ''status'', [ascii ''.status'', ascii ''[data-status]'']),
     (ascii ''condition'', [ascii ''.condition'', ascii ''[data-condition]'']),
     (ascii ''type_of_project'', [ascii ''.type'', ascii ''[data-type]'']),
     (ascii ''bathrooms'', [ascii ''.bathrooms'', ascii ''[data-bathrooms]'']),
     (ascii ''height'', [ascii ''.height'', ascii ''[data-height]'']),
     (ascii ''heating'', [ascii ''.heating'', ascii ''[data-heating]'']),
     (ascii ''hot_water'', [ascii ''.hot-water'', ascii ''[data-hot-water]'']),
     (ascii ''living'', [ascii ''.living'', ascii ''[data-living]'']),
     (ascii ''gas'', [ascii ''.gas'', ascii ''[data-gas]'']),
     (ascii ''internet'', [ascii ''.internet'', ascii ''[data-internet]'']),
     (ascii ''tv'', [ascii ''.tv'', ascii ''[data-tv]'']),
     (ascii ''elevator'', [ascii ''.elevator'', ascii ''[data-elevator]'']),
     (ascii ''lift'', [ascii ''.lift'', ascii ''[data-lift]'']),
     (ascii ''telephone'', [ascii ''.telephone'', ascii ''[data-telephone]'', ascii ''[data-phone]''])]\<close>

text \<open>
  First the selector the mapping has for the attribute, then the built-in selectors of the
  attribute. A mapping without the attribute, or with an empty selector for it, goes
  straight to the built-in ones.
\<close>

definition fallbackMatch :: "page \<Rightarrow> jsstring \<Rightarrow> jsstring option" where
  "fallbackMatch pg attributeName =
     (case map_of FALLBACK_SELECTORS attributeName of
        Some fallbackSelectors \<Rightarrow> getFirstTextMatch pg fallbackSelectors
      | None \<Rightarrow> None)"

definition scrapeMappedAttribute :: "page \<Rightarrow> mappings \<Rightarrow> jsstring \<Rightarrow> jsstring option" where
  "scrapeMappedAttribute pg mappings attributeName =
     (case mappings attributeName of
        None \<Rightarrow> fallbackMatch pg attributeName
      | Some selector \<Rightarrow>
          if selector = [] then fallbackMatch pg attributeName
          else
            (case getFirstTextMatch pg [selector] of
               None \<Rightarrow> fallbackMatch pg attributeName
             | Some v \<Rightarrow> if v \<noteq> [] then Some v else fallbackMatch pg attributeName))"

subsection \<open>collectGalleryImages\<close>

definition GALLERY_CONTAINER_SELECTOR :: jsstring where
  \<open>GALLERY_CONTAINER_SELECTOR =
     ascii ''#__next > div.pt-0.md'' @ [92] @ ascii '':pt-8.pb-8.md'' @ [92]
       @ ascii '':pb-12.bg-white.md'' @ [92] @ ascii '':bg-'' @ [92] @ ascii ''[rgb'' @ [92]
       @ ascii ''(251'' @ [92] @ ascii '',251'' @ [92] @ ascii '',251'' @ [92] @ ascii '')''
       @ [92] @ ascii ''] > div > div.grid.items-start.grid-cols-12.gap-5.mt-0.md'' @ [92]
       @ ascii '':mt-3 > div.col-span-12.lg'' @ [92]
       @ ascii '':col-span-9 > div.relative > div.h-'' @ [92] @ ascii ''[302px'' @ [92]
       @ ascii ''].md'' @ [92] @ ascii '':h-'' @ [92] @ ascii ''[551px'' @ [92]
       @ ascii ''].w-full.overflow-hidden.relative.z-10.lg'' @ [92]
       @ ascii '':rounded-2xl > div.absolute.bottom-6.z-20.max-w-full.w-full.px-'' @ [92]
       @ ascii ''[60px'' @ [92] @ ascii ''] > div > div''\<close>

text \<open>\<open>a || b\<close> on strings that may be null.\<close>

definition orStr :: "jsstring option \<Rightarrow> jsstring option \<Rightarrow> jsstring option" where
  "orStr a b = (case a of Some s \<Rightarrow> if s \<noteq> [] then a else b | None \<Rightarrow> b)"

text \<open>\<open>split(/\\s+/)[0]\<close>: the text before the first white space.\<close>

definition firstToken :: "jsstring \<Rightarrow> jsstring" where
  "firstToken s = takeWhile (\<lambda>c. \<not> isSpace c) s"

definition rawSource :: "page \<Rightarrow> node \<Rightarrow> jsstring option" where
  "rawSource pg img =
     orStr (Some (currentSrc pg img))
       (orStr (getAttribute pg img (ascii ''src''))
          (orStr (getAttribute pg img (ascii ''data-src''))
             (orStr (getAttribute pg img (ascii ''data-lazy''))
                (orStr (map_option firstToken (getAttribute pg img (ascii ''data-srcset'')))
                   (Some (src pg img))))))"

text \<open>\<open>new URL(value, location.href).href\<close>, or null when the constructor throws.\<close>

definition toAbsoluteUrl :: "page \<Rightarrow> jsstring option \<Rightarrow> jsstring option" where
  "toAbsoluteUrl pg v =
     (case v of
        None \<Rightarrow> None
      | Some s \<Rightarrow> if s = [] then None else resolveUrl pg s)"

text \<open>The \<open>map\<close> over the images; \<open>seen\<close> holds the addresses kept so far, in order.\<close>

fun addImages :: "page \<Rightarrow> node list \<Rightarrow> jsstring list \<Rightarrow> jsstring list" where
  "addImages pg [] seen = seen"
| "addImages pg (img # imgs) seen =
     (case toAbsoluteUrl pg (rawSource pg img) of
        None \<Rightarrow> addImages pg imgs seen
      | Some absolute \<Rightarrow>
          if absolute = [] \<or> absolute \<in> set seen then addImages pg imgs seen
          else addImages pg imgs (seen @ [absolute]))"

definition collectGalleryImages :: "page \<Rightarrow> jsstring list" where
  "collectGalleryImages pg =
     (case querySelector pg None GALLERY_CONTAINER_SELECTOR of
        None \<Rightarrow> []
      | Some container \<Rightarrow> addImages pg (selectAll pg (Some container) (ascii ''img'')) [])"

subsection \<open>collectAdditionalParameters and collectFurnitureItems\<close>

text \<open>
  Assignment to a property of a plain object. \<open>Object.keys\<close> lists the array indices first
  (the decimal numerals below \<open>2 ^ 32 - 1\<close> without a leading zero), in ascending order, and
  then the other keys in the order in which they were created. An existing key keeps its
  place; a new array index is put in its place among the indices; any other new key comes
  last. Assigning a string or a Number to \<open>__proto__\<close> creates no property.
\<close>

definition isArrayIndex :: "jsstring \<Rightarrow> bool" where
  "isArrayIndex k =
     (k \<noteq> [] \<and> list_all isDigit k \<and> (k = [0x30] \<or> hd k \<noteq> 0x30) \<and> digitsVal k < 2 ^ 32 - 1)"

fun insertIndex :: "jsobject \<Rightarrow> jsstring \<Rightarrow> jsval \<Rightarrow> jsobject" where
  "insertIndex [] k v = [(k, v)]"
| "insertIndex ((k', v') # obj) k v =
     (if isArrayIndex k' \<and> digitsVal k' < digitsVal k then (k', v') # insertIndex obj k v
      else (k, v) # (k', v') # obj)"

definition setProp :: "jsobject \<Rightarrow> jsstring \<Rightarrow> jsval \<Rightarrow> jsobject" where
  "setProp obj k v =
     (if k = ascii ''__proto__'' then obj
      else if k \<in> set (map fst obj)
      then map (\<lambda>(k', v'). if k' = k then (k, v) else (k', v')) obj
      else if isArrayIndex k then insertIndex obj k v
      else obj @ [(k, v)])"

text \<open>damatebiti parametrebi (additional parameters) and aveji (furniture).\<close>

definition damatebitiParametrebi :: jsstring where
  "damatebitiParametrebi = [0x10D3, 0x10D0, 0x10DB, 0x10D0, 0x10E2, 0x10D4, 0x10D1, 0x10D8, 0x10D7, 0x10D8, 32, 0x10DE, 0x10D0, 0x10E0, 0x10D0, 0x10DB, 0x10D4, 0x10E2, 0x10E0, 0x10D4, 0x10D1, 0x10D8]"

definition aveji :: jsstring where
  "aveji = [0x10D0, 0x10D5, 0x10D4, 0x10EF, 0x10D8]"

text \<open>
  Both functions start in the same way: the first \<open>h3\<close> whose text includes the heading,
  its closest white bordered container, the grid in it, and the items of the grid. Where a
  step finds nothing the function returns its empty result, as it does for no items.
\<close>

definition sectionItems :: "page \<Rightarrow> jsstring \<Rightarrow> node list" where
  \<open>sectionItems pg heading =
     (case filter (\<lambda>h3. includesStr (textContent pg h3) heading) (selectAll pg None (ascii ''h3'')) of
        [] \<Rightarrow> []
      | h # _ \<Rightarrow>
          (case closest pg h (ascii ''div[class*="bg-white"][class*="border"][class*="rounded-2xl"]'') of
             None \<Rightarrow> []
           | Some container \<Rightarrow>
               (case querySelector pg (Some container) (ascii ''div[class*="grid"][class*="gap"]'') of
                  None \<Rightarrow> []
                | Some gridContainer \<Rightarrow>
                    selectAll pg (Some gridContainer)
                      (ascii ''div[class*="flex"][class*="items-center"]''))))\<close>

text \<open>\<open>a || b\<close> on elements that may be null.\<close>

definition orNode :: "node option \<Rightarrow> node option \<Rightarrow> node option" where
  "orNode a b = (case a of Some n \<Rightarrow> Some n | None \<Rightarrow> b)"

definition parameterValueElement :: "page \<Rightarrow> node \<Rightarrow> node option" where
  \<open>parameterValueElement pg item =
     orNode (querySelector pg (Some item)
               (ascii ''div[class*="hidden"][class*="text-xs"][class*="opacity-60"][class*="md:block"]''))
       (orNode (querySelector pg (Some item)
                  (ascii ''span[class*="block"][class*="w-1/2"][class*="text-xs"][class*="md:hidden"]''))
          (case querySelector pg (Some item) (ascii ''div[class*="flex-col"]'') of
             None \<Rightarrow> None
           | Some flexCol \<Rightarrow>
               querySelector pg (Some flexCol)
                 (ascii ''div[class*="text-xs"], span[class*="text-xs"]'')))\<close>

text \<open>The body of the \<open>forEach\<close> over the items, on the object built so far.\<close>

definition addParameter :: "page \<Rightarrow> node \<Rightarrow> jsobject \<Rightarrow> jsobject" where
  \<open>addParameter pg item additionalParams =
     (case querySelector pg (Some item)
             (ascii ''span[class*="line-clamp-1"][class*="text-secondary-100"]'') of
        None \<Rightarrow> additionalParams
      | Some headerElement \<Rightarrow>
          let header = trim (textContent pg headerElement) in
          if header = [] then additionalParams
          else
            (case parameterValueElement pg item of
               None \<Rightarrow> additionalParams
             | Some valueElement \<Rightarrow>
                 let v = trim (textContent pg valueElement) in
                 if v = [] then additionalParams else setProp additionalParams header (JStr v)))\<close>

definition collectAdditionalParameters :: "page \<Rightarrow> jsobject" where
  "collectAdditionalParameters pg = fold (addParameter pg) (sectionItems pg damatebitiParametrebi) []"

definition addFurnitureItem :: "page \<Rightarrow> node \<Rightarrow> jsstring list \<Rightarrow> jsstring list" where
  \<open>addFurnitureItem pg item furnitureItems =
     (case querySelector pg (Some item)
             (ascii ''span[class*="line-clamp-1"][class*="text-secondary-100"]'') of
        None \<Rightarrow> furnitureItems
      | Some valueElement \<Rightarrow>
          let v = trim (textContent pg valueElement) in
          if v = [] then furnitureItems else furnitureItems @ [v])\<close>

definition collectFurnitureItems :: "page \<Rightarrow> jsstring list" where
  "collectFurnitureItems pg = fold (addFurnitureItem pg) (sectionItems pg aveji) []"

subsection \<open>collectPropertyDetails\<close>

definition gridItemSelector :: jsstring where
  \<open>gridItemSelector = ascii ''div[class*="flex"][class*="flex-col"]''\<close>

definition containerSelectors :: "jsstring list" where
  \<open>containerSelectors =
     [ascii ''div[class*="items-center"][class*="flex-wrap"][class*="border"][class*="border-gray-20"][class*="rounded-xl"]'',
      ascii ''div[class*="grid"][class*="grid-cols-4"]'']\<close>

text \<open>The first container that is found and has grid items.\<close>

fun findContainer :: "page \<Rightarrow> jsstring list \<Rightarrow> node option" where
  "findContainer pg [] = None"
| "findContainer pg (selector # selectors) =
     (case querySelector pg None selector of
        None \<Rightarrow> findContainer pg selectors
      | Some container \<Rightarrow>
          if selectAll pg (Some container) gridItemSelector \<noteq> [] then Some container
          else findContainer pg selectors)"

definition detailValueElement :: "page \<Rightarrow> node \<Rightarrow> node option" where
  \<open>detailValueElement pg item =
     orNode (querySelector pg (Some item)
               (ascii ''span[class*="mt-0.5"][class*="hidden"][class*="md:block"][class*="text-sm"][class*="font-tbcx-medium"]''))
       (orNode (querySelector pg (Some item)
                  (ascii ''span[class*="block"][class*="md:hidden"][class*="text-[10px]"][class*="font-tbcx-medium"]''))
          (querySelector pg (Some item) (ascii ''span[class*="font-tbcx-medium"]'')))\<close>

definition addPropertyDetail :: "page \<Rightarrow> node \<Rightarrow> jsobject \<Rightarrow> jsobject" where
  \<open>addPropertyDetail pg item propertyDetails =
     (case querySelector pg (Some item) (ascii ''span[class*="text-secondary-60"]'') of
        None \<Rightarrow> propertyDetails
      | Some labelElement \<Rightarrow>
          let label = trim (textContent pg labelElement) in
          if label = [] then propertyDetails
          else
            (case detailValueElement pg item of
               None \<Rightarrow> propertyDetails
             | Some valueElement \<Rightarrow>
                 let v = trim (textContent pg valueElement) in
                 if v = [] then propertyDetails
                 else setProp propertyDetails label (propertyDetailValue label v)))\<close>

definition collectPropertyDetails :: "page \<Rightarrow> jsobject" where
  "collectPropertyDetails pg =
     (case findContainer pg containerSelectors of
        None \<Rightarrow> []
      | Some container \<Rightarrow>
          fold (addPropertyDetail pg) (selectAll pg (Some container) gridItemSelector) [])"

subsection \<open>collectShortDescription\<close>

text \<open>mokle aghtsera (short description).\<close>

definition mokleAghtsera :: jsstring where
  "mokleAghtsera = [0x10DB, 0x10DD, 0x10D9, 0x10DA, 0x10D4, 32, 0x10D0, 0x10E6, 0x10EC, 0x10D4, 0x10E0, 0x10D0]"

definition explicitPathSelector :: jsstring where
  \<open>explicitPathSelector =
     ascii ''#__next > div.pt-0.md'' @ [92] @ ascii '':pt-8.pb-8.md'' @ [92]
       @ ascii '':pb-12.bg-white.md'' @ [92] @ ascii '':bg-'' @ [92] @ ascii ''[rgb'' @ [92]
       @ ascii ''(251'' @ [92] @ ascii '',251'' @ [92] @ ascii '',251'' @ [92] @ ascii '')''
       @ [92] @ ascii ''] > div > div.grid.items-start.grid-cols-12.gap-5.mt-0.md'' @ [92]
       @ ascii '':mt-3 > div.col-span-12.lg'' @ [92] @ ascii '':col-span-9 > div.px-4.md'' @ [92]
       @ ascii '':px-6.lg'' @ [92]
       @ ascii '':px-0 > div.relative.w-full.p-5.pb-3.mt-4.bg-white.border.md'' @ [92]
       @ ascii '':p-6.rounded-2xl.border-gray-20.md'' @ [92]
       @ ascii '':mt-5 > div > div > div > div''\<close>

definition directContainerSelector :: jsstring where
  "directContainerSelector =
     ascii ''div.relative.w-full.p-5.pb-3.mt-4.bg-white.border.rounded-2xl.border-gray-20''"

text \<open>\<open>join(' ')\<close>.\<close>

fun joinSpace :: "jsstring list \<Rightarrow> jsstring" where
  "joinSpace [] = []"
| "joinSpace [t] = t"
| "joinSpace (t # u # ts) = t @ [0x20] @ joinSpace (u # ts)"

text \<open>The trimmed texts of the \<open>p\<close>, \<open>span\<close> and \<open>div\<close> elements below a container.\<close>

definition blockTexts :: "page \<Rightarrow> node \<Rightarrow> jsstring list" where
  "blockTexts pg container =
     map (\<lambda>el. trim (textContent pg el)) (selectAll pg (Some container) (ascii ''p, span, div''))"

text \<open>The heading text is a string or null; the result is a non-empty string or null.\<close>

definition extractFromContainer :: "page \<Rightarrow> node option \<Rightarrow> jsstring option \<Rightarrow> jsstring option" where
  "extractFromContainer pg container headingText =
     (case container of
        None \<Rightarrow> None
      | Some c \<Rightarrow>
          let textBlock = querySelector pg (Some c) (ascii ''.text-sm'');
              innerBlock =
                (case textBlock of
                   None \<Rightarrow> None
                 | Some tb \<Rightarrow> orNode (querySelector pg (Some tb) (ascii ''div'')) (Some tb));
              innerTrimmed = (case innerBlock of None \<Rightarrow> [] | Some ib \<Rightarrow> trim (textContent pg ib))
          in
          if innerTrimmed \<noteq> [] then Some innerTrimmed
          else
            let texts = filter (\<lambda>t. t \<noteq> []
                                  \<and> \<not> (headingText \<noteq> None \<and> headingText \<noteq> Some [] \<and> Some t = headingText))
                          (blockTexts pg c)
            in if texts \<noteq> [] then Some (joinSpace texts) else None)"

text \<open>The loop over the direct containers; \<open>None\<close> when no container makes it return.\<close>

fun tryDirectContainers :: "page \<Rightarrow> node list \<Rightarrow> jsstring option" where
  "tryDirectContainers pg [] = None"
| "tryDirectContainers pg (container # containers) =
     (let headingEl = querySelector pg (Some container) (ascii ''h3, h2, h4, span, div'');
          headingText = map_option (\<lambda>el. trim (textContent pg el)) headingEl;
          textAfterHeading = filter (\<lambda>t. t \<noteq> [] \<and> Some t \<noteq> headingText) (blockTexts pg container)
      in
      if headingText \<noteq> None \<and> headingText \<noteq> Some [] \<and> map_option trim headingText = Some mokleAghtsera
         \<and> textAfterHeading \<noteq> []
      then Some (joinSpace textAfterHeading)
      else
        (case extractFromContainer pg (Some container) headingText of
           None \<Rightarrow> tryDirectContainers pg containers
         | Some extracted \<Rightarrow>
             if extracted \<noteq> [] \<and> extracted \<noteq> mokleAghtsera then Some extracted
             else tryDirectContainers pg containers))"

text \<open>The \<open>while (sibling && depth < 3)\<close> loop, with the number of rounds left.\<close>

primrec siblingText :: "page \<Rightarrow> nat \<Rightarrow> node option \<Rightarrow> jsstring option" where
  "siblingText pg 0 sibling = None"
| "siblingText pg (Suc rounds) sibling =
     (case sibling of
        None \<Rightarrow> None
      | Some s \<Rightarrow>
          let t = trim (textContent pg s) in
          if t \<noteq> [] \<and> \<not> includesStr t mokleAghtsera then Some t
          else siblingText pg rounds (nextElementSibling pg s))"

definition fromHeading :: "page \<Rightarrow> jsstring option" where
  "fromHeading pg =
     (case find (\<lambda>el. includesStr (trim (textContent pg el)) mokleAghtsera)
             (selectAll pg None (ascii ''h2, h3, h4, span, div'')) of
        None \<Rightarrow> None
      | Some heading \<Rightarrow>
          let container =
                orNode (closest pg heading (ascii ''div.relative.w-full.p-5.pb-3.mt-4.bg-white.border''))
                  (orNode (closest pg heading (ascii ''div, section, article''))
                     (parentElement pg heading))
          in
          (case extractFromContainer pg container (Some (trim (textContent pg heading))) of
             Some pulled \<Rightarrow> Some pulled
           | None \<Rightarrow> siblingText pg 3 (nextElementSibling pg heading)))"

definition collectShortDescription :: "page \<Rightarrow> jsstring option" where
  "collectShortDescription pg =
     (let explicitText =
            (case querySelector pg None explicitPathSelector of
               None \<Rightarrow> []
             | Some explicitPath \<Rightarrow> trim (textContent pg explicitPath))
      in
      if explicitText \<noteq> [] \<and> explicitText \<noteq> mokleAghtsera then Some explicitText
      else
        (case tryDirectContainers pg (selectAll pg None directContainerSelector) of
           Some t \<Rightarrow> Some t
         | None \<Rightarrow>
             (case getFirstTextMatch pg FALLBACK_SHORT_DESCRIPTION_SELECTORS of
                Some direct \<Rightarrow>
                  if direct \<noteq> [] \<and> trim direct \<noteq> mokleAghtsera then Some direct
                  else fromHeading pg
              | None \<Rightarrow> fromHeading pg)))"

subsection \<open>The listing record\<close>

text \<open>misamarti (address) and pasi (price).\<close>

definition misamarti :: jsstring where
  "misamarti = [0x10DB, 0x10D8, 0x10E1, 0x10D0, 0x10DB, 0x10D0, 0x10E0, 0x10D7, 0x10D8]"

definition pasi :: jsstring where
  "pasi = [0x10E4, 0x10D0, 0x10E1, 0x10D8]"

record listing =
  scrapedAt :: jsstring
  url :: jsstring
  propertyDetails :: jsobject
  images :: "jsstring list"
  furniture :: "jsstring list"
  additionalParameters :: jsobject
  dealType :: "jsstring option"

text \<open>
  The statements of the function in their order: the five collectors, \<open>detectDealType\<close>
  (after which a TypeError ends the function), the short description, the address, the
  price, and the object that is returned.
\<close>

definition withAddress :: "jsobject \<Rightarrow> jsstring option \<Rightarrow> jserror + jsobject" where
  "withAddress details address =
     (case address of
        None \<Rightarrow> Inr details
      | Some a \<Rightarrow>
          if a = [] then Inr details
          else
            (case transformAddress a of
               Inl error \<Rightarrow> Inl error
             | Inr transformed \<Rightarrow> Inr (setProp details misamarti (JStr transformed))))"

definition withPrice :: "jsobject \<Rightarrow> jsstring option \<Rightarrow> jsobject" where
  "withPrice details priceText =
     (case priceText of
        None \<Rightarrow> details
      | Some t \<Rightarrow>
          if t = [] then details
          else
            (case parsePriceText t of
               None \<Rightarrow> details
             | Some priceNumber \<Rightarrow> setProp details pasi (JNum priceNumber)))"

definition withShortDescription :: "jsobject \<Rightarrow> jsstring option \<Rightarrow> jsobject" where
  "withShortDescription details shortDescription =
     (case shortDescription of
        None \<Rightarrow> details
      | Some d \<Rightarrow>
          if d = [] then details
          else setProp (setProp details mokleAghtsera (JStr d)) (ascii ''shortDescription'') (JStr d))"

definition priceSelectors :: "jsstring list" where
  \<open>priceSelectors = [ascii ''[data-testid='' @ [39] @ ascii ''listing-price'' @ [39] @ ascii '']'',
                     ascii ''.text-2xl.font-tbcx-bold'']\<close>

definition scrapeListingFromDom :: "page \<Rightarrow> mappings \<Rightarrow> jserror + listing" where
  "scrapeListingFromDom pg mappings =
     (let galleryImages = collectGalleryImages pg;
          additionalParams = collectAdditionalParameters pg;
          furnitureItems = collectFurnitureItems pg;
          details = collectPropertyDetails pg
      in
      (case detectDealType pg of
         Inl error \<Rightarrow> Inl error
       | Inr detected \<Rightarrow>
           let shortDescription = collectShortDescription pg;
               address = scrapeMappedAttribute pg mappings (ascii ''address'')
           in
           (case withAddress details address of
              Inl error \<Rightarrow> Inl error
            | Inr addressed \<Rightarrow>
                let priced = withPrice addressed (getFirstTextMatch pg priceSelectors) in
                Inr \<lparr> scrapedAt = now pg,
                      url = href pg,
                      propertyDetails = withShortDescription priced shortDescription,
                      images = galleryImages,
                      furniture = furnitureItems,
                      additionalParameters = additionalParams,
                      dealType = detected \<rparr>)))"

subsection \<open>Example pages\<close>

text \<open>A document in which no query finds an element; \<open>b\<close> is its body, if it has one.\<close>

definition blankDocument :: "node option \<Rightarrow> page" where
  "blankDocument b =
     \<lparr> body = b,
       textContent = (\<lambda>n. []),
       innerText = (\<lambda>n. []),
       href = ascii ''https://www.myhome.ge/pr/1'',
       now = ascii ''2025-01-01T00:00:00.000Z'',
       selectorValid = (\<lambda>s. True),
       selectAll = (\<lambda>scope s. []),
       closest = (\<lambda>n s. None),
       parentElement = (\<lambda>n. None),
       nextElementSibling = (\<lambda>n. None),
       getAttribute = (\<lambda>n a. None),
       currentSrc = (\<lambda>n. []),
       src = (\<lambda>n. []),
       resolveUrl = (\<lambda>s. None) \<rparr>"

subsection \<open>Example resources\<close>

text \<open>
  A response for a missing file, a file with a header line only, and a file with a header
  line and a selector line whose second selector holds a comma between brackets.
\<close>

definition notFoundResponse :: response where
  "notFoundResponse = \<lparr> ok = False, statusText = ascii ''Not Found'', responseText = [] \<rparr>"

definition headerOnlyResponse :: response where
  "headerOnlyResponse =
     \<lparr> ok = True, statusText = ascii ''OK'', responseText = ascii ''title,address'' @ [0x0A] \<rparr>"

definition twoLineResponse :: response where
  "twoLineResponse =
     \<lparr> ok = True, statusText = ascii ''OK'',
       responseText = ascii ''title,address'' @ [0x0A] @ ascii ''h1,div:not(.a,.b)'' @ [0x0A] \<rparr>"

section \<open>Lemmas on strings\<close>

lemma includes_iff: "includesStr s p \<longleftrightarrow> (\<exists>u v. s = u @ p @ v)"
proof (induction s)
  case Nil
  then show ?case by auto
next
  case (Cons c cs)
  show ?case
  proof
    assume "includesStr (c # cs) p"
    then consider "prefix p (c # cs)" | "includesStr cs p" by auto
    then show "\<exists>u v. c # cs = u @ p @ v"
    proof cases
      case 1
      then obtain v where "c # cs = p @ v" by (auto simp: prefix_def)
      then have "c # cs = [] @ p @ v" by simp
      then show ?thesis by blast
    next
      case 2
      with Cons.IH obtain u v where "cs = u @ p @ v" by blast
      then have "c # cs = (c # u) @ p @ v" by simp
      then show ?thesis by blast
    qed
  next
    assume "\<exists>u v. c # cs = u @ p @ v"
    then obtain u v where uv: "c # cs = u @ p @ v" by blast
    show "includesStr (c # cs) p"
    proof (cases u)
      case Nil
      with uv have "prefix p (c # cs)" by (simp add: prefix_def)
      then show ?thesis by simp
    next
      case (Cons a u')
      with uv have "cs = u' @ p @ v" by simp
      with Cons.IH have "includesStr cs p" by blast
      then show ?thesis by simp
    qed
  qed
qed

lemma includes_trans: "includesStr s p \<Longrightarrow> includesStr p q \<Longrightarrow> includesStr s q"
  unfolding includes_iff by (metis append.assoc)

section \<open>Deal-type detection\<close>

lemma firstIncluded_None: "firstIncluded t ds = None \<longleftrightarrow> (\<forall>d\<in>set ds. \<not> includesStr t d)"
  by (induction ds) auto

lemma firstIncluded_Some:
  "firstIncluded t ds = Some d \<Longrightarrow> d \<in> set ds \<and> includesStr t d"
  by (induction ds) (auto split: if_splits)

lemma dealTypes_order:
  "\<forall>i<length dealTypes. \<forall>j<length dealTypes. strict_prefix (dealTypes ! j) (dealTypes ! i) \<longrightarrow> i < j"
  by (simp add: dealTypes_def kiravdebaDghiurad_def kiravdeba_def giravdeba_def iyideba_def
      less_Suc_eq all_conj_distrib)

lemma firstIncluded_dealTypes_cases:
  "firstIncluded t dealTypes = Some d \<Longrightarrow> d' \<in> set dealTypes \<Longrightarrow> strict_prefix d d' \<Longrightarrow> \<not> includesStr t d'"
  apply (simp add: dealTypes_def split: if_splits)
  apply (auto simp: kiravdebaDghiurad_def kiravdeba_def giravdeba_def iyideba_def)
  done

text \<open>
  Claim C3. In a document with a body: a page text that contains the daily-rent phrase is
  detected as that phrase; a page text that contains none of the four phrases gives null;
  whatever phrase is detected is one of the four, occurs in the text, and no phrase of the
  list that extends it occurs in the text; and in the list every phrase stands before the
  phrases that are its proper prefixes.
\<close>

theorem detectDealType_longest_match_first:
  assumes "body pg = Some b"
  shows "(includesStr (pageText pg b) kiravdebaDghiurad \<longrightarrow>
            detectDealType pg = Inr (Some kiravdebaDghiurad))
       \<and> ((\<forall>d\<in>set dealTypes. \<not> includesStr (pageText pg b) d) \<longrightarrow> detectDealType pg = Inr None)
       \<and> (\<forall>d. detectDealType pg = Inr (Some d) \<longrightarrow>
             d \<in> set dealTypes \<and> includesStr (pageText pg b) d
             \<and> (\<forall>d'\<in>set dealTypes. strict_prefix d d' \<longrightarrow> \<not> includesStr (pageText pg b) d'))
       \<and> (\<forall>i<length dealTypes. \<forall>j<length dealTypes.
             strict_prefix (dealTypes ! j) (dealTypes ! i) \<longrightarrow> i < j)"
proof (intro conjI allI impI)
  assume "includesStr (pageText pg b) kiravdebaDghiurad"
  then show "detectDealType pg = Inr (Some kiravdebaDghiurad)"
    using assms by (simp add: detectDealType_def dealTypes_def)
next
  assume "\<forall>d\<in>set dealTypes. \<not> includesStr (pageText pg b) d"
  then show "detectDealType pg = Inr None"
    using assms by (simp add: detectDealType_def firstIncluded_None)
next
  fix d assume d: "detectDealType pg = Inr (Some d)"
  then have f: "firstIncluded (pageText pg b) dealTypes = Some d"
    using assms by (simp add: detectDealType_def)
  from firstIncluded_Some[OF f] show "d \<in> set dealTypes" "includesStr (pageText pg b) d" by auto
  show "\<forall>d'\<in>set dealTypes. strict_prefix d d' \<longrightarrow> \<not> includesStr (pageText pg b) d'"
    using firstIncluded_dealTypes_cases[OF f] by blast
next
  fix i j assume "i < length dealTypes" "j < length dealTypes" "strict_prefix (dealTypes ! j) (dealTypes ! i)"
  then show "i < j" using dealTypes_order by blast
qed

theorem detectDealType_longest_match_first_witness:
  "body dailyRentPage = Some 0
   \<and> includesStr (pageText dailyRentPage 0) kiravdebaDghiurad
   \<and> detectDealType dailyRentPage = Inr (Some kiravdebaDghiurad)
   \<and> kiravdebaDghiurad \<in> set dealTypes"
proof -
  have b: "body dailyRentPage = Some 0" by (simp add: dailyRentPage_def)
  have i: "includesStr (pageText dailyRentPage 0) kiravdebaDghiurad"
    by (simp add: dailyRentPage_def pageText_def orElse_def ascii_def kiravdebaDghiurad_def)
  from detectDealType_longest_match_first[OF b] i show ?thesis using b by blast
qed

section \<open>Deal-type normalisation and the alternate-token fallback\<close>


lemma normalizeDealType_canonical:
  assumes "includesStr s kiravdeba \<or> includesStr s iyideba \<or> includesStr s giravdeba"
  shows "normalizeDealType (Some s) \<in> {iyideba, kiravdeba, giravdeba}"
proof -
  from assms have "s \<noteq> []"
    by (auto simp: kiravdeba_def iyideba_def giravdeba_def)
  then show ?thesis using assms
    by (auto simp: normalizeDealType_def orElse_def Let_def)
qed

lemma normalizeDealType_None: "normalizeDealType None = iyideba"
  by (simp add: normalizeDealType_def iyideba_def kiravdeba_def)

lemma normalizeDealType_daily: "normalizeDealType (Some kiravdebaDghiurad) = kiravdeba"
  by (simp add: normalizeDealType_def orElse_def kiravdebaDghiurad_def kiravdeba_def)

lemma dealTypes_canonical:
  assumes "d \<in> set dealTypes"
  shows "includesStr d kiravdeba \<or> includesStr d iyideba \<or> includesStr d giravdeba"
  using assms by (auto simp: dealTypes_def kiravdebaDghiurad_def kiravdeba_def giravdeba_def iyideba_def)

lemma detected_normalizes:
  assumes "detectDealType pg = Inr d"
  shows "normalizeDealType d \<in> {iyideba, kiravdeba, giravdeba}"
proof (cases d)
  case None
  then show ?thesis by (simp add: normalizeDealType_None)
next
  case (Some s)
  with assms obtain b where "firstIncluded (pageText pg b) dealTypes = Some s"
    by (auto simp: detectDealType_def split: option.splits)
  then have "s \<in> set dealTypes" using firstIncluded_Some by blast
  then show ?thesis using Some normalizeDealType_canonical dealTypes_canonical by blast
qed

lemma trySelectDealType_fallback:
  assumes "\<forall>t\<le>maxRetriesDealType. findDealTypeElement t dt = None"
    and "findDealTypeElement maxRetriesDealType (if dt = iyideba then kiravdeba else iyideba) = Some el"
  shows "trySelectDealType findDealTypeElement dt 0 =
     [RetryIn 500, RetryIn 500, RetryIn 500,
      WarnAlternative (if dt = iyideba then kiravdeba else iyideba), Click el, ContinueIn 1000]"
  using assms by (cases "dt = iyideba")
    (simp_all add: maxRetriesDealType_def alternativesOf_def numeral_3_eq_3 le_Suc_eq)

lemma trySelectDealType_fail:
  assumes "\<forall>t\<le>maxRetriesDealType. findDealTypeElement t dt = None"
    and "findDealTypeElement maxRetriesDealType (if dt = iyideba then kiravdeba else iyideba) = None"
  shows "trySelectDealType findDealTypeElement dt 0 =
     [RetryIn 500, RetryIn 500, RetryIn 500, Throw (ErrorMsg (dealTypeNotFound dt))]"
  using assms by (cases "dt = iyideba")
    (simp_all add: maxRetriesDealType_def alternativesOf_def numeral_3_eq_3 le_Suc_eq)

text \<open>
  Claim C9. Whatever deal type the extractor detects (one of the four phrases or null) is
  normalised to one of the three canonical tokens, as is every string that contains one of
  them; the daily-rent phrase reduces to the rent token and a missing deal type becomes the
  sale token. When the primary token is located at none of the four attempts and the other
  deal type is located at the last one, the run is: three reschedulings, the substitution
  warning naming the alternative, the click on the alternative, the continuation; nothing is
  thrown.
\<close>

theorem selectDealType_normalizes_and_falls_back:
  "(\<forall>pg d. detectDealType pg = Inr d \<longrightarrow> normalizeDealType d \<in> {iyideba, kiravdeba, giravdeba})
   \<and> (\<forall>s. includesStr s kiravdeba \<or> includesStr s iyideba \<or> includesStr s giravdeba \<longrightarrow>
          normalizeDealType (Some s) \<in> {iyideba, kiravdeba, giravdeba})
   \<and> normalizeDealType (Some kiravdebaDghiurad) = kiravdeba
   \<and> normalizeDealType None = iyideba
   \<and> (\<forall>scraped find el.
        (\<forall>t\<le>maxRetriesDealType. find t (normalizeDealType scraped) = None)
        \<and> find maxRetriesDealType
             (if normalizeDealType scraped = iyideba then kiravdeba else iyideba) = Some el
        \<longrightarrow> selectDealType scraped find =
             [RetryIn 500, RetryIn 500, RetryIn 500,
              WarnAlternative (if normalizeDealType scraped = iyideba then kiravdeba else iyideba),
              Click el, ContinueIn 1000])"
  using detected_normalizes normalizeDealType_canonical normalizeDealType_daily
    normalizeDealType_None trySelectDealType_fallback
  unfolding selectDealType_def by blast

theorem selectDealType_normalizes_and_falls_back_witness:
  "detectDealType dailyRentPage = Inr (Some kiravdebaDghiurad)
   \<and> normalizeDealType (Some kiravdebaDghiurad) = kiravdeba
   \<and> (\<forall>t. onlySaleForm t kiravdeba = None)
   \<and> onlySaleForm maxRetriesDealType iyideba = Some 7
   \<and> selectDealType (Some kiravdebaDghiurad) onlySaleForm =
        [RetryIn 500, RetryIn 500, RetryIn 500, WarnAlternative iyideba, Click 7, ContinueIn 1000]"
proof -
  have d: "detectDealType dailyRentPage = Inr (Some kiravdebaDghiurad)"
    by (simp add: detectDealType_def dailyRentPage_def pageText_def orElse_def ascii_def
        dealTypes_def kiravdebaDghiurad_def)
  have n: "normalizeDealType (Some kiravdebaDghiurad) = kiravdeba"
    using selectDealType_normalizes_and_falls_back by blast
  have ne: "kiravdeba \<noteq> iyideba" by (simp add: kiravdeba_def iyideba_def)
  have a: "\<forall>t\<le>maxRetriesDealType. onlySaleForm t (normalizeDealType (Some kiravdebaDghiurad)) = None"
    by (simp add: n onlySaleForm_def ne)
  have b: "onlySaleForm maxRetriesDealType
      (if normalizeDealType (Some kiravdebaDghiurad) = iyideba then kiravdeba else iyideba) = Some 7"
    by (simp add: n onlySaleForm_def ne)
  from selectDealType_normalizes_and_falls_back a b
  have "selectDealType (Some kiravdebaDghiurad) onlySaleForm =
     [RetryIn 500, RetryIn 500, RetryIn 500,
      WarnAlternative (if normalizeDealType (Some kiravdebaDghiurad) = iyideba then kiravdeba else iyideba),
      Click 7, ContinueIn 1000]" by blast
  then show ?thesis using d n ne by (simp add: onlySaleForm_def)
qed

section \<open>Retry exhaustion\<close>

text \<open>
  Claim C8. With a locator that never returns an element, the category gate reschedules
  itself three times at 500 ms and then throws, once; the bathroom step reschedules itself
  five times at 500 ms, then calls the fill function and logs the failure, once. Both
  runs are finite: the functions are total.
\<close>

theorem retry_budget_exhausted_once:
  "((\<forall>t. findCategoryElement t = None) \<longrightarrow>
      autofillListingForm (Some listing) findCategoryElement =
        [RetryIn 500, RetryIn 500, RetryIn 500, Throw (ErrorMsg categoryNotFound)]
      \<and> length (filter (\<lambda>e. e \<noteq> RetryIn 500) (autofillListingForm (Some listing) findCategoryElement)) = 1)
   \<and> ((\<forall>t. \<not> containerAt t) \<longrightarrow>
      fillBathroomFieldWithRetry containerAt =
        [RetryIn 500, RetryIn 500, RetryIn 500, RetryIn 500, RetryIn 500,
         CallFillBathroomField, ErrorBathroomNotFound]
      \<and> count_list (fillBathroomFieldWithRetry containerAt) ErrorBathroomNotFound = 1)"
  by (simp add: autofillListingForm_def fillBathroomFieldWithRetry_def
      maxRetriesCategory_def maxRetriesBathroom_def retryDelay_def)

theorem retry_budget_exhausted_once_witness:
  "(\<forall>t. (\<lambda>t. None :: node option) t = None) \<and> (\<forall>t. \<not> (\<lambda>t. False) t)
   \<and> autofillListingForm (Some ()) (\<lambda>t. None) =
        [RetryIn 500, RetryIn 500, RetryIn 500, Throw (ErrorMsg categoryNotFound)]
   \<and> fillBathroomFieldWithRetry (\<lambda>t. False) =
        [RetryIn 500, RetryIn 500, RetryIn 500, RetryIn 500, RetryIn 500,
         CallFillBathroomField, ErrorBathroomNotFound]"
  using retry_budget_exhausted_once [of "\<lambda>t. None" "()" "\<lambda>t. False"] by simp

section \<open>Bucket tokens of the numeric-option fields\<close>


lemma includes_map: "includesStr s p \<Longrightarrow> includesStr (map f s) (map f p)"
  unfolding includes_iff by (metis map_append)

lemma includes_hd_mem: "includesStr s p \<Longrightarrow> p \<noteq> [] \<Longrightarrow> hd p \<in> set s"
  unfolding includes_iff by (cases p) auto

lemma natToDigits_ascii: "\<forall>c\<in>set (natToDigits n). c < 128"
proof (induction n rule: natToDigits.induct)
  case (1 n)
  show ?case
  proof (cases "n < 10")
    case True
    then show ?thesis by (subst natToDigits.simps) simp
  next
    case False
    have "n mod 10 < 10" by simp
    then have "48 + n mod 10 < 128" by linarith
    with False 1 show ?thesis by (subst natToDigits.simps) auto
  qed
qed

lemma fracDigits_ascii: "0 \<le> f \<Longrightarrow> f < 1 \<Longrightarrow> \<forall>c\<in>set (fracDigits n f). c < 128"
proof (induction n arbitrary: f)
  case 0
  then show ?case by simp
next
  case (Suc n)
  let ?d = "\<lfloor>10 * f\<rfloor>"
  have d0: "0 \<le> ?d" using Suc.prems by simp
  have d9: "?d < 10" using Suc.prems by (simp add: floor_less_iff)
  have f0: "0 \<le> 10 * f - of_int ?d" by simp
  have f1: "10 * f - of_int ?d < 1" by linarith
  have "nat ?d < 10" using d0 d9 by linarith
  then have "48 + nat ?d < 128" by linarith
  with Suc.IH[OF f0 f1] show ?case by auto
qed

lemma posToString_ascii: "0 \<le> r \<Longrightarrow> \<forall>c\<in>set (posToString r). c < 128"
proof -
  assume "0 \<le> r"
  have f0: "0 \<le> r - of_int \<lfloor>r\<rfloor>" by simp
  have f1: "r - of_int \<lfloor>r\<rfloor> < 1" by linarith
  show ?thesis
    using natToDigits_ascii fracDigits_ascii[OF f0 f1]
    by (auto simp: posToString_def)
qed

lemma scale10_nonneg: "0 \<le> r \<Longrightarrow> 0 \<le> scale10 r e"
  by (simp add: scale10_def)

lemma expToString_ascii: "0 \<le> r \<Longrightarrow> \<forall>c\<in>set (expToString r). c < 128"
  using posToString_ascii[OF scale10_nonneg] natToDigits_ascii
  by (auto simp: expToString_def Let_def)

lemma absToString_ascii: "0 \<le> r \<Longrightarrow> \<forall>c\<in>set (absToString r). c < 128"
  using posToString_ascii expToString_ascii by (simp add: absToString_def)

lemma numToString_ascii: "\<forall>c\<in>set (numToString x). c < 128"
proof (cases x)
  case (Fin r)
  then show ?thesis
    using absToString_ascii[of r] absToString_ascii[of "- r"]
    by (auto simp: numToString_def)
qed (auto simp: numToString_def ascii_def)

lemma lowerUnit_ascii: "c < 128 \<Longrightarrow> lowerUnit c < 128"
  by (auto simp: lowerUnit_def)

lemma number_text_not_georgian:
  assumes "p \<noteq> []" "hd p \<ge> 128"
  shows "\<not> includesStr (toLowerCase (numToString x)) p"
proof
  assume "includesStr (toLowerCase (numToString x)) p"
  then have "hd p \<in> set (toLowerCase (numToString x))" using assms(1) includes_hd_mem by blast
  then obtain c where "c \<in> set (numToString x)" "hd p = lowerUnit c"
    by (auto simp: toLowerCase_def)
  then have "hd p < 128" using numToString_ascii lowerUnit_ascii by auto
  with assms(2) show False by simp
qed

lemma toLowerCase_fix: "toLowerCase arAkvs = arAkvs" "toLowerCase ara = ara"
  by (simp_all add: toLowerCase_def arAkvs_def ara_def lowerUnit_def)

lemma includes_lower:
  "includesStr s arAkvs \<Longrightarrow> includesStr (toLowerCase s) arAkvs"
  "includesStr s ara \<Longrightarrow> includesStr (toLowerCase s) ara"
  using includes_map[of s arAkvs lowerUnit] includes_map[of s ara lowerUnit] toLowerCase_fix
  by (simp_all add: toLowerCase_def)

lemma roomText_bucket:
  "parseFloatVal v = Fin r \<Longrightarrow> r \<ge> 9 \<Longrightarrow> roomText v = ascii ''8+''"
  by (simp add: roomText_def numGreater_def)

lemma parseFloat_empty: "parseFloat [] = NaN"
  by (simp add: parseFloat_def trimStart_def)

lemma truthy_of_number:
  assumes "parseFloatVal v = Fin r" "r \<ge> 9"
  shows "truthy v"
proof (cases v)
  case (JNum n)
  with assms show ?thesis by (auto simp: truthy_def parseFloatVal_def)
next
  case (JStr s)
  with assms have "s \<noteq> []" using parseFloat_empty by (auto simp: parseFloatVal_def)
  with JStr show ?thesis by (simp add: truthy_def)
qed

lemma fillRoomsField_bucket:
  assumes "getProp pd otakhi = Some v" "parseFloatVal v = Fin r" "r \<ge> 9"
  shows "fillRoomsField pg (Some pd) (Some (c, divs)) f =
     (case matchingOption pg divs (ascii ''8+'') of
        Some opt \<Rightarrow> [Click opt, DispatchEvent c (ascii ''change'')]
      | None \<Rightarrow> [WarnNoOption (ascii ''8+'')])"
  using assms truthy_of_number[OF assms(2,3)] roomText_bucket[OF assms(2,3)]
  by (simp add: fillRoomsField_def split: option.split)

lemma bathroomText_bucket:
  assumes "r > 5"
  shows "bathroomText (JNum (Fin r)) = ascii ''5+''"
proof -
  have "\<not> includesStr (toLowerCase (numToString (Fin r))) arAkvs"
    by (rule number_text_not_georgian) (simp_all add: arAkvs_def)
  moreover have "\<not> includesStr (toLowerCase (numToString (Fin r))) ara"
    by (rule number_text_not_georgian) (simp_all add: ara_def)
  ultimately show ?thesis using assms
    by (simp add: bathroomText_def toStringVal_def parseFloatVal_def numGreater_def)
qed

lemma bathroomText_bucket_string:
  assumes "parseFloat s = Fin r" "r > 5"
    "\<not> includesStr (toLowerCase s) arAkvs" "\<not> includesStr (toLowerCase s) ara"
  shows "bathroomText (JStr s) = ascii ''5+''"
proof -
  have "parseFloat (ascii ''0'') = Fin 0"
    by (simp add: parseFloat_def trimStart_def isSpace_def isLineTerminator_def ascii_def
        parseUnsigned_def isDigit_def digitsVal_def scale10_def exponentPart_def Let_def)
  with assms have "s \<noteq> ascii ''0''" by auto
  with assms show ?thesis
    by (simp add: bathroomText_def toStringVal_def parseFloatVal_def numGreater_def)
qed

lemma bathroomText_none:
  "bathroomText (JNum (Fin 0)) = arAkvs"
  "bathroomText (JStr (ascii ''0'')) = arAkvs"
  "includesStr s arAkvs \<or> includesStr s ara \<Longrightarrow> bathroomText (JStr s) = arAkvs"
  using includes_lower by (auto simp: bathroomText_def toStringVal_def)



section \<open>Exact option text before containment\<close>


lemma find_exact_Some:
  assumes "\<exists>d\<in>set ds. P d"
  shows "\<exists>d. find P ds = Some d \<and> d \<in> set ds \<and> P d"
  using assms by (induction ds) auto

lemma trim_sibling:
  "trim aMikroraioni = aMikroraioni" "trim iiiAMikroraioni = iiiAMikroraioni"
  by (simp_all add: trim_def aMikroraioni_def iiiAMikroraioni_def isSpace_def isLineTerminator_def)

text \<open>
  Claim C6. Whenever some option's trimmed text equals the text searched for, both
  matchers return the first such option: the exact comparison comes before the containment
  (rooms, bathrooms) and before the prefix and shortest-containing searches (street). With
  the options III a mikroraioni (node 1) and a mikroraioni (node 2) and the target
  a mikroraioni, both matchers select node 2, where the containment test alone would take
  node 1.
\<close>

theorem exact_option_preferred:
  "(\<forall>pg optionDivs target. (\<exists>d\<in>set optionDivs. trim (textContent pg d) = target) \<longrightarrow>
       matchingOption pg optionDivs target = find (\<lambda>d. trim (textContent pg d) = target) optionDivs
       \<and> (\<exists>d. matchingOption pg optionDivs target = Some d \<and> d \<in> set optionDivs
               \<and> trim (textContent pg d) = target))
   \<and> (\<forall>pg streetOptions target. (\<exists>d\<in>set streetOptions. trim (textContent pg d) = target) \<longrightarrow>
       matchingStreetOption pg streetOptions target
         = find (\<lambda>d. trim (textContent pg d) = target) streetOptions
       \<and> (\<exists>d. matchingStreetOption pg streetOptions target = Some d \<and> d \<in> set streetOptions
               \<and> trim (textContent pg d) = target))
   \<and> matchingOption siblingOptionsPage [1, 2] aMikroraioni = Some 2
   \<and> matchingStreetOption siblingOptionsPage [1, 2] aMikroraioni = Some 2
   \<and> find (\<lambda>d. includesStr (trim (textContent siblingOptionsPage d)) aMikroraioni
               \<or> includesStr aMikroraioni (trim (textContent siblingOptionsPage d))) [1, 2] = Some 1"
proof (intro conjI allI impI)
  fix pg :: page and optionDivs target
  assume a: "\<exists>d\<in>set optionDivs. trim (textContent pg d) = target"
  from find_exact_Some[OF a] obtain d where
    d: "find (\<lambda>d. trim (textContent pg d) = target) optionDivs = Some d" "d \<in> set optionDivs"
       "trim (textContent pg d) = target" by blast
  then show "matchingOption pg optionDivs target = find (\<lambda>d. trim (textContent pg d) = target) optionDivs"
    by (simp add: matchingOption_def)
  with d show "\<exists>d. matchingOption pg optionDivs target = Some d \<and> d \<in> set optionDivs
               \<and> trim (textContent pg d) = target" by simp
next
  fix pg :: page and streetOptions target
  assume a: "\<exists>d\<in>set streetOptions. trim (textContent pg d) = target"
  from find_exact_Some[OF a] obtain d where
    d: "find (\<lambda>d. trim (textContent pg d) = target) streetOptions = Some d" "d \<in> set streetOptions"
       "trim (textContent pg d) = target" by blast
  then show "matchingStreetOption pg streetOptions target = find (\<lambda>d. trim (textContent pg d) = target) streetOptions"
    by (simp add: matchingStreetOption_def)
  with d show "\<exists>d. matchingStreetOption pg streetOptions target = Some d \<and> d \<in> set streetOptions
               \<and> trim (textContent pg d) = target" by simp
next
  have ne: "iiiAMikroraioni \<noteq> aMikroraioni" by (simp add: iiiAMikroraioni_def)
  show "matchingOption siblingOptionsPage [1, 2] aMikroraioni = Some 2"
    by (simp add: matchingOption_def siblingOptionsPage_def trim_sibling ne)
  show "matchingStreetOption siblingOptionsPage [1, 2] aMikroraioni = Some 2"
    by (simp add: matchingStreetOption_def siblingOptionsPage_def trim_sibling ne)
  show "find (\<lambda>d. includesStr (trim (textContent siblingOptionsPage d)) aMikroraioni
               \<or> includesStr aMikroraioni (trim (textContent siblingOptionsPage d))) [1, 2] = Some 1"
    by (simp add: siblingOptionsPage_def trim_sibling) (simp add: iiiAMikroraioni_def aMikroraioni_def)
qed

theorem exact_option_preferred_witness:
  "trim (textContent siblingOptionsPage 2) = aMikroraioni
   \<and> matchingOption siblingOptionsPage [1, 2] aMikroraioni
       = find (\<lambda>d. trim (textContent siblingOptionsPage d) = aMikroraioni) [1, 2]
   \<and> matchingStreetOption siblingOptionsPage [1, 2] aMikroraioni
       = find (\<lambda>d. trim (textContent siblingOptionsPage d) = aMikroraioni) [1, 2]
   \<and> matchingOption siblingOptionsPage [1, 2] aMikroraioni = Some 2"
proof -
  have t: "trim (textContent siblingOptionsPage 2) = aMikroraioni"
    by (simp add: siblingOptionsPage_def trim_def aMikroraioni_def isSpace_def isLineTerminator_def)
  then have e: "\<exists>d\<in>set [1, 2]. trim (textContent siblingOptionsPage d) = aMikroraioni" by simp
  from exact_option_preferred e t show ?thesis by blast
qed

section \<open>Reading numbers\<close>

lemma digit_not_space: "isDigit c \<Longrightarrow> \<not> isSpace c"
  by (auto simp: isDigit_def isSpace_def isLineTerminator_def)

lemma digit_facts: "isDigit c \<Longrightarrow> c \<noteq> 0x2D \<and> c \<noteq> 0x2B \<and> c \<noteq> 0x2E \<and> c \<noteq> 0x2C \<and> c \<noteq> 73"
  by (auto simp: isDigit_def)

lemma separator_facts:
  "\<not> isDigit 0x2E" "\<not> isDigit 0x2C" "\<not> isSpace 0x2E" "\<not> isSpace 0x2C"
  by (simp_all add: isDigit_def isSpace_def isLineTerminator_def)

lemma exponentPart_Nil: "exponentPart [] = 0"
  by (simp add: exponentPart_def)

lemma scale10_0: "scale10 x 0 = x"
  by (simp add: scale10_def)

lemma digitsVal_Nil: "digitsVal [] = 0"
  by (simp add: digitsVal_def)

lemma not_Infinity: "c \<noteq> 73 \<Longrightarrow> \<not> prefix (ascii ''Infinity'') (c # r)"
  by (simp add: ascii_def)

lemma parseUnsigned_digits:
  assumes "ds \<noteq> []" "\<forall>c\<in>set ds. isDigit c"
  shows "parseUnsigned ds = Fin (of_nat (digitsVal ds))"
proof -
  from assms obtain c r where ds: "ds = c # r" by (cases ds) auto
  with assms have "c \<noteq> 73" using digit_facts by auto
  then have ni: "\<not> prefix (ascii ''Infinity'') ds" using ds not_Infinity by simp
  have tw: "takeWhile isDigit ds = ds" "dropWhile isDigit ds = []" using assms by auto
  show ?thesis
    using ni assms(1) by (simp add: parseUnsigned_def Let_def tw exponentPart_Nil scale10_0 digitsVal_Nil)
qed

lemma parseUnsigned_decimal:
  assumes "\<forall>c\<in>set ip. isDigit c" "\<forall>c\<in>set fp. isDigit c" "ip @ fp \<noteq> []"
  shows "parseUnsigned (ip @ 0x2E # fp) = decimalValue ip fp"
proof -
  have "hd (ip @ 0x2E # fp) \<noteq> 73"
    using assms(1) digit_facts by (cases ip) auto
  then have ni: "\<not> prefix (ascii ''Infinity'') (ip @ 0x2E # fp)"
    using not_Infinity[of "hd (ip @ 0x2E # fp)" "tl (ip @ 0x2E # fp)"] by (cases ip) auto
  have tw: "takeWhile isDigit (ip @ 0x2E # fp) = ip" "dropWhile isDigit (ip @ 0x2E # fp) = 0x2E # fp"
    using assms(1) separator_facts by (simp_all add: takeWhile_append2 dropWhile_append2)
  have tf: "takeWhile isDigit fp = fp" "dropWhile isDigit fp = []" using assms(2) by auto
  show ?thesis
    using ni assms(3)
    by (simp add: parseUnsigned_def Let_def tw tf exponentPart_Nil scale10_0 decimalValue_def)
qed

lemma parseFloat_unsigned:
  assumes "s \<noteq> []" "\<not> isSpace (hd s)" "hd s \<noteq> 0x2D" "hd s \<noteq> 0x2B"
  shows "parseFloat s = parseUnsigned s"
  using assms by (cases s) (simp_all add: parseFloat_def trimStart_def)

lemma parseFloat_digits:
  assumes "ds \<noteq> []" "\<forall>c\<in>set ds. isDigit c"
  shows "parseFloat ds = Fin (of_nat (digitsVal ds))"
proof -
  from assms have "isDigit (hd ds)" by (cases ds) auto
  then have "\<not> isSpace (hd ds)" "hd ds \<noteq> 0x2D" "hd ds \<noteq> 0x2B"
    using digit_not_space digit_facts by auto
  then show ?thesis using parseFloat_unsigned[OF assms(1)] parseUnsigned_digits[OF assms] by simp
qed

lemma parseFloat_decimal:
  assumes "\<forall>c\<in>set ip. isDigit c" "\<forall>c\<in>set fp. isDigit c" "ip @ fp \<noteq> []"
  shows "parseFloat (ip @ 0x2E # fp) = decimalValue ip fp"
proof -
  have h: "hd (ip @ 0x2E # fp) = 0x2E \<or> isDigit (hd (ip @ 0x2E # fp))"
    using assms(1) by (cases ip) auto
  then have "\<not> isSpace (hd (ip @ 0x2E # fp))" "hd (ip @ 0x2E # fp) \<noteq> 0x2D" "hd (ip @ 0x2E # fp) \<noteq> 0x2B"
    using digit_not_space digit_facts separator_facts by auto
  then show ?thesis
    using parseFloat_unsigned[of "ip @ 0x2E # fp"] parseUnsigned_decimal[OF assms] by simp
qed

lemma parseFloat_no_digit:
  assumes "\<forall>c\<in>set s. isDigitOrSeparator c \<and> \<not> isDigit c"
  shows "parseFloat s = NaN"
proof (cases s)
  case Nil
  then show ?thesis by (simp add: parseFloat_def trimStart_def)
next
  case (Cons c r)
  with assms have c: "c = 0x2E \<or> c = 0x2C" by (auto simp: isDigitOrSeparator_def)
  then have ns: "\<not> isSpace c" "c \<noteq> 0x2D" "c \<noteq> 0x2B" "c \<noteq> 73" "\<not> isDigit c"
    using separator_facts by auto
  have pf: "parseFloat s = parseUnsigned s"
    using parseFloat_unsigned[of s] Cons ns by simp
  have r: "\<forall>x\<in>set r. \<not> isDigit x" using assms Cons by auto
  then have tr: "takeWhile isDigit r = []" by (cases r) auto
  have ni: "\<not> prefix (ascii ''Infinity'') (c # r)" using ns not_Infinity by simp
  have "parseUnsigned (c # r) = NaN"
    using ni ns(5) tr by (simp add: parseUnsigned_def Let_def)
  with pf Cons show ?thesis by simp
qed

section \<open>Positions, splitting and replacing\<close>

lemma lastIndexFrom_notin: "c \<notin> set xs \<Longrightarrow> lastIndexFrom i found xs c = found"
  by (induction xs arbitrary: i found) auto

lemma lastIndexFrom_append:
  "lastIndexFrom i found (xs @ ys) c
     = lastIndexFrom (i + int (length xs)) (lastIndexFrom i found xs c) ys c"
  by (induction xs arbitrary: i found) (auto simp: algebra_simps)

lemma lastIndexFrom_bound: "found < i \<Longrightarrow> lastIndexFrom i found xs c < i + int (length xs)"
proof (induction xs arbitrary: i found)
  case Nil
  then show ?case by simp
next
  case (Cons x xs)
  have "(if x = c then i else found) < i + 1" using Cons.prems by simp
  from Cons.IH[OF this] show ?case by simp
qed

lemma lastIndexOf_mark:
  assumes "m \<notin> set f"
  shows "lastIndexOf (a @ m # f) m = int (length a)"
  using assms by (simp add: lastIndexOf_def lastIndexFrom_append lastIndexFrom_notin)

lemma lastIndexOf_other:
  assumes "c \<notin> set f" "c \<noteq> m"
  shows "lastIndexOf (a @ m # f) c < int (length a)"
proof -
  have "lastIndexOf (a @ m # f) c = lastIndexFrom 0 (- 1) a c"
    using assms by (simp add: lastIndexOf_def lastIndexFrom_append lastIndexFrom_notin)
  moreover have "lastIndexFrom 0 (- 1) a c < 0 + int (length a)"
    by (rule lastIndexFrom_bound) simp
  ultimately show ?thesis by simp
qed

lemma splitOn_nonempty: "splitOn sep s \<noteq> []"
  by (induction s) (auto split: list.splits)

lemma splitOn_notin: "sep \<notin> set s \<Longrightarrow> splitOn sep s = [s]"
  by (induction s) auto

lemma splitOn_append:
  assumes "sep \<notin> set l"
  shows "splitOn sep (a @ sep # l) = splitOn sep a @ [l]"
proof (induction a)
  case Nil
  then show ?case using assms by (simp add: splitOn_notin)
next
  case (Cons c a)
  obtain p ps where "splitOn sep a = p # ps" using splitOn_nonempty by (cases "splitOn sep a") auto
  with Cons show ?case by simp
qed

lemma splitOn_last:
  assumes "sep \<notin> set l"
  shows "last (splitOn sep (a @ sep # l)) = l" "length (splitOn sep (a @ sep # l)) > 1"
  using splitOn_append[OF assms] splitOn_nonempty[of sep a]
  by (simp_all add: Suc_lessI)

lemma replaceFirstChar_hit:
  "a \<notin> set xs \<Longrightarrow> replaceFirstChar a b (xs @ a # ys) = xs @ b # ys"
  by (induction xs) auto

lemma replaceFirstChar_miss: "a \<notin> set xs \<Longrightarrow> replaceFirstChar a b xs = xs"
  by (induction xs) auto

lemma filter_keep_digits:
  assumes "\<forall>c\<in>set a. isDigit c \<or> c = m" "\<not> isDigit m"
  shows "filter (\<lambda>c. c \<noteq> m) a = filter isDigit a"
  using assms by (induction a) auto

section \<open>The price parser, case by case\<close>

lemma cleanPrice_nonempty: "cleanPrice text \<noteq> [] \<Longrightarrow> text \<noteq> []"
  by (auto simp: cleanPrice_def)

lemma price_both_dot_decimal:
  assumes v: "cleanPrice text = a @ 0x2E # f"
    and a: "\<forall>c\<in>set a. isDigit c \<or> c = 0x2C" "0x2C \<in> set a"
    and f: "\<forall>c\<in>set f. isDigit c"
    and d: "filter isDigit a @ f \<noteq> []"
  shows "parsePriceText text = Some (decimalValue (filter isDigit a) f)"
proof -
  have nf: "0x2E \<notin> set f" "0x2C \<notin> set f" using f digit_facts by auto
  have t: "text \<noteq> []" using v cleanPrice_nonempty by auto
  have li: "lastIndexOf (a @ 0x2E # f) 0x2E > lastIndexOf (a @ 0x2E # f) 0x2C"
    using lastIndexOf_mark[OF nf(1), of a] lastIndexOf_other[OF nf(2), of "0x2E" a] by simp
  have fl: "filter (\<lambda>c. c \<noteq> 0x2C) a = filter isDigit a" "filter (\<lambda>c. c \<noteq> 0x2C) f = f"
    using filter_keep_digits[OF a(1)] separator_facts nf by (auto simp: filter_id_conv)
  have pf: "parseFloat (filter isDigit a @ 0x2E # f) = decimalValue (filter isDigit a) f"
    by (rule parseFloat_decimal) (use f d in auto)
  show ?thesis
    using t a(2) li by (simp add: parsePriceText_def v Let_def fl toNumber_def pf decimalValue_def)
qed

lemma price_both_comma_decimal:
  assumes v: "cleanPrice text = a @ 0x2C # f"
    and a: "\<forall>c\<in>set a. isDigit c \<or> c = 0x2E" "0x2E \<in> set a"
    and f: "\<forall>c\<in>set f. isDigit c"
    and d: "filter isDigit a @ f \<noteq> []"
  shows "parsePriceText text = Some (decimalValue (filter isDigit a) f)"
proof -
  have nf: "0x2E \<notin> set f" "0x2C \<notin> set f" using f digit_facts by auto
  have t: "text \<noteq> []" using v cleanPrice_nonempty by auto
  have li: "\<not> lastIndexOf (a @ 0x2C # f) 0x2E > lastIndexOf (a @ 0x2C # f) 0x2C"
    using lastIndexOf_mark[OF nf(2), of a] lastIndexOf_other[OF nf(1), of "0x2C" a] by simp
  have fl: "filter (\<lambda>c. c \<noteq> 0x2E) a = filter isDigit a" "filter (\<lambda>c. c \<noteq> 0x2E) f = f"
    using filter_keep_digits[OF a(1)] separator_facts nf by (auto simp: filter_id_conv)
  have nc: "0x2C \<notin> set (filter isDigit a)" using separator_facts by auto
  have rp: "replaceFirstChar 0x2C 0x2E (filter isDigit a @ 0x2C # f) = filter isDigit a @ 0x2E # f"
    by (rule replaceFirstChar_hit[OF nc])
  have pf: "parseFloat (filter isDigit a @ 0x2E # f) = decimalValue (filter isDigit a) f"
    by (rule parseFloat_decimal) (use f d in auto)
  show ?thesis
    using t a(2) li by (simp add: parsePriceText_def v Let_def fl rp toNumber_def pf decimalValue_def)
qed

lemma price_comma_thousands:
  assumes v: "cleanPrice text = a @ 0x2C # l"
    and a: "\<forall>c\<in>set a. isDigit c \<or> c = 0x2C"
    and l: "\<forall>c\<in>set l. isDigit c" "length l \<ge> 3"
  shows "parsePriceText text = Some (thousandsReading (cleanPrice text))"
proof -
  have nl: "0x2E \<notin> set l" "0x2C \<notin> set l" using l digit_facts by auto
  have na: "0x2E \<notin> set a" using a separator_facts by auto
  have t: "text \<noteq> []" using v cleanPrice_nonempty by auto
  have fl: "filter (\<lambda>c. c \<noteq> 0x2C) a = filter isDigit a" "filter (\<lambda>c. c \<noteq> 0x2C) l = l"
    using filter_keep_digits[OF a] separator_facts nl by (auto simp: filter_id_conv)
  have fd: "filter isDigit l = l"
    using l by (simp add: filter_id_conv)
  have ne: "filter isDigit a @ l \<noteq> []" using l(2) by auto
  have pf: "parseFloat (filter isDigit a @ l) = Fin (of_nat (digitsVal (filter isDigit a @ l)))"
    by (rule parseFloat_digits[OF ne]) (use l in auto)
  show ?thesis
    using t na nl l(2) splitOn_last[OF nl(2), of a]
    by (simp add: parsePriceText_def v Let_def fl fd toNumber_def pf thousandsReading_def separator_facts)
qed

lemma price_comma_decimal:
  assumes v: "cleanPrice text = ip @ 0x2C # fp"
    and ip: "\<forall>c\<in>set ip. isDigit c"
    and fp: "\<forall>c\<in>set fp. isDigit c" "length fp \<le> 2"
    and d: "ip @ fp \<noteq> []"
  shows "parsePriceText text = Some (decimalValue ip fp)"
proof -
  have nf: "0x2E \<notin> set fp" "0x2C \<notin> set fp" using fp digit_facts by auto
  have ni: "0x2E \<notin> set ip" "0x2C \<notin> set ip" using ip digit_facts by auto
  have t: "text \<noteq> []" using v cleanPrice_nonempty by auto
  have rp: "replaceFirstChar 0x2C 0x2E (ip @ 0x2C # fp) = ip @ 0x2E # fp"
    by (rule replaceFirstChar_hit[OF ni(2)])
  have pf: "parseFloat (ip @ 0x2E # fp) = decimalValue ip fp"
    by (rule parseFloat_decimal[OF ip fp(1) d])
  show ?thesis
    using t ni nf fp(2) splitOn_last[OF nf(2), of ip]
    by (simp add: parsePriceText_def v Let_def rp toNumber_def pf decimalValue_def)
qed

lemma price_dot_thousands:
  assumes v: "cleanPrice text = a @ 0x2E # l"
    and a: "\<forall>c\<in>set a. isDigit c \<or> c = 0x2E"
    and l: "\<forall>c\<in>set l. isDigit c" "length l = 3"
  shows "parsePriceText text = Some (thousandsReading (cleanPrice text))"
proof -
  have nl: "0x2E \<notin> set l" "0x2C \<notin> set l" using l digit_facts by auto
  have na: "0x2C \<notin> set a" using a separator_facts by auto
  have t: "text \<noteq> []" using v cleanPrice_nonempty by auto
  have fl: "filter (\<lambda>c. c \<noteq> 0x2E) a = filter isDigit a" "filter (\<lambda>c. c \<noteq> 0x2E) l = l"
    using filter_keep_digits[OF a] separator_facts nl by (auto simp: filter_id_conv)
  have fd: "filter isDigit l = l"
    using l by (simp add: filter_id_conv)
  have ne: "filter isDigit a @ l \<noteq> []" using l(2) by auto
  have pf: "parseFloat (filter isDigit a @ l) = Fin (of_nat (digitsVal (filter isDigit a @ l)))"
    by (rule parseFloat_digits[OF ne]) (use l in auto)
  show ?thesis
    using t na nl l(2) splitOn_last[OF nl(1), of a]
    by (simp add: parsePriceText_def v Let_def fl fd toNumber_def pf thousandsReading_def separator_facts)
qed

lemma price_dot_decimal:
  assumes v: "cleanPrice text = ip @ 0x2E # fp"
    and ip: "\<forall>c\<in>set ip. isDigit c"
    and fp: "\<forall>c\<in>set fp. isDigit c" "length fp \<noteq> 3"
    and d: "ip @ fp \<noteq> []"
  shows "parsePriceText text = Some (decimalValue ip fp)"
proof -
  have nf: "0x2E \<notin> set fp" "0x2C \<notin> set fp" using fp digit_facts by auto
  have ni: "0x2E \<notin> set ip" "0x2C \<notin> set ip" using ip digit_facts by auto
  have t: "text \<noteq> []" using v cleanPrice_nonempty by auto
  have pf: "parseFloat (ip @ 0x2E # fp) = decimalValue ip fp"
    by (rule parseFloat_decimal[OF ip fp(1) d])
  show ?thesis
    using t ni nf fp(2) splitOn_last[OF nf(1), of ip]
    by (simp add: parsePriceText_def v Let_def toNumber_def pf decimalValue_def)
qed

lemma price_digits:
  assumes v: "cleanPrice text = ds" and ds: "ds \<noteq> []" "\<forall>c\<in>set ds. isDigit c"
  shows "parsePriceText text = Some (thousandsReading (cleanPrice text))"
proof -
  have n: "0x2E \<notin> set ds" "0x2C \<notin> set ds" using ds digit_facts by auto
  have t: "text \<noteq> []" using v ds cleanPrice_nonempty by auto
  have fd: "filter isDigit ds = ds" using ds by (simp add: filter_id_conv)
  show ?thesis
    using t n ds(1) parseFloat_digits[OF ds]
    by (simp add: parsePriceText_def v Let_def toNumber_def thousandsReading_def fd)
qed

section \<open>The separator rule of the price parser\<close>

lemmas parseFloat_eval = parseFloat_def trimStart_def isSpace_def isLineTerminator_def ascii_def
  parseUnsigned_def isDigit_def digitsVal_def scale10_def exponentPart_def Let_def

lemmas price_eval = parsePriceText_def cleanPrice_def isDigitOrSeparator_def toNumber_def
  lastIndexOf_def

lemma inlinePriceNumber_example: "inlinePriceNumber (ascii ''105,000.50$'') = Some (Fin 105)"
  by (simp add: inlinePriceNumber_def trim_def isDigitOrSeparator_def parseFloat_eval)

text \<open>
  Claim C1, as stated, fails. In 105.0000 only dots appear and four digits follow the
  dot, so the rule of the claim reads the dot as a thousands separator (1050000);
  \<open>parsePriceText\<close> reads it as the decimal point (105). In 1,000,50 only commas appear, in
  two places, so the rule of the claim reads them as thousands separators (100050);
  \<open>parsePriceText\<close> turns the first comma into the decimal point and reads 1.
\<close>

theorem parsePriceText_claimed_rule_counterexample:
  "parsePriceText (ascii ''105.0000'') = Some (Fin 105)
   \<and> claimedPriceValue (ascii ''105.0000'') = Some (Fin 1050000)
   \<and> parsePriceText (ascii ''105.0000'') \<noteq> claimedPriceValue (ascii ''105.0000'')
   \<and> parsePriceText (ascii ''1,000,50'') = Some (Fin 1)
   \<and> claimedPriceValue (ascii ''1,000,50'') = Some (Fin 100050)
   \<and> parsePriceText (ascii ''1,000,50'') \<noteq> claimedPriceValue (ascii ''1,000,50'')"
  by (simp add: claimedPriceValue_def thousandsReading_def decimalReading_def decimalValue_def
      price_eval parseFloat_eval)

text \<open>
  Claim C1, amended. On the cleaned text (digits and separators only):
  with both separators, when the right-most separator occurs once it is the decimal mark and
  the separators before it group digits; with commas only, commas followed at the end by
  three or more digits group digits, and a single comma followed by at most two digits is
  the decimal mark; with dots only, dots followed at the end by exactly three digits group
  digits, and a single dot followed by any other number of digits is the decimal mark; a
  text without separators is the number its digits write. In particular 105,000.50 and
  105.000,50 give 105000.50, 105,50 gives 105.50 and 105,000 gives 105000.
\<close>

theorem parsePriceText_separator_rule:
  "(\<forall>text a f. cleanPrice text = a @ 0x2E # f \<and> (\<forall>c\<in>set a. isDigit c \<or> c = 0x2C) \<and> 0x2C \<in> set a
        \<and> (\<forall>c\<in>set f. isDigit c) \<and> filter isDigit a @ f \<noteq> [] \<longrightarrow>
      parsePriceText text = Some (decimalValue (filter isDigit a) f))
   \<and> (\<forall>text a f. cleanPrice text = a @ 0x2C # f \<and> (\<forall>c\<in>set a. isDigit c \<or> c = 0x2E) \<and> 0x2E \<in> set a
        \<and> (\<forall>c\<in>set f. isDigit c) \<and> filter isDigit a @ f \<noteq> [] \<longrightarrow>
      parsePriceText text = Some (decimalValue (filter isDigit a) f))
   \<and> (\<forall>text a l. cleanPrice text = a @ 0x2C # l \<and> (\<forall>c\<in>set a. isDigit c \<or> c = 0x2C)
        \<and> (\<forall>c\<in>set l. isDigit c) \<and> length l \<ge> 3 \<longrightarrow>
      parsePriceText text = Some (thousandsReading (cleanPrice text)))
   \<and> (\<forall>text ip fp. cleanPrice text = ip @ 0x2C # fp \<and> (\<forall>c\<in>set ip. isDigit c)
        \<and> (\<forall>c\<in>set fp. isDigit c) \<and> length fp \<le> 2 \<and> ip @ fp \<noteq> [] \<longrightarrow>
      parsePriceText text = Some (decimalValue ip fp))
   \<and> (\<forall>text a l. cleanPrice text = a @ 0x2E # l \<and> (\<forall>c\<in>set a. isDigit c \<or> c = 0x2E)
        \<and> (\<forall>c\<in>set l. isDigit c) \<and> length l = 3 \<longrightarrow>
      parsePriceText text = Some (thousandsReading (cleanPrice text)))
   \<and> (\<forall>text ip fp. cleanPrice text = ip @ 0x2E # fp \<and> (\<forall>c\<in>set ip. isDigit c)
        \<and> (\<forall>c\<in>set fp. isDigit c) \<and> length fp \<noteq> 3 \<and> ip @ fp \<noteq> [] \<longrightarrow>
      parsePriceText text = Some (decimalValue ip fp))
   \<and> (\<forall>text. cleanPrice text \<noteq> [] \<and> (\<forall>c\<in>set (cleanPrice text). isDigit c) \<longrightarrow>
      parsePriceText text = Some (thousandsReading (cleanPrice text)))
   \<and> parsePriceText (ascii ''105,000.50'') = Some (Fin (10500050 / 100))
   \<and> parsePriceText (ascii ''105.000,50'') = Some (Fin (10500050 / 100))
   \<and> parsePriceText (ascii ''105,50'') = Some (Fin (10550 / 100))
   \<and> parsePriceText (ascii ''105,000'') = Some (Fin 105000)"
proof (intro conjI allI impI)
  show "parsePriceText (ascii ''105,000.50'') = Some (Fin (10500050 / 100))"
    by (simp add: price_eval parseFloat_eval)
  show "parsePriceText (ascii ''105.000,50'') = Some (Fin (10500050 / 100))"
    by (simp add: price_eval parseFloat_eval)
  show "parsePriceText (ascii ''105,50'') = Some (Fin (10550 / 100))"
    by (simp add: price_eval parseFloat_eval)
  show "parsePriceText (ascii ''105,000'') = Some (Fin 105000)"
    by (simp add: price_eval parseFloat_eval)
next
  fix txt0 a f
  assume "cleanPrice txt0 = a @ 0x2E # f \<and> (\<forall>c\<in>set a. isDigit c \<or> c = 0x2C) \<and> 0x2C \<in> set a
        \<and> (\<forall>c\<in>set f. isDigit c) \<and> filter isDigit a @ f \<noteq> []"
  then show "parsePriceText txt0 = Some (decimalValue (filter isDigit a) f)"
    by (elim conjE) (rule price_both_dot_decimal)
next
  fix txt0 a f
  assume "cleanPrice txt0 = a @ 0x2C # f \<and> (\<forall>c\<in>set a. isDigit c \<or> c = 0x2E) \<and> 0x2E \<in> set a
        \<and> (\<forall>c\<in>set f. isDigit c) \<and> filter isDigit a @ f \<noteq> []"
  then show "parsePriceText txt0 = Some (decimalValue (filter isDigit a) f)"
    by (elim conjE) (rule price_both_comma_decimal)
next
  fix txt0 a l
  assume "cleanPrice txt0 = a @ 0x2C # l \<and> (\<forall>c\<in>set a. isDigit c \<or> c = 0x2C)
        \<and> (\<forall>c\<in>set l. isDigit c) \<and> length l \<ge> 3"
  then show "parsePriceText txt0 = Some (thousandsReading (cleanPrice txt0))"
    by (elim conjE) (rule price_comma_thousands)
next
  fix txt0 ip fp
  assume "cleanPrice txt0 = ip @ 0x2C # fp \<and> (\<forall>c\<in>set ip. isDigit c)
        \<and> (\<forall>c\<in>set fp. isDigit c) \<and> length fp \<le> 2 \<and> ip @ fp \<noteq> []"
  then show "parsePriceText txt0 = Some (decimalValue ip fp)"
    by (elim conjE) (rule price_comma_decimal)
next
  fix txt0 a l
  assume "cleanPrice txt0 = a @ 0x2E # l \<and> (\<forall>c\<in>set a. isDigit c \<or> c = 0x2E)
        \<and> (\<forall>c\<in>set l. isDigit c) \<and> length l = 3"
  then show "parsePriceText txt0 = Some (thousandsReading (cleanPrice txt0))"
    by (elim conjE) (rule price_dot_thousands)
next
  fix txt0 ip fp
  assume "cleanPrice txt0 = ip @ 0x2E # fp \<and> (\<forall>c\<in>set ip. isDigit c)
        \<and> (\<forall>c\<in>set fp. isDigit c) \<and> length fp \<noteq> 3 \<and> ip @ fp \<noteq> []"
  then show "parsePriceText txt0 = Some (decimalValue ip fp)"
    by (elim conjE) (rule price_dot_decimal)
next
  fix txt0
  assume "cleanPrice txt0 \<noteq> [] \<and> (\<forall>c\<in>set (cleanPrice txt0). isDigit c)"
  then show "parsePriceText txt0 = Some (thousandsReading (cleanPrice txt0))"
    using price_digits[of txt0 "cleanPrice txt0"] by simp
qed

theorem parsePriceText_separator_rule_witness:
  "cleanPrice (ascii ''$ 105,000.50'') = ascii ''105,000'' @ 0x2E # ascii ''50''
   \<and> parsePriceText (ascii ''$ 105,000.50'') = Some (Fin (10500050 / 100))
   \<and> cleanPrice (ascii ''1.250 GEL'') = ascii ''1'' @ 0x2E # ascii ''250''
   \<and> parsePriceText (ascii ''1.250 GEL'') = Some (Fin 1250)"
proof -
  have c1: "cleanPrice (ascii ''$ 105,000.50'') = ascii ''105,000'' @ 0x2E # ascii ''50''"
    by (simp add: cleanPrice_def isDigitOrSeparator_def ascii_def isSpace_def isLineTerminator_def isDigit_def)
  have a1: "(\<forall>c\<in>set (ascii ''105,000''). isDigit c \<or> c = 0x2C) \<and> 0x2C \<in> set (ascii ''105,000'')
      \<and> (\<forall>c\<in>set (ascii ''50''). isDigit c) \<and> filter isDigit (ascii ''105,000'') @ ascii ''50'' \<noteq> []"
    by (simp add: ascii_def isDigit_def)
  have r1: "parsePriceText (ascii ''$ 105,000.50'')
      = Some (decimalValue (filter isDigit (ascii ''105,000'')) (ascii ''50''))"
    using parsePriceText_separator_rule[THEN conjunct1, rule_format,
        of "ascii ''$ 105,000.50''" "ascii ''105,000''" "ascii ''50''"] c1 a1 by simp
  have c2: "cleanPrice (ascii ''1.250 GEL'') = ascii ''1'' @ 0x2E # ascii ''250''"
    by (simp add: cleanPrice_def isDigitOrSeparator_def ascii_def isSpace_def isLineTerminator_def isDigit_def)
  have a2: "(\<forall>c\<in>set (ascii ''1''). isDigit c \<or> c = 0x2E)
      \<and> (\<forall>c\<in>set (ascii ''250''). isDigit c) \<and> length (ascii ''250'') = 3"
    by (simp add: ascii_def isDigit_def)
  have r2: "parsePriceText (ascii ''1.250 GEL'') = Some (thousandsReading (cleanPrice (ascii ''1.250 GEL'')))"
    using parsePriceText_separator_rule[THEN conjunct2, THEN conjunct2, THEN conjunct2,
        THEN conjunct2, THEN conjunct1, rule_format,
        of "ascii ''1.250 GEL''" "ascii ''1''" "ascii ''250''"] c2 a2 by simp
  show ?thesis
    using r1 r2 c1 c2
    by (simp add: decimalValue_def thousandsReading_def ascii_def isDigit_def digitsVal_def)
qed

section \<open>Numeric attributes\<close>

lemma trim_id:
  assumes "s \<noteq> []" "\<not> isSpace (hd s)" "\<not> isSpace (last s)"
  shows "trim s = s"
proof -
  from assms have d1: "dropWhile isSpace s = s" by (cases s) auto
  from assms have "rev s \<noteq> []" "\<not> isSpace (hd (rev s))" by (auto simp: hd_rev)
  then have d2: "dropWhile isSpace (rev s) = rev s" by (cases "rev s") auto
  show ?thesis by (simp add: trim_def d1 d2)
qed

lemma trim_snoc_space:
  assumes "s \<noteq> []" "\<not> isSpace (hd s)" "\<not> isSpace (last s)" "isSpace u"
  shows "trim (s @ [u]) = s"
proof -
  from assms have d1: "dropWhile isSpace (s @ [u]) = s @ [u]" by (cases s) auto
  from assms have "rev s \<noteq> []" "\<not> isSpace (hd (rev s))" by (auto simp: hd_rev)
  then have d2: "dropWhile isSpace (rev s) = rev s" by (cases "rev s") auto
  show ?thesis using assms(4) by (simp add: trim_def d1 d2)
qed

lemma numericFieldValue_of_cleaned:
  assumes "trim value = w" "w \<noteq> []" "isDigit (last w)"
  shows "numericFieldValue value =
    (let n = parseFloat (replaceFirstChar 0x2C 0x2E (filter isDigitOrSeparator w))
     in if n \<noteq> NaN then JNum n else JStr value)"
  using assms by (simp add: numericFieldValue_def Let_def)

lemma numericFieldValue_of_unit:
  assumes "trim value = w @ [u]" "\<not> isDigit u" "trim w = w"
  shows "numericFieldValue value =
    (let n = parseFloat (replaceFirstChar 0x2C 0x2E (filter isDigitOrSeparator w))
     in if n \<noteq> NaN then JNum n else JStr value)"
  using assms by (simp add: numericFieldValue_def Let_def)

lemma digits_filter: "\<forall>c\<in>set ds. isDigit c \<Longrightarrow> filter isDigitOrSeparator ds = ds"
  by (simp add: filter_id_conv isDigitOrSeparator_def)

lemma digits_no_comma: "\<forall>c\<in>set ds. isDigit c \<Longrightarrow> 0x2C \<notin> set ds"
  using digit_facts by auto

lemma Fin_not_NaN: "Fin r \<noteq> NaN"
  by simp

lemma numericFieldValue_digits_unit:
  assumes ds: "ds \<noteq> []" "\<forall>c\<in>set ds. isDigit c" and u: "\<not> isDigit u"
  shows "numericFieldValue (ds @ [u]) = JNum (Fin (of_nat (digitsVal ds)))"
proof -
  have h: "\<not> isSpace (hd ds)" "\<not> isSpace (last ds)" "isDigit (last ds)"
    using ds digit_not_space by auto
  have td: "trim ds = ds" by (rule trim_id[OF ds(1) h(1,2)])
  have cl: "replaceFirstChar 0x2C 0x2E (filter isDigitOrSeparator ds) = ds"
    using digits_filter[OF ds(2)] replaceFirstChar_miss[OF digits_no_comma[OF ds(2)]] by simp
  have pf: "parseFloat ds = Fin (of_nat (digitsVal ds))" by (rule parseFloat_digits[OF ds])
  show ?thesis
  proof (cases "isSpace u")
    case True
    have "trim (ds @ [u]) = ds" by (rule trim_snoc_space[OF ds(1) h(1,2) True])
    from numericFieldValue_of_cleaned[OF this ds(1) h(3)] show ?thesis
      by (simp add: cl pf)
  next
    case False
    have "trim (ds @ [u]) = ds @ [u]"
      using trim_id[of "ds @ [u]"] ds(1) h(1) False by (cases ds) auto
    from numericFieldValue_of_unit[OF this u td] show ?thesis
      by (simp add: cl pf)
  qed
qed

lemma numericFieldValue_decimal_unit:
  assumes ip: "ip \<noteq> []" "\<forall>c\<in>set ip. isDigit c" and fp: "\<forall>c\<in>set fp. isDigit c"
    and sep: "sep = 0x2C \<or> sep = 0x2E" and u: "\<not> isDigit u"
  shows "numericFieldValue (ip @ sep # fp @ [u]) = JNum (decimalValue ip fp)"
proof -
  let ?w = "ip @ sep # fp"
  have sepf: "\<not> isSpace sep" "\<not> isDigit sep" "isDigitOrSeparator sep"
    using sep separator_facts by (auto simp: isDigitOrSeparator_def)
  have hw: "?w \<noteq> []" "\<not> isSpace (hd ?w)" "\<not> isSpace (last ?w)"
    using ip fp digit_not_space sepf by (auto simp: hd_append)
  have tw: "trim ?w = ?w" by (rule trim_id[OF hw])
  have fw: "filter isDigitOrSeparator ?w = ?w"
    using digits_filter[OF ip(2)] digits_filter[OF fp] sepf by simp
  have rw: "replaceFirstChar 0x2C 0x2E ?w = ip @ 0x2E # fp"
  proof (cases "sep = 0x2C")
    case True
    then show ?thesis using replaceFirstChar_hit[OF digits_no_comma[OF ip(2)]] by simp
  next
    case False
    then have "sep = 0x2E" using sep by simp
    moreover have "0x2C \<notin> set (ip @ 0x2E # fp)"
      using digits_no_comma[OF ip(2)] digits_no_comma[OF fp] by simp
    ultimately show ?thesis using replaceFirstChar_miss by simp
  qed
  have pf: "parseFloat (ip @ 0x2E # fp) = decimalValue ip fp"
    by (rule parseFloat_decimal[OF ip(2) fp]) (use ip in simp)
  have res: "(let n = parseFloat (replaceFirstChar 0x2C 0x2E (filter isDigitOrSeparator ?w))
     in if n \<noteq> NaN then JNum n else JStr v) = JNum (decimalValue ip fp)" for v
    by (simp only: fw rw pf Let_def decimalValue_def) simp
  show ?thesis
  proof (cases "isSpace u")
    case False
    have "trim (?w @ [u]) = ?w @ [u]"
      using trim_id[of "?w @ [u]"] hw False ip(1) by (simp add: hd_append)
    from numericFieldValue_of_unit[OF this u tw] res show ?thesis by simp
  next
    case True
    have t: "trim (?w @ [u]) = ?w" by (rule trim_snoc_space[OF hw True])
    show ?thesis
    proof (cases "fp = []")
      case False
      then have "isDigit (last ?w)" using fp by simp
      from numericFieldValue_of_cleaned[OF t hw(1) this] res show ?thesis by simp
    next
      case fpe: True
      have hi: "\<not> isSpace (hd ip)" "\<not> isSpace (last ip)" using ip digit_not_space by auto
      have ti: "trim ip = ip" by (rule trim_id[OF ip(1) hi])
      have t': "trim (ip @ sep # fp @ [u]) = ip @ [sep]" using t fpe by simp
      have cl: "replaceFirstChar 0x2C 0x2E (filter isDigitOrSeparator ip) = ip"
        using digits_filter[OF ip(2)] replaceFirstChar_miss[OF digits_no_comma[OF ip(2)]] by simp
      have "parseFloat ip = decimalValue ip fp"
        using parseFloat_digits[OF ip] fpe by (simp add: decimalValue_def digitsVal_Nil)
      with numericFieldValue_of_unit[OF t' sepf(2) ti] show ?thesis
        by (simp add: cl decimalValue_def)
    qed
  qed
qed

lemma numericFieldValue_no_digit:
  assumes "\<forall>c\<in>set value. \<not> isDigit c"
  shows "numericFieldValue value = JStr value"
proof -
  have sub: "\<And>s. set s \<subseteq> set value \<Longrightarrow>
     parseFloat (replaceFirstChar 0x2C 0x2E (filter isDigitOrSeparator s)) = NaN"
  proof -
    fix s assume s: "set s \<subseteq> set value"
    have m: "set (replaceFirstChar 0x2C 0x2E xs) \<subseteq> set xs \<union> {0x2E}" for xs
      by (induction xs) auto
    have "\<forall>c\<in>set (replaceFirstChar 0x2C 0x2E (filter isDigitOrSeparator s)).
            isDigitOrSeparator c \<and> \<not> isDigit c"
      using m[of "filter isDigitOrSeparator s"] s assms separator_facts
      by (auto simp: isDigitOrSeparator_def)
    then show "parseFloat (replaceFirstChar 0x2C 0x2E (filter isDigitOrSeparator s)) = NaN"
      by (rule parseFloat_no_digit)
  qed
  have t1: "set (trim s) \<subseteq> set s" for s
    by (auto simp: trim_def dest!: set_dropWhileD)
  have t2: "set (trim (butlast (trim value))) \<subseteq> set value"
    using t1[of "butlast (trim value)"] t1[of "value"] in_set_butlastD by fastforce
  show ?thesis
    using sub[OF t1[of "value"]] sub[OF t2]
    by (simp add: numericFieldValue_def Let_def)
qed



section \<open>The matcher on classes and stars\<close>

lemma state_proj [simp]: "prevOf (p, r, c) = p" "restOf (p, r, c) = r" "capsOf (p, r, c) = c"
  by (simp_all add: prevOf_def restOf_def capsOf_def)

lemma prevAfter_simps [simp]:
  "prevAfter p [] = p" "prevAfter p (c # u) = prevAfter (Some c) u"
  by (simp_all add: prevAfter_def)

lemma prevAfter_append: "prevAfter p (u @ w) = prevAfter (prevAfter p u) w"
  by (induction u arbitrary: p) auto

lemma matches_Cls_Cons:
  "matches (Cls P) (p, c # cs, caps) = (if P c then [(Some c, cs, caps)] else [])"
  by (simp add: matches.simps)

lemma matches_Cls_Nil: "matches (Cls P) (p, [], caps) = []"
  by (simp add: matches.simps)

lemma star_lazy_head: "star False iter st = st # tl (star False iter st)"
  using star.simps[of False iter st] by (simp add: Let_def)

lemma star_lazy_Cons:
  "P c \<Longrightarrow> star False (matches (Cls P)) (p, c # cs, caps)
     = (p, c # cs, caps) # star False (matches (Cls P)) (Some c, cs, caps)"
  using star.simps[of False "matches (Cls P)" "(p, c # cs, caps)"]
  by (simp add: Let_def matches_Cls_Cons)

lemma star_greedy_Cons:
  "P c \<Longrightarrow> star True (matches (Cls P)) (p, c # cs, caps)
     = star True (matches (Cls P)) (Some c, cs, caps) @ [(p, c # cs, caps)]"
  using star.simps[of True "matches (Cls P)" "(p, c # cs, caps)"]
  by (simp add: Let_def matches_Cls_Cons)

lemma star_Cls_stop:
  "xs = [] \<or> \<not> P (hd xs) \<Longrightarrow> star g (matches (Cls P)) (p, xs, caps) = [(p, xs, caps)]"
  using star.simps[of g "matches (Cls P)" "(p, xs, caps)"]
  by (cases xs) (simp_all add: Let_def matches_Cls_Cons matches_Cls_Nil)

text \<open>A lazy star over a class, followed by a continuation that fails inside \<open>u\<close>.\<close>

lemma lazy_skip:
  assumes "\<forall>c\<in>set u. P c"
    and "\<And>u1 u2. u = u1 @ u2 \<Longrightarrow> u2 \<noteq> [] \<Longrightarrow> F (prevAfter p u1, u2 @ v, caps) = []"
  shows "concat (map F (star False (matches (Cls P)) (p, u @ v, caps)))
       = concat (map F (star False (matches (Cls P)) (prevAfter p u, v, caps)))"
  using assms
proof (induction u arbitrary: p)
  case Nil
  then show ?case by simp
next
  case (Cons c u)
  have pc: "P c" using Cons.prems(1) by simp
  have f0: "F (p, (c # u) @ v, caps) = []"
    using Cons.prems(2)[of "[]" "c # u"] by simp
  have ih: "concat (map F (star False (matches (Cls P)) (Some c, u @ v, caps)))
       = concat (map F (star False (matches (Cls P)) (prevAfter (Some c) u, v, caps)))"
  proof (rule Cons.IH)
    show "\<forall>c\<in>set u. P c" using Cons.prems(1) by simp
    fix u1 u2 assume "u = u1 @ u2" "u2 \<noteq> []"
    then show "F (prevAfter (Some c) u1, u2 @ v, caps) = []"
      using Cons.prems(2)[of "c # u1" u2] by simp
  qed
  show ?case
    using star_lazy_Cons[of P c p "u @ v" caps] pc f0 ih by simp
qed

text \<open>A greedy star over a class, followed by a continuation that fails on that class.\<close>

lemma greedy_skip:
  assumes "\<And>p c cs caps. P c \<Longrightarrow> F (p, c # cs, caps) = []"
  shows "concat (map F (star True (matches (Cls P)) (p, xs, caps)))
       = F (prevAfter p (takeWhile P xs), dropWhile P xs, caps)"
proof (induction xs arbitrary: p)
  case Nil
  then show ?case by (simp add: star_Cls_stop)
next
  case (Cons c xs)
  show ?case
  proof (cases "P c")
    case True
    then show ?thesis
      using star_greedy_Cons[of P c p xs caps] Cons.IH[of "Some c"] assms[OF True] by simp
  next
    case False
    then show ?thesis by (simp add: star_Cls_stop)
  qed
qed

lemma star_greedy_first:
  "\<exists>ts. star True (matches (Cls P)) (p, xs, caps)
         = (prevAfter p (takeWhile P xs), dropWhile P xs, caps) # ts"
proof (induction xs arbitrary: p)
  case Nil
  then show ?case by (simp add: star_Cls_stop)
next
  case (Cons c xs)
  show ?case
  proof (cases "P c")
    case True
    from Cons.IH[of "Some c"] obtain ts where
      "star True (matches (Cls P)) (Some c, xs, caps)
         = (prevAfter (Some c) (takeWhile P xs), dropWhile P xs, caps) # ts" by blast
    then show ?thesis using star_greedy_Cons[of P c p xs caps] True by simp
  next
    case False
    then show ?thesis by (simp add: star_Cls_stop)
  qed
qed

section \<open>The address pattern, part by part\<close>

lemma matches_Seq: "matches (Seq a b) st = concat (map (matches b) (matches a st))"
  by (simp add: matches.simps)

lemma matches_Group: "matches (Group i a) st = map (setCapture i st) (matches a st)"
  by (simp add: matches.simps)

lemma matches_Star: "matches (Star g a) st = star g (matches a) st"
  by (simp add: matches.simps)

lemma matches_Eps: "matches Eps st = [st]"
  by (simp add: matches.simps)

lemma matches_Bol: "matches Bol (p, r, c) = (if p = None then [(p, r, c)] else [])"
  by (simp add: matches.simps)

lemma matches_Eol: "matches Eol (p, r, c) = (if r = [] then [(p, r, c)] else [])"
  by (simp add: matches.simps)

lemma matches_Chr: "matches (Chr x) (p, r, caps) =
   (case r of [] \<Rightarrow> [] | c # cs \<Rightarrow> if c = x then [(Some c, cs, caps)] else [])"
  by (cases r) (simp_all add: Chr_def matches_Cls_Cons matches_Cls_Nil)

text \<open>The tail of the address pattern: the literal m/r at the very end of the input.\<close>

lemma mr_eol:
  "matches (Seq (Lit mr) (Seq Eol Eps)) (p, r, caps)
     = (if r = mr then [(Some 0x10E0, [], caps)] else [])"
proof -
  have "matches (Seq (Lit mr) (Seq Eol Eps)) (p, r, caps)
     = (case r of
          a # b # c # rest \<Rightarrow> if a = 0x10DB \<and> b = 47 \<and> c = 0x10E0 \<and> rest = []
                              then [(Some 0x10E0, [], caps)] else []
        | _ \<Rightarrow> [])"
    by (simp add: Lit_def mr_def seqs_def matches_Seq matches_Chr matches_Eol matches_Eps
        split: list.splits)
  then show ?thesis by (auto simp: mr_def split: list.splits)
qed

lemma mr_eol_space:
  assumes "isSpace c"
  shows "matches (Seq (Lit mr) (Seq Eol Eps)) (p, c # cs, caps) = []"
proof -
  have "c # cs \<noteq> mr" using assms by (auto simp: mr_def isSpace_def isLineTerminator_def)
  then show ?thesis by (simp add: mr_eol)
qed

lemma space_facts: "\<not> isSpace 0x2D" "\<not> isSpace 0x10DB" "isSpace 32" "\<not> isLineTerminator 32"
  by (simp_all add: isSpace_def isLineTerminator_def)

lemma greedy_class_then:
  assumes "\<And>p c cs caps. P c \<Longrightarrow> matches K (p, c # cs, caps) = []"
  shows "matches (Seq (Star True (Cls P)) K) (p, xs, caps)
       = matches K (prevAfter p (takeWhile P xs), dropWhile P xs, caps)"
  unfolding matches_Seq matches_Star
  by (rule greedy_skip) (rule assms)

text \<open>The part of the pattern after the second group: \<open>\\s*m\\/r$\<close>.\<close>

lemma tail_after_group2:
  "matches (Seq (Star True space) (Seq (Lit mr) (Seq Eol Eps))) (p, r, caps)
     = (if dropWhile isSpace r = mr then [(Some 0x10E0, [], caps)] else [])"
proof -
  have "matches (Seq (Star True space) (Seq (Lit mr) (Seq Eol Eps))) (p, r, caps)
      = matches (Seq (Lit mr) (Seq Eol Eps)) (prevAfter p (takeWhile isSpace r), dropWhile isSpace r, caps)"
    unfolding space_def by (rule greedy_class_then) (rule mr_eol_space)
  then show ?thesis by (simp add: mr_eol)
qed

text \<open>The part from the hyphen on, tried at a position where no hyphen follows the white space.\<close>

lemma hyphen_part_fails:
  assumes "dropWhile isSpace r = [] \<or> hd (dropWhile isSpace r) \<noteq> 0x2D"
  shows "matches (Seq (Star True space) (Seq (Chr 0x2D) K)) (p, r, caps) = []"
proof -
  have f: "\<And>p c cs caps. isSpace c \<Longrightarrow> matches (Seq (Chr 0x2D) K) (p, c # cs, caps) = []"
    using space_facts by (auto simp: matches_Seq matches_Chr)
  have "matches (Seq (Star True space) (Seq (Chr 0x2D) K)) (p, r, caps)
      = matches (Seq (Chr 0x2D) K) (prevAfter p (takeWhile isSpace r), dropWhile isSpace r, caps)"
    unfolding space_def by (rule greedy_class_then) (rule f)
  also have "\<dots> = []"
  proof (cases "dropWhile isSpace r")
    case Nil
    then show ?thesis by (simp only: matches_Seq matches_Chr) simp
  next
    case (Cons c cs)
    with assms have "c \<noteq> 0x2D" by simp
    with Cons show ?thesis by (simp only: matches_Seq matches_Chr) simp
  qed
  finally show ?thesis .
qed

lemma hyphen_part_passes:
  assumes "dropWhile isSpace r = 0x2D # r'"
  shows "matches (Seq (Star True space) (Seq (Chr 0x2D) K)) (p, r, caps)
       = matches K (Some 0x2D, r', caps)"
proof -
  have f: "\<And>p c cs caps. isSpace c \<Longrightarrow> matches (Seq (Chr 0x2D) K) (p, c # cs, caps) = []"
    using space_facts by (auto simp: matches_Seq matches_Chr)
  have "matches (Seq (Star True space) (Seq (Chr 0x2D) K)) (p, r, caps)
      = matches (Seq (Chr 0x2D) K) (prevAfter p (takeWhile isSpace r), dropWhile isSpace r, caps)"
    unfolding space_def by (rule greedy_class_then) (rule f)
  also have "\<dots> = matches K (Some 0x2D, r', caps)"
    using assms by (simp add: matches_Seq matches_Chr)
  finally show ?thesis .
qed

lemma dropWhile_append_keep:
  assumes "\<exists>x\<in>set u. \<not> P x"
  shows "dropWhile P (u @ v) = dropWhile P u @ v \<and> dropWhile P u \<noteq> []"
  using assms by (auto simp: dropWhile_append1)

lemma plus_lazy_any_first:
  assumes "\<not> isLineTerminator c"
  shows "matches (Plus False anyChar) (p, c # r, caps)
       = star False (matches (Cls (\<lambda>x. \<not> isLineTerminator x))) (Some c, r, caps)"
  using assms by (simp add: Plus_def anyChar_def matches_Seq matches_Star matches_Cls_Cons)

text \<open>The second group and what follows it, on the text after the hyphen and the white space.\<close>

lemma group2_part:
  assumes m: "m \<noteq> []" "\<forall>x\<in>set m. \<not> isLineTerminator x" "\<not> isSpace (last m)"
  shows "\<exists>ts. matches (Seq (Group 2 (Plus False anyChar))
                   (Seq (Star True space) (Seq (Lit mr) (Seq Eol Eps)))) (p, m @ 32 # mr, caps)
              = (Some 0x10E0, [], caps(2 := Some m)) # ts"
proof -
  let ?K3 = "Seq (Star True space) (Seq (Lit mr) (Seq Eol Eps))"
  let ?P = "\<lambda>x. \<not> isLineTerminator x"
  let ?v = "32 # mr"
  from m(1) obtain c m' where cm: "m = c # m'" by (cases m) auto
  let ?st = "(p, m @ ?v, caps)"
  let ?F = "\<lambda>st'. matches ?K3 (setCapture 2 ?st st')"
  have nl: "\<not> isLineTerminator c" "\<forall>x\<in>set m'. \<not> isLineTerminator x" using m(2) cm by auto
  have inside: "?F (prevAfter (Some c) u1, u2 @ ?v, caps) = []" if "m' = u1 @ u2" "u2 \<noteq> []" for u1 u2
  proof -
    have "last u2 = last m" using that cm by simp
    then have "\<exists>x\<in>set u2. \<not> isSpace x" using m(3) that(2) last_in_set by metis
    from dropWhile_append_keep[OF this, of "32 # mr"]
    have "length (dropWhile isSpace (u2 @ ?v)) > 3" by (cases "dropWhile isSpace u2") (auto simp: mr_def)
    then have "dropWhile isSpace (u2 @ ?v) \<noteq> mr" by (auto simp: mr_def)
    then show ?thesis by (simp add: setCapture_def tail_after_group2)
  qed
  have skip: "concat (map ?F (star False (matches (Cls ?P)) (Some c, m' @ ?v, caps)))
       = concat (map ?F (star False (matches (Cls ?P)) (prevAfter (Some c) m', ?v, caps)))"
    by (rule lazy_skip) (use nl inside in auto)
  have hdm: "dropWhile isSpace ?v = mr" by (simp add: space_facts mr_def isSpace_def isLineTerminator_def)
  have cap: "take (length (m @ ?v) - length ?v) (m @ ?v) = m" by simp
  have last: "?F (prevAfter (Some c) m', ?v, caps) = [(Some 0x10E0, [], caps(2 := Some m))]"
    using hdm cap by (simp add: setCapture_def tail_after_group2 del: dropWhile.simps)
  have "matches (Seq (Group 2 (Plus False anyChar)) ?K3) ?st
      = concat (map ?F (star False (matches (Cls ?P)) (Some c, m' @ ?v, caps)))"
    using plus_lazy_any_first[OF nl(1), of p "m' @ ?v" caps] cm
    by (simp add: matches_Seq[of "Group 2 (Plus False anyChar)"] matches_Group map_concat comp_def)
  also have "\<dots> = concat (map ?F (star False (matches (Cls ?P)) (prevAfter (Some c) m', ?v, caps)))"
    by (rule skip)
  also have "\<dots> = (Some 0x10E0, [], caps(2 := Some m))
       # concat (map ?F (tl (star False (matches (Cls ?P)) (prevAfter (Some c) m', ?v, caps))))"
    by (subst star_lazy_head) (simp only: list.map concat.simps last append_Cons append_Nil)
  finally show ?thesis by blast
qed

lemma hd_dropWhile_mem: "dropWhile P u \<noteq> [] \<Longrightarrow> hd (dropWhile P u) \<in> set u"
  using hd_in_set set_dropWhileD by metis

lemma dropWhile_head_keep: "m \<noteq> [] \<Longrightarrow> \<not> P (hd m) \<Longrightarrow> dropWhile P (m @ v) = m @ v"
  by (cases m) auto

lemma group_seq:
  "matches (Seq (Group i a) K) st
     = concat (map (\<lambda>st'. matches K (setCapture i st st')) (matches a st))"
  by (simp add: matches_Seq matches_Group comp_def)

lemma address_pattern_first:
  assumes d: "d \<noteq> []" "\<forall>x\<in>set d. \<not> isLineTerminator x" "0x2D \<notin> set d" "\<not> isSpace (last d)"
    and m: "m \<noteq> []" "\<forall>x\<in>set m. \<not> isLineTerminator x" "\<not> isSpace (hd m)" "\<not> isSpace (last m)"
  shows "\<exists>ts. matches addressPattern (None, d @ 32 # 45 # 32 # m @ 32 # mr, noCaptures)
           = (Some 0x10E0, [], noCaptures(1 := Some d, 2 := Some m)) # ts"
proof -
  let ?K3 = "Seq (Star True space) (Seq (Lit mr) (Seq Eol Eps))"
  let ?G2 = "Group 2 (Plus False anyChar)"
  let ?K2 = "Seq (Star True space) (Seq ?G2 ?K3)"
  let ?K1 = "Seq (Star True space) (Seq (Chr 0x2D) ?K2)"
  let ?G1 = "Group 1 (Plus False anyChar)"
  let ?P = "\<lambda>x. \<not> isLineTerminator x"
  let ?w = "32 # 45 # 32 # m @ 32 # mr"
  let ?st0 = "(None, d @ ?w, noCaptures)"
  let ?F = "\<lambda>st'. matches ?K1 (setCapture 1 ?st0 st')"
  let ?caps1 = "noCaptures(1 := Some d)"
  from d(1) obtain c d' where cd: "d = c # d'" by (cases d) auto
  have nl: "\<not> isLineTerminator c" "\<forall>x\<in>set d'. \<not> isLineTerminator x" using d(2) cd by auto
  have pat: "addressPattern = Seq Bol (Seq ?G1 ?K1)"
    by (simp add: addressPattern_def seqs_def)
  have inside: "?F (prevAfter (Some c) u1, u2 @ ?w, noCaptures) = []" if "d' = u1 @ u2" "u2 \<noteq> []" for u1 u2
  proof -
    have "last u2 = last d" using that cd by simp
    then have "\<exists>x\<in>set u2. \<not> isSpace x" using d(4) that(2) last_in_set by metis
    from dropWhile_append_keep[OF this, of "32 # 45 # 32 # m @ 32 # mr"]
    have dw: "dropWhile isSpace (u2 @ ?w) = dropWhile isSpace u2 @ ?w" "dropWhile isSpace u2 \<noteq> []"
      by simp_all
    have "hd (dropWhile isSpace u2) \<in> set d" using hd_dropWhile_mem[OF dw(2)] that(1) cd by auto
    then have "hd (dropWhile isSpace (u2 @ ?w)) \<noteq> 0x2D" using dw d(3) by auto
    then have "dropWhile isSpace (u2 @ ?w) = [] \<or> hd (dropWhile isSpace (u2 @ ?w)) \<noteq> 0x2D"
      by (rule disjI2)
    then show ?thesis unfolding setCapture_def state_proj by (rule hyphen_part_fails)
  qed
  have skip: "concat (map ?F (star False (matches (Cls ?P)) (Some c, d' @ ?w, noCaptures)))
       = concat (map ?F (star False (matches (Cls ?P)) (prevAfter (Some c) d', ?w, noCaptures)))"
    by (rule lazy_skip) (use nl inside in auto)
  have dw2: "dropWhile isSpace ?w = 0x2D # (32 # m @ 32 # mr)"
    using space_facts by simp
  have cap: "take (length (d @ ?w) - length ?w) (d @ ?w) = d" by simp
  have dw3: "dropWhile isSpace (32 # m @ 32 # mr) = m @ 32 # mr"
    using dropWhile_head_keep[of m isSpace "32 # mr"] m(1) m(3) space_facts by simp
  obtain ts1 where ts1: "star True (matches space) (Some 0x2D, 32 # m @ 32 # mr, ?caps1)
      = (prevAfter (Some 0x2D) (takeWhile isSpace (32 # m @ 32 # mr)), m @ 32 # mr, ?caps1) # ts1"
    using star_greedy_first[of isSpace "Some 0x2D" "32 # m @ 32 # mr" ?caps1] dw3
    by (auto simp: space_def)
  obtain ts2 where ts2: "matches (Seq ?G2 ?K3)
        (prevAfter (Some 0x2D) (takeWhile isSpace (32 # m @ 32 # mr)), m @ 32 # mr, ?caps1)
      = (Some 0x10E0, [], ?caps1(2 := Some m)) # ts2"
    using group2_part[OF m(1,2,4)] by blast
  have k2: "matches ?K2 (Some 0x2D, 32 # m @ 32 # mr, ?caps1)
      = (Some 0x10E0, [], ?caps1(2 := Some m)) # (ts2 @ concat (map (matches (Seq ?G2 ?K3)) ts1))"
    unfolding matches_Seq[of "Star True space" "Seq ?G2 ?K3"] matches_Star ts1
    by (simp only: list.map concat.simps ts2 append_Cons)
  have lastF: "?F (prevAfter (Some c) d', ?w, noCaptures)
      = (Some 0x10E0, [], ?caps1(2 := Some m)) # (ts2 @ concat (map (matches (Seq ?G2 ?K3)) ts1))"
    unfolding setCapture_def state_proj cap hyphen_part_passes[OF dw2] by (rule k2)
  have "matches addressPattern ?st0 = matches (Seq ?G1 ?K1) ?st0"
    by (simp add: pat matches_Seq[of Bol] matches_Bol)
  also have "\<dots> = concat (map ?F (star False (matches (Cls ?P)) (Some c, d' @ ?w, noCaptures)))"
  proof -
    have "matches (Plus False anyChar) ?st0
        = star False (matches (Cls ?P)) (Some c, d' @ ?w, noCaptures)"
      using plus_lazy_any_first[OF nl(1), of None "d' @ ?w" noCaptures] cd by simp
    then show ?thesis by (simp only: group_seq)
  qed
  also have "\<dots> = concat (map ?F (star False (matches (Cls ?P)) (prevAfter (Some c) d', ?w, noCaptures)))"
    by (rule skip)
  also have "\<dots> = (Some 0x10E0, [], ?caps1(2 := Some m))
       # ((ts2 @ concat (map (matches (Seq ?G2 ?K3)) ts1))
          @ concat (map ?F (tl (star False (matches (Cls ?P)) (prevAfter (Some c) d', ?w, noCaptures)))))"
    by (subst star_lazy_head) (simp only: list.map concat.simps lastF append_Cons)
  finally show ?thesis by blast
qed

section \<open>The address pattern: matches and misses\<close>

lemma star_rest_suffix:
  "st' \<in> set (star g iter st) \<Longrightarrow>
   (\<And>s s'. s' \<in> set (iter s) \<Longrightarrow> suffix (restOf s') (restOf s)) \<Longrightarrow>
   suffix (restOf st') (restOf st)"
proof (induction g iter st arbitrary: st' rule: star.induct)
  case (1 greedy iter st)
  from "1.prems"(1) have "st' = st \<or> (\<exists>s1\<in>set (iter st). length (restOf s1) < length (restOf st)
        \<and> st' \<in> set (star greedy iter s1))"
    by (subst (asm) star.simps) (auto simp: Let_def split: if_splits)
  then show ?case
  proof
    assume "st' = st" then show ?thesis by simp
  next
    assume "\<exists>s1\<in>set (iter st). length (restOf s1) < length (restOf st) \<and> st' \<in> set (star greedy iter s1)"
    then obtain s1 where s1: "s1 \<in> set (iter st)" "length (restOf s1) < length (restOf st)"
      "st' \<in> set (star greedy iter s1)" by blast
    have "suffix (restOf st') (restOf s1)" using "1.IH"[OF s1(1) s1(2) s1(3) "1.prems"(2)] .
    moreover have "suffix (restOf s1) (restOf st)" using "1.prems"(2)[OF s1(1)] .
    ultimately show ?thesis using suffix_order.trans by blast
  qed
qed

lemma matches_rest_suffix:
  "st' \<in> set (matches r st) \<Longrightarrow> suffix (restOf st') (restOf st)"
proof (induction r arbitrary: st st')
  case (Cls P)
  then show ?case
    by (cases st) (auto simp: matches.simps suffix_def split: list.splits if_splits)
next
  case (Seq a b)
  then obtain s1 where "s1 \<in> set (matches a st)" "st' \<in> set (matches b s1)"
    by (auto simp: matches.simps)
  then show ?case using Seq.IH suffix_order.trans by blast
next
  case (Star g a)
  then show ?case using star_rest_suffix[of st' g "matches a" st] by (simp add: matches.simps)
next
  case (Group i a)
  then obtain s1 where "s1 \<in> set (matches a st)" "st' = setCapture i st s1"
    by (auto simp: matches.simps)
  then show ?case using Group.IH by (simp add: setCapture_def)
next
  case (Look a)
  then show ?case by (auto simp: matches.simps split: list.splits)
qed (auto simp: matches.simps split: if_splits)

lemma seq_nonempty:
  assumes "matches (Seq a b) st \<noteq> []"
  shows "\<exists>s1. suffix (restOf s1) (restOf st) \<and> matches b s1 \<noteq> []"
proof -
  from assms obtain s1 where "s1 \<in> set (matches a st)" "matches b s1 \<noteq> []"
    by (auto simp: matches.simps)
  then show ?thesis using matches_rest_suffix by blast
qed

lemma address_pattern_needs_mr:
  assumes "matches addressPattern st \<noteq> []"
  shows "suffix mr (restOf st)"
proof -
  let ?K3 = "Seq (Lit mr) (Seq Eol Eps)"
  have step: "\<exists>s1. suffix (restOf s1) (restOf st) \<and> matches b s1 \<noteq> []"
    if "\<exists>s1. suffix (restOf s1) (restOf st) \<and> matches (Seq a b) s1 \<noteq> []" for a b
    using that seq_nonempty suffix_order.trans by blast
  have pat: "addressPattern = Seq Bol (Seq (Group 1 (Plus False anyChar)) (Seq (Star True space)
      (Seq (Chr 0x2D) (Seq (Star True space) (Seq (Group 2 (Plus False anyChar))
      (Seq (Star True space) ?K3))))))"
    by (simp add: addressPattern_def seqs_def)
  have h0: "\<exists>s1. suffix (restOf s1) (restOf st) \<and> matches addressPattern s1 \<noteq> []"
    using assms by blast
  note h7 = h0[unfolded pat, THEN step, THEN step, THEN step, THEN step, THEN step, THEN step,
      THEN step]
  then have "\<exists>s1. suffix (restOf s1) (restOf st) \<and> matches ?K3 s1 \<noteq> []" .
  then obtain s1 where s1: "suffix (restOf s1) (restOf st)" "matches ?K3 s1 \<noteq> []" by blast
  obtain p r c where "s1 = (p, r, c)" by (cases s1) auto
  with s1(2) have "restOf s1 = mr" by (auto simp: mr_eol split: if_splits)
  with s1(1) show ?thesis by simp
qed

lemma execFrom_Bol: "execFrom (Seq Bol r) (Some c) pre rest = None"
  by (induction rest arbitrary: c pre) (simp_all add: matches_Seq matches_Bol)

lemma regexExec_Bol:
  "regexExec (Seq Bol r) s =
    (case matches (Seq Bol r) (None, s, noCaptures) of [] \<Rightarrow> None | st # _ \<Rightarrow> Some ([], st))"
  by (cases s) (simp_all add: regexExec_def execFrom_Bol split: list.splits)

lemma addressPattern_Bol: "\<exists>r. addressPattern = Seq Bol r"
  by (simp add: addressPattern_def seqs_def)

lemma transformAddress_unchanged:
  assumes "\<not> suffix mr address"
  shows "transformAddress address = Inr address"
proof -
  have "matches addressPattern (None, address, noCaptures) = []"
    using address_pattern_needs_mr[of "(None, address, noCaptures)"] assms by auto
  moreover obtain r where "addressPattern = Seq Bol r" using addressPattern_Bol by blast
  ultimately have "regexExec addressPattern address = None"
    using regexExec_Bol[of r address] by simp
  then show ?thesis by (simp add: transformAddress_def regexMatch_def)
qed

lemma transformAddress_form:
  assumes d: "d \<noteq> []" "\<forall>x\<in>set d. \<not> isLineTerminator x" "0x2D \<notin> set d"
      "\<not> isSpace (hd d)" "\<not> isSpace (last d)"
    and m: "m \<noteq> []" "\<forall>x\<in>set m. \<not> isLineTerminator x" "\<not> isSpace (hd m)" "\<not> isSpace (last m)"
  shows "transformAddress (d @ ascii '' - '' @ m @ [32] @ mr)
       = Inr (m @ [32] @ mikroraioni @ ascii '' - '' @ d)"
proof -
  have e: "d @ ascii '' - '' @ m @ [32] @ mr = d @ 32 # 45 # 32 # m @ 32 # mr"
    by (simp add: ascii_def)
  obtain ts where ts: "matches addressPattern (None, d @ 32 # 45 # 32 # m @ 32 # mr, noCaptures)
           = (Some 0x10E0, [], noCaptures(1 := Some d, 2 := Some m)) # ts"
    using address_pattern_first[OF d(1,2,3,5) m] by blast
  obtain r where "addressPattern = Seq Bol r" using addressPattern_Bol by blast
  then have "regexExec addressPattern (d @ 32 # 45 # 32 # m @ 32 # mr)
      = Some ([], (Some 0x10E0, [], noCaptures(1 := Some d, 2 := Some m)))"
    using regexExec_Bol[of r "d @ 32 # 45 # 32 # m @ 32 # mr"] ts by simp
  then have rm: "regexMatch addressPattern (d @ 32 # 45 # 32 # m @ 32 # mr)
      = Some (noCaptures(1 := Some d, 2 := Some m))"
    by (simp add: regexMatch_def)
  have td: "trim d = d" by (rule trim_id[OF d(1,4,5)])
  have tm: "trim m = m" by (rule trim_id[OF m(1,3,4)])
  show ?thesis
    unfolding e using d(1) by (simp add: transformAddress_def rm td tm)
qed

section \<open>The two address transforms\<close>

lemmas re_eval = seqs_def alts_def Plus_def Opt_def Chr_def ChrI_def Lit_def LitI_def OneOfI_def
  anyChar_def space_def roman_def romanOrDigit_def optDot_def canonicalize_def
  regexMatch_def regexExec_def replaceRe_def replaceAllRe_def replaceAllFrom.simps constantly_def
  noCaptures_def setCapture_def matches.simps wordBefore_def wordAfter_def isWordChar_def
  star.simps isLineTerminator_def isSpace_def isDigit_def Let_def

lemmas street_words = nutsubidzis_def pl_def plato_def kvart_def kvartali_def kAbbr_def kucha_def gamz_def
  chikhi_def chAbbr_def shesakhvevi_def shes_def mr_def mikroraioni_def aspindzis_def

lemmas street_eval = normalizeStreetForSs_def nutsubidzePlatoRegex_def mkrKvRegex_def shesRegex_def
  branchNumberRegex_def streetTypeRegex_def trailingRegex_def spacesRegex_def trim_def ascii_def

lemma normalizeStreet_plateau:
  "normalizeStreetForSs plateauAddress = Inr (nutsubidzis @ ascii '' II '' @ plato)"
  by (simp add: street_eval plateauAddress_def re_eval street_words)

lemma normalizeStreet_kAbbr:
  "normalizeStreetForSs (aspindzis @ [32] @ kAbbr @ [0x2E]) = Inr aspindzis"
  by (simp add: street_eval re_eval street_words)

lemma normalizeStreet_kucha: "normalizeStreetForSs (aspindzis @ [32] @ kucha) = Inr aspindzis"
  by (simp add: street_eval re_eval street_words)

lemma normalizeStreet_chikhi: "normalizeStreetForSs (aspindzis @ [32] @ chikhi) = Inr aspindzis"
  by (simp add: street_eval re_eval street_words)

text \<open>
  The branch number before a street-type word stays: \<open>\\b\<close> after the word asks for an
  ASCII word character next to it, and a Georgian letter is none.
\<close>

lemma normalizeStreet_branch_number:
  "normalizeStreetForSs (aspindzis @ ascii '' I '' @ kAbbr @ [0x2E]) = Inr (aspindzis @ ascii '' I'')"
  by (simp add: street_eval re_eval street_words)




section \<open>Loading the selector mapping\<close>

lemmas csv_eval = csvLines_def trim_def isSpace_def isLineTerminator_def ascii_def
  parseCSVLine_def openBrackets_def closeBrackets_def buildMappings_def Let_def

text \<open>The example resources, read.\<close>

lemma headerOnly_lines: "csvLines (responseText headerOnlyResponse) = [ascii ''title,address'']"
  by (simp add: headerOnlyResponse_def csv_eval)

lemma twoLine_lines:
  "csvLines (responseText twoLineResponse) = [ascii ''title,address'', ascii ''h1,div:not(.a,.b)'']"
  by (simp add: twoLineResponse_def csv_eval)

lemma parse_header: "parseCSVLine (ascii ''title,address'') = [ascii ''title'', ascii ''address'']"
  by (simp add: csv_eval)

lemma parse_selectors:
  "parseCSVLine (ascii ''h1,div:not(.a,.b)'') = [ascii ''h1'', ascii ''div:not(.a,.b)'']"
  by (simp add: csv_eval)

lemma twoLine_loaded:
  "mappingsForScrape (Inr twoLineResponse) (ascii ''address'') = Some (ascii ''div:not(.a,.b)'')
   \<and> mappingsForScrape (Inr twoLineResponse) (ascii ''title'') = Some (ascii ''h1'')
   \<and> mappingsForScrape (Inr twoLineResponse) (ascii ''area'') = None"
  by (simp add: mappingsForScrape_def loadMappings_def twoLine_lines parse_header parse_selectors
        Let_def buildMappings_def)
     (simp add: twoLineResponse_def ascii_def)

text \<open>Without a selector for the attribute the built-in selectors are used.\<close>

lemma scrapeMappedAttribute_empty:
  "scrapeMappedAttribute pg Map.empty attributeName = fallbackMatch pg attributeName"
  by (simp add: scrapeMappedAttribute_def)

lemma loadMappings_rejected:
  "loadMappings (Inl error) = Inl error"
  by (simp add: loadMappings_def)

lemma loadMappings_not_ok:
  "\<not> ok response \<Longrightarrow>
   loadMappings (Inr response) =
     Inl (ErrorMsg (ascii ''Failed to load mappings.csv: '' @ statusText response))"
  by (simp add: loadMappings_def)

lemma loadMappings_short:
  "ok response \<Longrightarrow> length (csvLines (responseText response)) < 2 \<Longrightarrow>
   loadMappings (Inr response) =
     Inl (ErrorMsg (ascii ''mappings.csv must have at least 2 lines (header and data)''))"
  by (simp add: loadMappings_def Let_def)

lemma loadMappings_parsed:
  "ok response \<Longrightarrow> \<not> length (csvLines (responseText response)) < 2 \<Longrightarrow>
   loadMappings (Inr response) =
     Inr (buildMappings (parseCSVLine (csvLines (responseText response) ! 0))
                        (parseCSVLine (csvLines (responseText response) ! 1)))"
  by (simp add: loadMappings_def Let_def)

lemma mappingsForScrape_failed:
  "loadMappings fetched = Inl error \<Longrightarrow> mappingsForScrape fetched = Map.empty"
  by (simp add: mappingsForScrape_def)

text \<open>
  Claim C10, as stated, fails: when the resource cannot be fetched, or the response is not
  ok, \<open>loadMappings\<close> does not return an empty mapping. Its \<open>catch\<close> logs the error and
  throws it again, so the caller receives the error.
\<close>

theorem loadMappings_failure_counterexample:
  "loadMappings (Inl TypeError) = Inl TypeError
   \<and> loadMappings (Inl TypeError) \<noteq> Inr Map.empty
   \<and> loadMappings (Inr \<lparr> ok = False, statusText = ascii ''Not Found'', responseText = [] \<rparr>)
       = Inl (ErrorMsg (ascii ''Failed to load mappings.csv: Not Found''))"
  by (simp add: loadMappings_def ascii_def)

text \<open>
  Claim C10, amended. When the mapping resource cannot be fetched, when the response is not
  ok, and when its text has fewer than two non-blank lines, \<open>loadMappings\<close> throws (the
  fetch error, or an error that names the cause); any text with two non-blank lines is
  parsed into a mapping. Whenever \<open>loadMappings\<close> throws, the callers catch the error and
  scrape with the empty mapping, and the extractor then reads every attribute with the
  built-in fallback selectors of the attribute.
\<close>

theorem loadMappings_rethrows_and_callers_fall_back:
  "(\<forall>error. loadMappings (Inl error) = Inl error)
   \<and> (\<forall>response. \<not> ok response \<longrightarrow>
         loadMappings (Inr response)
           = Inl (ErrorMsg (ascii ''Failed to load mappings.csv: '' @ statusText response)))
   \<and> (\<forall>response. ok response \<and> length (csvLines (responseText response)) < 2 \<longrightarrow>
         loadMappings (Inr response)
           = Inl (ErrorMsg (ascii ''mappings.csv must have at least 2 lines (header and data)'')))
   \<and> (\<forall>response. ok response \<and> 2 \<le> length (csvLines (responseText response)) \<longrightarrow>
         (\<exists>mappings. loadMappings (Inr response) = Inr mappings))
   \<and> (\<forall>fetched error. loadMappings fetched = Inl error \<longrightarrow>
         mappingsForScrape fetched = Map.empty
         \<and> (\<forall>pg attributeName.
               scrapeMappedAttribute pg (mappingsForScrape fetched) attributeName
                 = (case map_of FALLBACK_SELECTORS attributeName of
                      Some fallbackSelectors \<Rightarrow> getFirstTextMatch pg fallbackSelectors
                    | None \<Rightarrow> None)))"
proof (intro conjI allI impI)
  fix error :: jserror
  show "loadMappings (Inl error) = Inl error" by (rule loadMappings_rejected)
next
  fix response :: response
  assume "\<not> ok response"
  then show "loadMappings (Inr response)
      = Inl (ErrorMsg (ascii ''Failed to load mappings.csv: '' @ statusText response))"
    by (rule loadMappings_not_ok)
next
  fix response :: response
  assume "ok response \<and> length (csvLines (responseText response)) < 2"
  then show "loadMappings (Inr response)
      = Inl (ErrorMsg (ascii ''mappings.csv must have at least 2 lines (header and data)''))"
    by (simp add: loadMappings_short)
next
  fix response :: response
  assume "ok response \<and> 2 \<le> length (csvLines (responseText response))"
  then show "\<exists>mappings. loadMappings (Inr response) = Inr mappings"
    by (simp add: loadMappings_parsed)
next
  fix fetched :: "jserror + response" and error :: jserror
  assume "loadMappings fetched = Inl error"
  then show "mappingsForScrape fetched = Map.empty" by (rule mappingsForScrape_failed)
next
  fix fetched :: "jserror + response" and error :: jserror and pg :: page and attributeName :: jsstring
  assume "loadMappings fetched = Inl error"
  then have "mappingsForScrape fetched = Map.empty" by (rule mappingsForScrape_failed)
  then show "scrapeMappedAttribute pg (mappingsForScrape fetched) attributeName
      = (case map_of FALLBACK_SELECTORS attributeName of
           Some fallbackSelectors \<Rightarrow> getFirstTextMatch pg fallbackSelectors
         | None \<Rightarrow> None)"
    by (simp add: scrapeMappedAttribute_empty fallbackMatch_def)
qed


theorem loadMappings_rethrows_and_callers_fall_back_witness:
  "loadMappings (Inl TypeError) = Inl TypeError
   \<and> \<not> ok notFoundResponse
   \<and> loadMappings (Inr notFoundResponse)
       = Inl (ErrorMsg (ascii ''Failed to load mappings.csv: '' @ statusText notFoundResponse))
   \<and> ok headerOnlyResponse \<and> length (csvLines (responseText headerOnlyResponse)) < 2
   \<and> loadMappings (Inr headerOnlyResponse)
       = Inl (ErrorMsg (ascii ''mappings.csv must have at least 2 lines (header and data)''))
   \<and> ok twoLineResponse \<and> 2 \<le> length (csvLines (responseText twoLineResponse))
   \<and> (\<exists>mappings. loadMappings (Inr twoLineResponse) = Inr mappings)
   \<and> mappingsForScrape (Inr notFoundResponse) = Map.empty
   \<and> (\<forall>pg attributeName.
         scrapeMappedAttribute pg (mappingsForScrape (Inr notFoundResponse)) attributeName
           = (case map_of FALLBACK_SELECTORS attributeName of
                Some fallbackSelectors \<Rightarrow> getFirstTextMatch pg fallbackSelectors
              | None \<Rightarrow> None))"
proof -
  note t = loadMappings_rethrows_and_callers_fall_back
  have a: "\<not> ok notFoundResponse" by (simp add: notFoundResponse_def)
  have b: "ok headerOnlyResponse \<and> length (csvLines (responseText headerOnlyResponse)) < 2"
    by (simp add: headerOnly_lines) (simp add: headerOnlyResponse_def)
  have c: "ok twoLineResponse \<and> 2 \<le> length (csvLines (responseText twoLineResponse))"
    by (simp add: twoLine_lines) (simp add: twoLineResponse_def)
  have e: "loadMappings (Inr notFoundResponse)
      = Inl (ErrorMsg (ascii ''Failed to load mappings.csv: '' @ statusText notFoundResponse))"
    using t[THEN conjunct2, THEN conjunct1, rule_format, OF a] .
  show ?thesis
    using t[THEN conjunct1, rule_format, of TypeError] a e b c
      t[THEN conjunct2, THEN conjunct2, THEN conjunct1, rule_format, OF b]
      t[THEN conjunct2, THEN conjunct2, THEN conjunct2, THEN conjunct1, rule_format, OF c]
      t[THEN conjunct2, THEN conjunct2, THEN conjunct2, THEN conjunct2, rule_format, OF e]
    by blast
qed

section \<open>The address transform always returns\<close>

lemma star_caps_kept:
  "st' \<in> set (star g iter st) \<Longrightarrow>
   (\<And>s s'. s' \<in> set (iter s) \<Longrightarrow> capsOf s i \<noteq> None \<Longrightarrow> capsOf s' i \<noteq> None) \<Longrightarrow>
   capsOf st i \<noteq> None \<Longrightarrow> capsOf st' i \<noteq> None"
proof (induction g iter st arbitrary: st' rule: star.induct)
  case (1 greedy iter st)
  from "1.prems"(1) have "st' = st \<or> (\<exists>s1\<in>set (iter st). length (restOf s1) < length (restOf st)
        \<and> st' \<in> set (star greedy iter s1))"
    by (subst (asm) star.simps) (auto simp: Let_def split: if_splits)
  then show ?case
  proof
    assume "st' = st" then show ?thesis using "1.prems"(3) by simp
  next
    assume "\<exists>s1\<in>set (iter st). length (restOf s1) < length (restOf st) \<and> st' \<in> set (star greedy iter s1)"
    then obtain s1 where s1: "s1 \<in> set (iter st)" "length (restOf s1) < length (restOf st)"
      "st' \<in> set (star greedy iter s1)" by blast
    have c1: "capsOf s1 i \<noteq> None" using "1.prems"(2)[OF s1(1) "1.prems"(3)] .
    show ?thesis using "1.IH"[OF s1(1) s1(2) s1(3) "1.prems"(2) c1] .
  qed
qed

lemma matches_caps_kept:
  "st' \<in> set (matches r st) \<Longrightarrow> capsOf st i \<noteq> None \<Longrightarrow> capsOf st' i \<noteq> None"
proof (induction r arbitrary: st st')
  case (Cls P)
  then show ?case
    by (cases st) (auto simp: matches.simps split: list.splits if_splits)
next
  case (Seq a b)
  then obtain s1 where "s1 \<in> set (matches a st)" "st' \<in> set (matches b s1)"
    by (auto simp: matches.simps)
  then show ?case using Seq.IH Seq.prems(2) by blast
next
  case (Star g a)
  then show ?case using star_caps_kept[of st' g "matches a" st i] by (simp add: matches.simps)
next
  case (Group j a)
  then obtain s1 where "s1 \<in> set (matches a st)" "st' = setCapture j st s1"
    by (auto simp: matches.simps)
  then show ?case using Group.IH Group.prems(2) by (simp add: setCapture_def)
next
  case (Look a)
  have "\<exists>s1 rest. matches a st = s1 # rest \<and> st' = (prevOf st, restOf st, capsOf s1)"
    using Look.prems(1) by (cases "matches a st") (simp_all add: matches.simps)
  then obtain s1 rest where m: "matches a st = s1 # rest" "st' = (prevOf st, restOf st, capsOf s1)"
    by blast
  then have "s1 \<in> set (matches a st)" by simp
  then have "capsOf s1 i \<noteq> None" using Look.IH Look.prems(2) by blast
  then show ?case using m by simp
qed (auto simp: matches.simps split: if_splits)

lemma matches_Group_defined:
  "st' \<in> set (matches (Group i a) st) \<Longrightarrow> capsOf st' i \<noteq> None"
  by (auto simp: matches.simps setCapture_def)

lemma matches_Seq_mem:
  "st' \<in> set (matches (Seq a b) st) \<Longrightarrow> \<exists>s1\<in>set (matches a st). st' \<in> set (matches b s1)"
  by (auto simp: matches.simps)

lemma addressPattern_groups:
  assumes "st' \<in> set (matches addressPattern st)"
  shows "capsOf st' 1 \<noteq> None \<and> capsOf st' 2 \<noteq> None"
proof -
  let ?G1 = "Group 1 (Plus False anyChar)"
  let ?G2 = "Group 2 (Plus False anyChar)"
  let ?K2 = "Seq (Star True space) (Seq (Lit mr) (Seq Eol Eps))"
  let ?K1 = "Seq (Star True space) (Seq (Chr 0x2D) (Seq (Star True space) (Seq ?G2 ?K2)))"
  have pat: "addressPattern = Seq Bol (Seq ?G1 ?K1)"
    by (simp add: addressPattern_def seqs_def)
  from assms obtain s0 where s0: "s0 \<in> set (matches Bol st)" "st' \<in> set (matches (Seq ?G1 ?K1) s0)"
    unfolding pat using matches_Seq_mem by blast
  then obtain s1 where s1: "s1 \<in> set (matches ?G1 s0)" "st' \<in> set (matches ?K1 s1)"
    using matches_Seq_mem by blast
  have c1: "capsOf s1 1 \<noteq> None" using s1(1) by (rule matches_Group_defined)
  have one: "capsOf st' 1 \<noteq> None" using matches_caps_kept[OF s1(2) c1] .
  from s1(2) obtain s2 where s2: "st' \<in> set (matches (Seq (Chr 0x2D) (Seq (Star True space) (Seq ?G2 ?K2))) s2)"
    using matches_Seq_mem by blast
  then obtain s3 where s3: "st' \<in> set (matches (Seq (Star True space) (Seq ?G2 ?K2)) s3)"
    using matches_Seq_mem by blast
  then obtain s4 where s4: "st' \<in> set (matches (Seq ?G2 ?K2) s4)"
    using matches_Seq_mem by blast
  then obtain s5 where s5: "s5 \<in> set (matches ?G2 s4)" "st' \<in> set (matches ?K2 s5)"
    using matches_Seq_mem by blast
  have c2: "capsOf s5 2 \<noteq> None" using s5(1) by (rule matches_Group_defined)
  have two: "capsOf st' 2 \<noteq> None" using matches_caps_kept[OF s5(2) c2] .
  show ?thesis using one two by simp
qed

lemma execFrom_state:
  "execFrom r prev pre s = Some (pre', st) \<Longrightarrow>
   \<exists>p rest. st \<in> set (matches r (p, rest, noCaptures))"
proof (induction s arbitrary: prev pre)
  case Nil
  then have "st \<in> set (matches r (prev, [], noCaptures))"
    by (cases "matches r (prev, [], noCaptures)") simp_all
  then show ?case by blast
next
  case (Cons c cs)
  show ?case
  proof (cases "matches r (prev, c # cs, noCaptures)")
    case Nil
    then have "execFrom r (Some c) (pre @ [c]) cs = Some (pre', st)" using Cons.prems by simp
    then show ?thesis by (rule Cons.IH)
  next
    case (Cons s1 rest1)
    then have "st = s1" using Cons.prems by simp
    then have "st \<in> set (matches r (prev, c # cs, noCaptures))" using Cons by simp
    then show ?thesis by blast
  qed
qed

lemma transformAddress_returns: "\<exists>t. transformAddress address = Inr t"
proof (cases "regexMatch addressPattern address")
  case None
  then show ?thesis by (simp add: transformAddress_def)
next
  case (Some m)
  then obtain pre st where e: "regexExec addressPattern address = Some (pre, st)" and m: "m = capsOf st"
    by (auto simp: regexMatch_def)
  from e obtain p rest where "st \<in> set (matches addressPattern (p, rest, noCaptures))"
    unfolding regexExec_def using execFrom_state by blast
  then have "capsOf st 1 \<noteq> None \<and> capsOf st 2 \<noteq> None" by (rule addressPattern_groups)
  then obtain g1 g2 where "m 1 = Some g1" "m 2 = Some g2" using m by auto
  then show ?thesis using Some by (simp add: transformAddress_def Let_def)
qed

end
